(* ===== verification/Prelude.thy ===== *)
theory Prelude
  imports Complex_Main
begin

text \<open>
  Shared vocabulary of the clinic model: Python's notion of whitespace and
  \<open>str.strip()\<close>, Python truthiness of the values the handlers test, and the
  lemma collections the component theories feed.  Strings are \<open>char list\<close>s
  (bytes); Python's \<open>str\<close> counts code points, which matters only for
  non-ASCII whitespace (see \<open>py_isspace\<close>).
\<close>

named_theorems table_simps "equations for the SQL table operations"

section \<open>Python strings\<close>

text \<open>
  \<open>str.strip()\<close> with no argument removes the characters for which
  \<open>str.isspace()\<close> holds.  In the ASCII range these are
  \<open>\t \n \v \f \r\<close> (0x09 to 0x0D), the four separators 0x1C to 0x1F,
  and the space 0x20.  Unicode whitespace beyond ASCII (U+0085, U+00A0, ...)
  is not modelled: a \<open>char\<close> here is one byte.
\<close>

definition py_whitespace :: "char list" where
  "py_whitespace =
     [CHR 0x09, CHR 0x0A, CHR 0x0B, CHR 0x0C, CHR 0x0D,
      CHR 0x1C, CHR 0x1D, CHR 0x1E, CHR 0x1F, CHR 0x20]"

definition py_isspace :: "char \<Rightarrow> bool" where
  "py_isspace c \<longleftrightarrow> c \<in> set py_whitespace"

definition py_strip :: "string \<Rightarrow> string" where
  "py_strip s = rev (dropWhile py_isspace (rev (dropWhile py_isspace s)))"

lemma py_isspace_simps [simp]:
  "py_isspace (CHR '' '')" "py_isspace (CHR 0x09)" "py_isspace (CHR 0x0A)"
  "py_isspace (CHR 0x0D)"
  by (simp_all add: py_isspace_def py_whitespace_def)

lemma py_strip_Nil_iff: "py_strip s = [] \<longleftrightarrow> (\<forall>c\<in>set s. py_isspace c)"
proof -
  have "py_strip s = [] \<longleftrightarrow> dropWhile py_isspace (rev (dropWhile py_isspace s)) = []"
    by (simp add: py_strip_def)
  also have "\<dots> \<longleftrightarrow> (\<forall>c\<in>set (dropWhile py_isspace s). py_isspace c)"
    by simp
  also have "\<dots> \<longleftrightarrow> (\<forall>c\<in>set s. py_isspace c)"
    by (induction s) auto
  finally show ?thesis .
qed

lemma py_strip_Nil [simp]: "py_strip [] = []"
  by (simp add: py_strip_def)

section \<open>Python truthiness\<close>

text \<open>
  The handlers test SQLite column values with Python's \<open>if x\<close> / \<open>not x\<close>:
  \<open>None\<close> and \<open>0\<close> are false.  Flags are INTEGER columns that may be NULL.
\<close>

definition py_truthy_int :: "int option \<Rightarrow> bool" where
  "py_truthy_int v \<longleftrightarrow> v \<noteq> None \<and> v \<noteq> Some 0"

lemma py_truthy_int_simps [simp]:
  "\<not> py_truthy_int None" "py_truthy_int (Some n) \<longleftrightarrow> n \<noteq> 0"
  by (simp_all add: py_truthy_int_def)

text \<open>\<open>x or 0\<close> on a nullable REAL column.\<close>

definition or_zero :: "real option \<Rightarrow> real" where
  "or_zero v = (case v of None \<Rightarrow> 0 | Some x \<Rightarrow> x)"

lemma or_zero_simps [simp]: "or_zero None = 0" "or_zero (Some x) = x"
  by (simp_all add: or_zero_def)

end
