(* ===== verification/Store.thy ===== *)
theory Store
  imports Prelude
begin

text \<open>
  The SQLite database of \<open>src/app.py\<close> (\<open>init_db\<close>, lines 15-40).  A table
  is the list of its rows in rowid order, each row paired with its PRIMARY KEY;
  lookups by key are \<open>map_of\<close>.  The four row types are records with the
  columns of the CREATE TABLE statements; a nullable column that some INSERT
  leaves unset is an \<open>option\<close>.  The operations are the SQL statements the
  handlers issue: INSERT (which raises \<open>sqlite3.IntegrityError\<close> on a duplicate
  key), INSERT OR IGNORE, INSERT OR REPLACE (delete, then append a new rowid)
  and UPDATE ... WHERE key = ?.
\<close>

section \<open>Tables\<close>

type_synonym 'r table = "(string \<times> 'r) list"

datatype sql_error = IntegrityError

definition tbl_insert :: "string \<Rightarrow> 'r \<Rightarrow> 'r table \<Rightarrow> sql_error + 'r table" where
  "tbl_insert k r t = (if map_of t k = None then Inr (t @ [(k, r)]) else Inl IntegrityError)"

definition tbl_insert_or_ignore :: "string \<Rightarrow> 'r \<Rightarrow> 'r table \<Rightarrow> 'r table" where
  "tbl_insert_or_ignore k r t = (if map_of t k = None then t @ [(k, r)] else t)"

definition tbl_insert_or_replace :: "string \<Rightarrow> 'r \<Rightarrow> 'r table \<Rightarrow> 'r table" where
  "tbl_insert_or_replace k r t = filter (\<lambda>p. fst p \<noteq> k) t @ [(k, r)]"

definition tbl_update :: "string \<Rightarrow> ('r \<Rightarrow> 'r) \<Rightarrow> 'r table \<Rightarrow> 'r table" where
  "tbl_update k f t = map (\<lambda>(k', r). if k' = k then (k', f r) else (k', r)) t"

section \<open>Rows\<close>

record patient_row =
  name :: string
  mobile_number :: string
  age :: string
  address :: string

record appointment_row =
  patient_id :: string
  reason :: string
  booking_date :: string
  appointment_date :: string
  booking_type :: string
  confirmed :: int
  checkin_status :: string
  checkin_time :: string

record diagnosis_row =
  chief_complaints :: string
  symptoms :: string
  mind :: string
  psychology :: string
  diagnosis :: string
  medicines :: string
  tests :: string
  next_visit :: string
  diagnosis_saved :: int
  medicines_prescribed :: int

record billing_row =
  consultation_charge :: "real option"
  medicine_charge :: "real option"
  courier_charge :: "real option"
  delivery_type :: "string option"
  delivered_to :: "string option"
  courier_channel :: "string option"
  courier_tracking :: "string option"
  amount_paid :: "real option"
  payment_date :: "string option"
  payment_id :: "string option"
  discount :: "real option"
  medicines_prepared :: "int option"
  medicines_handed_over :: "int option"
  couriered :: "int option"
  checkout_done :: "int option"

record db =
  patients :: "patient_row table"
  appointments :: "appointment_row table"
  diagnoses :: "diagnosis_row table"
  billing :: "billing_row table"

definition empty_db :: db where
  "empty_db = \<lparr>patients = [], appointments = [], diagnoses = [], billing = []\<rparr>"

section \<open>Shared queries and statements\<close>

text \<open>
  The placeholder row of
  \<open>INSERT OR IGNORE INTO billing (appointment_id, consultation_charge,
  medicine_charge, courier_charge, delivery_type, medicines_prepared)
  VALUES (?, 0, 0, 0, 'In-Person', 0)\<close>: the other columns are NULL.
\<close>

definition placeholder_billing :: billing_row where
  "placeholder_billing =
     \<lparr>consultation_charge = Some 0, medicine_charge = Some 0, courier_charge = Some 0,
      delivery_type = Some ''In-Person'', delivered_to = None, courier_channel = None,
      courier_tracking = None, amount_paid = None, payment_date = None, payment_id = None,
      discount = None, medicines_prepared = Some 0, medicines_handed_over = None,
      couriered = None, checkout_done = None\<rparr>"

definition ensure_billing :: "string \<Rightarrow> db \<Rightarrow> db" where
  "ensure_billing k d = d\<lparr>billing := tbl_insert_or_ignore k placeholder_billing (billing d)\<rparr>"

text \<open>
  \<open>SELECT p.mobile_number FROM appointments a JOIN patients p
  ON a.patient_id = p.patient_id WHERE a.id = ?\<close> followed by \<open>fetchone()\<close>:
  \<open>None\<close> when no row joins.
\<close>

definition appt_mobile :: "string \<Rightarrow> db \<Rightarrow> string option" where
  "appt_mobile k d =
     (case map_of (appointments d) k of
        None \<Rightarrow> None
      | Some a \<Rightarrow> map_option mobile_number (map_of (patients d) (patient_id a)))"

text \<open>\<open>SELECT patient_id FROM patients WHERE mobile_number = ?\<close>, first row.\<close>

definition find_patient_by_mobile :: "string \<Rightarrow> patient_row table \<Rightarrow> string option" where
  "find_patient_by_mobile m t = map_option fst (find (\<lambda>p. mobile_number (snd p) = m) t)"

section \<open>Integrity of the database\<close>

text \<open>
  What the schema's constraints promise: PRIMARY KEY in every table, the
  UNIQUE mobile number of patients, and the FOREIGN KEY from appointments to
  patients.  (SQLite does not enforce foreign keys unless asked to; the
  handlers keep this one anyway.  The foreign keys of \<open>diagnoses\<close> and
  \<open>billing\<close> are not kept, see \<open>Api\<close>.)
\<close>

definition keys_distinct :: "'r table \<Rightarrow> bool" where
  "keys_distinct t \<longleftrightarrow> distinct (map fst t)"

definition db_inv :: "db \<Rightarrow> bool" where
  "db_inv d \<longleftrightarrow>
     keys_distinct (patients d) \<and> keys_distinct (appointments d) \<and>
     keys_distinct (diagnoses d) \<and> keys_distinct (billing d) \<and>
     distinct (map (mobile_number \<circ> snd) (patients d)) \<and>
     (\<forall>a \<in> snd ` set (appointments d). patient_id a \<in> fst ` set (patients d))"

section \<open>Lemmas on the table operations\<close>

lemma tbl_insert_Inr_iff:
  "tbl_insert k r t = Inr t' \<longleftrightarrow> map_of t k = None \<and> t' = t @ [(k, r)]"
  by (auto simp: tbl_insert_def)

lemma tbl_insert_Inl_iff [table_simps]:
  "tbl_insert k r t = Inl IntegrityError \<longleftrightarrow> map_of t k \<noteq> None"
  by (simp add: tbl_insert_def)

lemma map_add_singleton_fresh [simp]:
  "m k = None \<Longrightarrow> [k \<mapsto> r] ++ m = m(k \<mapsto> r)"
  by (rule ext) (auto simp: map_add_def split: option.splits)

lemma map_of_snoc_fresh:
  "map_of t k = None \<Longrightarrow> map_of (t @ [(k, r)]) = (map_of t)(k \<mapsto> r)"
  by simp

lemma map_of_tbl_insert_or_ignore [table_simps]:
  "map_of (tbl_insert_or_ignore k r t) =
     (case map_of t k of None \<Rightarrow> (map_of t)(k \<mapsto> r) | Some _ \<Rightarrow> map_of t)"
  by (simp add: tbl_insert_or_ignore_def map_of_snoc_fresh split: option.split)

lemma map_of_filter_key:
  "map_of (filter (\<lambda>p. fst p \<noteq> k) t) = (map_of t)(k := None)"
  by (induction t) (auto simp: fun_upd_twist)

lemma map_of_tbl_insert_or_replace [table_simps]:
  "map_of (tbl_insert_or_replace k r t) = (map_of t)(k \<mapsto> r)"
proof -
  have "map_of (filter (\<lambda>p. fst p \<noteq> k) t) k = None"
    by (simp add: map_of_filter_key)
  then show ?thesis
    by (simp add: tbl_insert_or_replace_def map_of_snoc_fresh map_of_filter_key)
qed

lemma map_of_tbl_update [table_simps]:
  "map_of (tbl_update k f t) = (map_of t)(k := map_option f (map_of t k))"
  by (induction t) (auto simp: tbl_update_def fun_eq_iff)

lemma keys_tbl_update [table_simps]: "map fst (tbl_update k f t) = map fst t"
  by (induction t) (auto simp: tbl_update_def)

lemma keys_distinct_snoc [simp]:
  "keys_distinct (t @ [(k, r)]) \<longleftrightarrow> keys_distinct t \<and> map_of t k = None"
  by (auto simp: keys_distinct_def map_of_eq_None_iff)

lemma keys_distinct_tbl_insert:
  "tbl_insert k r t = Inr t' \<Longrightarrow> keys_distinct t \<Longrightarrow> keys_distinct t'"
  by (auto simp: tbl_insert_Inr_iff)

lemma keys_distinct_tbl_insert_or_ignore [intro]:
  "keys_distinct t \<Longrightarrow> keys_distinct (tbl_insert_or_ignore k r t)"
  by (simp add: tbl_insert_or_ignore_def)

lemma keys_distinct_tbl_insert_or_replace [intro]:
  "keys_distinct t \<Longrightarrow> keys_distinct (tbl_insert_or_replace k r t)"
  by (auto simp: tbl_insert_or_replace_def keys_distinct_def distinct_map_filter)

lemma keys_distinct_tbl_update [intro]:
  "keys_distinct t \<Longrightarrow> keys_distinct (tbl_update k f t)"
  by (simp add: keys_distinct_def keys_tbl_update)

lemma set_keys_tbl_update [table_simps]:
  "fst ` set (tbl_update k f t) = fst ` set t"
  by (metis keys_tbl_update set_map)

lemma billing_ensure_billing [simp]:
  "billing (ensure_billing k d) = tbl_insert_or_ignore k placeholder_billing (billing d)"
  "patients (ensure_billing k d) = patients d"
  "appointments (ensure_billing k d) = appointments d"
  "diagnoses (ensure_billing k d) = diagnoses d"
  by (simp_all add: ensure_billing_def)

lemma appt_mobile_cong:
  "appointments d' = appointments d \<Longrightarrow> patients d' = patients d \<Longrightarrow>
   appt_mobile k d' = appt_mobile k d"
  by (simp add: appt_mobile_def cong: option.case_cong)

lemma db_inv_billing_update:
  "db_inv d \<Longrightarrow> keys_distinct b \<Longrightarrow> db_inv (d\<lparr>billing := b\<rparr>)"
  by (simp add: db_inv_def)

lemma db_inv_ensure_billing [intro]: "db_inv d \<Longrightarrow> db_inv (ensure_billing k d)"
  by (auto simp: db_inv_def)

lemma db_inv_empty: "db_inv empty_db"
  by (simp add: db_inv_def empty_db_def keys_distinct_def)

lemma tbl_update_rows_preserve:
  "\<forall>r\<in>snd ` set t. P r \<Longrightarrow> \<forall>r\<in>snd ` set t. P (f r) \<Longrightarrow>
   \<forall>r\<in>snd ` set (tbl_update k f t). P r"
  by (induction t) (auto simp: tbl_update_def)

lemma tbl_update_idem:
  "(\<And>x. f (f x) = f x) \<Longrightarrow> tbl_update k f (tbl_update k f t) = tbl_update k f t"
  by (induction t) (auto simp: tbl_update_def)

lemma tbl_update_comm:
  "(\<And>x. f (g x) = g (f x)) \<Longrightarrow> tbl_update k f (tbl_update k g t) = tbl_update k g (tbl_update k f t)"
  by (induction t) (auto simp: tbl_update_def)

lemma ensure_billing_present:
  "map_of (billing d) k \<noteq> None \<Longrightarrow> ensure_billing k d = d"
  by (simp add: ensure_billing_def tbl_insert_or_ignore_def)

end
