(* ===== verification/Dates.thy ===== *)
theory Dates
  imports Prelude
begin

text \<open>
  Dates and the clock as \<open>src/app.py\<close> uses them: \<open>datetime.now()\<close> (an input
  of every handler that reads it), \<open>strftime('%Y-%m-%d')\<close> for the booking date,
  \<open>strftime('%Y-%m-%d %H:%M:%S')\<close> for the check-in time, and
  \<open>datetime.strptime(s, '%Y-%m-%d').date()\<close> for the requested appointment date
  (lines 136-138 and 748-750).

  \<open>strptime\<close> is CPython's \<open>_strptime\<close>: the format becomes the regular
  expression \<open>(?P<Y>\d\d\d\d)-(?P<m>1[0-2]|0[1-9]|[1-9])-(?P<d>3[0-1]|[1-2]\d|0[1-9]|[1-9]| [1-9])\<close>,
  matched with \<open>re.match\<close> (first match in the order of the alternatives, with
  backtracking, not anchored at the end); if the match does not reach the end
  of the string it raises \<open>ValueError('unconverted data remains')\<close>; then
  \<open>datetime.date(year, month, day)\<close> raises \<open>ValueError\<close> for year 0 or a day
  past the end of the month.  The matcher below lists the candidate matches of
  each group in the regex engine's priority order, so the first candidate of
  the whole pattern is the match \<open>re.match\<close> returns.  \<open>\d\<close> is taken to be
  ASCII digits (Python also accepts other Unicode digits).
\<close>

record pydate =
  year :: nat
  month :: nat
  day :: nat

record clock =
  today :: pydate
  hour :: nat
  minute :: nat
  second :: nat

definition is_leap :: "nat \<Rightarrow> bool" where
  "is_leap y \<longleftrightarrow> y mod 4 = 0 \<and> (y mod 100 \<noteq> 0 \<or> y mod 400 = 0)"

definition days_in_month :: "nat \<Rightarrow> nat \<Rightarrow> nat" where
  "days_in_month y m =
     (if m = 2 then (if is_leap y then 29 else 28)
      else if m = 4 \<or> m = 6 \<or> m = 9 \<or> m = 11 then 30 else 31)"

text \<open>What \<open>datetime.date(year, month, day)\<close> accepts (MINYEAR 1, MAXYEAR 9999).\<close>

definition valid_date :: "pydate \<Rightarrow> bool" where
  "valid_date d \<longleftrightarrow>
     1 \<le> year d \<and> year d \<le> 9999 \<and> 1 \<le> month d \<and> month d \<le> 12 \<and>
     1 \<le> day d \<and> day d \<le> days_in_month (year d) (month d)"

section \<open>Digits\<close>

definition digit_chars :: string where
  "digit_chars = ''0123456789''"

definition digit_char :: "nat \<Rightarrow> char" where
  "digit_char n = digit_chars ! n"

definition digit_val :: "char \<Rightarrow> nat" where
  "digit_val c = of_char c - 48"

section \<open>The regular expression of \<open>strptime('%Y-%m-%d')\<close>\<close>

text \<open>
  A group's candidates: value and rest of the input, in the order the regex
  engine tries them.  \<open>re_pair A B\<close> is the alternative \<open>[A][B]\<close>,
  \<open>re_one A\<close> is \<open>[A]\<close>, \<open>re_sp_one A\<close> is \<open> [A]\<close> (a space, then a digit).
\<close>

definition re_pair :: "string \<Rightarrow> string \<Rightarrow> string \<Rightarrow> (nat \<times> string) list" where
  "re_pair A B s =
     (case s of
        a # b # r \<Rightarrow> if a \<in> set A \<and> b \<in> set B then [(10 * digit_val a + digit_val b, r)] else []
      | _ \<Rightarrow> [])"

definition re_one :: "string \<Rightarrow> string \<Rightarrow> (nat \<times> string) list" where
  "re_one A s = (case s of a # r \<Rightarrow> if a \<in> set A then [(digit_val a, r)] else [] | _ \<Rightarrow> [])"

definition re_sp_one :: "string \<Rightarrow> string \<Rightarrow> (nat \<times> string) list" where
  "re_sp_one A s =
     (case s of
        c # a # r \<Rightarrow> if c = CHR '' '' \<and> a \<in> set A then [(digit_val a, r)] else []
      | _ \<Rightarrow> [])"

text \<open>\<open>(?P<Y>\d\d\d\d)\<close>\<close>

definition re_Y :: "string \<Rightarrow> (nat \<times> string) list" where
  "re_Y s =
     (case s of
        a # b # c # d # r \<Rightarrow>
          if list_all (\<lambda>x. x \<in> set digit_chars) [a, b, c, d]
          then [(1000 * digit_val a + 100 * digit_val b + 10 * digit_val c + digit_val d, r)]
          else []
      | _ \<Rightarrow> [])"

text \<open>\<open>(?P<m>1[0-2]|0[1-9]|[1-9])\<close>\<close>

definition re_m :: "string \<Rightarrow> (nat \<times> string) list" where
  "re_m s = re_pair ''1'' ''012'' s @ re_pair ''0'' ''123456789'' s @ re_one ''123456789'' s"

text \<open>\<open>(?P<d>3[0-1]|[1-2]\d|0[1-9]|[1-9]| [1-9])\<close>\<close>

definition re_d :: "string \<Rightarrow> (nat \<times> string) list" where
  "re_d s =
     re_pair ''3'' ''01'' s @ re_pair ''12'' digit_chars s @ re_pair ''0'' ''123456789'' s @
     re_one ''123456789'' s @ re_sp_one ''123456789'' s"

definition re_dash :: "string \<Rightarrow> string list" where
  "re_dash s = (case s of c # r \<Rightarrow> if c = CHR ''-'' then [r] else [] | [] \<Rightarrow> [])"

text \<open>All matches of the whole pattern, in the engine's priority order.\<close>

definition date_matches :: "string \<Rightarrow> (pydate \<times> string) list" where
  "date_matches s =
     concat (map (\<lambda>(y, r1). concat (map (\<lambda>r2.
       concat (map (\<lambda>(m, r3). concat (map (\<lambda>r4.
         map (\<lambda>(d, r5). (\<lparr>year = y, month = m, day = d\<rparr>, r5)) (re_d r4))
       (re_dash r3))) (re_m r2)))
     (re_dash r1))) (re_Y s))"

text \<open>\<open>datetime.strptime(s, '%Y-%m-%d').date()\<close>; \<open>None\<close> is \<open>ValueError\<close>.\<close>

definition strptime_ymd :: "string \<Rightarrow> pydate option" where
  "strptime_ymd s =
     (case date_matches s of
        [] \<Rightarrow> None
      | (d, rest) # _ \<Rightarrow> if rest = [] \<and> valid_date d then Some d else None)"

section \<open>strftime\<close>

text \<open>
  A number printed zero-padded to \<open>w\<close> digits, as \<open>%m %d %H %M %S\<close> print
  and as \<open>%Y\<close> prints the years 1000 to 9999 of a realistic clock (for years
  below 1000 the C libraries differ; the model pads to four digits).
\<close>

primrec pad_digits :: "nat \<Rightarrow> nat \<Rightarrow> string" where
  "pad_digits 0 n = []"
| "pad_digits (Suc w) n = pad_digits w (n div 10) @ [digit_char (n mod 10)]"

definition fmt_date :: "pydate \<Rightarrow> string" where
  "fmt_date d =
     pad_digits 4 (year d) @ ''-'' @ pad_digits 2 (month d) @ ''-'' @ pad_digits 2 (day d)"

definition fmt_datetime :: "clock \<Rightarrow> string" where
  "fmt_datetime c =
     fmt_date (today c) @ '' '' @ pad_digits 2 (hour c) @ '':'' @
     pad_digits 2 (minute c) @ '':'' @ pad_digits 2 (second c)"

section \<open>Lemmas: digits, the matcher, and the round trip\<close>

lemmas re_defs = re_pair_def re_one_def re_sp_one_def re_dash_def

lemma less10_cases:
  "(n::nat) < 10 \<Longrightarrow>
   n = 0 \<or> n = 1 \<or> n = 2 \<or> n = 3 \<or> n = 4 \<or> n = 5 \<or> n = 6 \<or> n = 7 \<or> n = 8 \<or> n = 9"
  by arith

lemma digit_char_mem: "n < 10 \<Longrightarrow> digit_char n \<in> set digit_chars"
  using less10_cases [of n] by (auto simp: digit_char_def digit_chars_def)

lemma digit_val_digit_char [simp]: "n < 10 \<Longrightarrow> digit_val (digit_char n) = n"
  using less10_cases [of n] by (auto simp: digit_char_def digit_chars_def digit_val_def)

lemma pad_digits_2:
  "pad_digits 2 n = [digit_char (n div 10 mod 10), digit_char (n mod 10)]"
proof -
  have "(2::nat) = Suc (Suc 0)" by simp
  then show ?thesis by (simp only: pad_digits.simps append.simps)
qed

lemma pad_digits_4:
  "pad_digits 4 n =
     [digit_char (n div 10 div 10 div 10 mod 10), digit_char (n div 10 div 10 mod 10),
      digit_char (n div 10 mod 10), digit_char (n mod 10)]"
proof -
  have "(4::nat) = Suc (Suc (Suc (Suc 0)))" by simp
  then show ?thesis by (simp only: pad_digits.simps append.simps)
qed

lemma digits4_linear:
  "10 * qa + d = (y::nat) \<Longrightarrow> 10 * qb + c = qa \<Longrightarrow> 10 * qc + b = qb \<Longrightarrow>
   1000 * qc + 100 * b + 10 * c + d = y"
  by linarith

lemma digits4_sum:
  "1000 * ((y::nat) div 10 div 10 div 10) + 100 * (y div 10 div 10 mod 10) +
   10 * (y div 10 mod 10) + y mod 10 = y"
  by (rule digits4_linear [where qa = "y div 10" and qb = "y div 10 div 10"]) simp_all

lemma re_Y_pad: "y < 10000 \<Longrightarrow> re_Y (pad_digits 4 y @ r) = [(y, r)]"
  unfolding pad_digits_4 re_Y_def
  by (simp add: digit_char_mem digits4_sum)

lemma re_m_pad:
  assumes "1 \<le> m" "m \<le> 12"
  shows "\<exists>xs. re_m (pad_digits 2 m @ r) = (m, r) # xs"
proof -
  have "m = 1 \<or> m = 2 \<or> m = 3 \<or> m = 4 \<or> m = 5 \<or> m = 6 \<or> m = 7 \<or> m = 8 \<or> m = 9 \<or>
        m = 10 \<or> m = 11 \<or> m = 12"
    using assms by arith
  then show ?thesis
    unfolding pad_digits_2
    by (elim disjE) (simp_all add: re_m_def re_defs digit_char_def digit_chars_def digit_val_def)
qed

lemma re_d_pad:
  assumes "1 \<le> d" "d \<le> 31"
  shows "\<exists>xs. re_d (pad_digits 2 d) = (d, []) # xs"
proof -
  have "d = 1 \<or> d = 2 \<or> d = 3 \<or> d = 4 \<or> d = 5 \<or> d = 6 \<or> d = 7 \<or> d = 8 \<or>
        d = 9 \<or> d = 10 \<or> d = 11 \<or> d = 12 \<or> d = 13 \<or> d = 14 \<or> d = 15 \<or> d = 16 \<or>
        d = 17 \<or> d = 18 \<or> d = 19 \<or> d = 20 \<or> d = 21 \<or> d = 22 \<or> d = 23 \<or> d = 24 \<or>
        d = 25 \<or> d = 26 \<or> d = 27 \<or> d = 28 \<or> d = 29 \<or> d = 30 \<or> d = 31"
    using assms by arith
  then show ?thesis
    unfolding pad_digits_2
    by (elim disjE) (simp_all add: re_d_def re_defs digit_char_def digit_chars_def digit_val_def)
qed

lemma valid_date_bounds:
  "valid_date d \<Longrightarrow>
   year d < 10000 \<and> 1 \<le> month d \<and> month d \<le> 12 \<and> 1 \<le> day d \<and> day d \<le> 31"
  by (auto simp: valid_date_def days_in_month_def split: if_splits)

lemma date_matches_fmt_date:
  assumes "valid_date d"
  shows "\<exists>zs. date_matches (fmt_date d) = (d, []) # zs"
proof -
  from valid_date_bounds [OF assms]
  have y: "year d < 10000" and m: "1 \<le> month d" "month d \<le> 12"
    and dd: "1 \<le> day d" "day d \<le> 31"
    by auto
  obtain xs where xs: "re_m (pad_digits 2 (month d) @ CHR ''-'' # pad_digits 2 (day d)) =
      (month d, CHR ''-'' # pad_digits 2 (day d)) # xs"
    using re_m_pad [OF m] by blast
  obtain ys where ys: "re_d (pad_digits 2 (day d)) = (day d, []) # ys"
    using re_d_pad [OF dd] by blast
  have f: "fmt_date d =
      pad_digits 4 (year d) @ CHR ''-'' # (pad_digits 2 (month d) @ CHR ''-'' # pad_digits 2 (day d))"
    by (simp add: fmt_date_def)
  show ?thesis
    unfolding f date_matches_def by (simp add: re_Y_pad [OF y] re_dash_def xs ys)
qed

text \<open>The unfolding rules that evaluate \<open>strptime_ymd\<close> on a literal.\<close>

lemmas strptime_eval = strptime_ymd_def date_matches_def re_Y_def re_m_def re_d_def re_defs
  digit_chars_def digit_val_def valid_date_def days_in_month_def is_leap_def

end
