(* ===== verification/Handler.thy ===== *)
theory Handler
  imports Store Dates
begin

text \<open>
  What a Flask handler of \<open>src/app.py\<close> produces: an HTTP response, the
  database after the request (the committed state, or the state before the
  request when the transaction is rolled back), and the side effects it
  performed, in order.  The side effects are the two external collaborators
  of the program: \<open>send_whatsapp_message(mobile, message)\<close> (lines 57-58) and
  \<open>save_to_csv(table_name, rows)\<close> (lines 53-55, which re-reads the whole
  table, so only its name is recorded), plus the \<open>print\<close> of an outstanding
  credit at checkout.

  An exception that escapes a handler becomes Flask's 500 response.  The
  connection is then dropped without \<open>commit()\<close>, so SQLite rolls the
  transaction back: the handler returns the database it started from, unless
  it had committed before raising.
\<close>

datatype py_exc = TypeError | ValueError | KeyError | DbIntegrityError

text \<open>The JSON of \<open>GET /diagnosis/<id>\<close> (lines 797-808).\<close>

record diag_view =
  v_chief_complaints :: string
  v_symptoms :: string
  v_mind :: string
  v_psychology :: string
  v_diagnosis :: string
  v_medicines :: string
  v_tests :: string
  v_next_visit :: string
  v_diagnosis_saved :: int
  v_medicines_prescribed :: int

text \<open>The JSON of \<open>GET /billing/<id>\<close> (lines 859-875).\<close>

record billing_view =
  v_consultation_charge :: real
  v_medicine_charge :: real
  v_courier_charge :: real
  v_delivery_type :: string
  v_delivered_to :: string
  v_courier_channel :: string
  v_courier_tracking :: string
  v_amount_paid :: real
  v_payment_date :: string
  v_payment_id :: string
  v_discount :: real
  v_medicines_prepared :: int
  v_medicines_handed_over :: int
  v_couriered :: int
  v_checkout_done :: int

datatype response =
    Json nat string
  | ServerError py_exc
  | Redirect string
  | MessagePage string
  | DashboardPage string "string list"
  | LoginPage "string option"
  | DiagnosisJson diag_view
  | BillingJson billing_view

datatype effect =
    WhatsApp string string
  | SaveCsv string
  | CreditDue string real

type_synonym outcome = "response \<times> db \<times> effect list"

definition sql_exc :: "sql_error \<Rightarrow> py_exc" where
  "sql_exc e = (case e of IntegrityError \<Rightarrow> DbIntegrityError)"

text \<open>A request that fails before committing: the response, nothing changed.\<close>

definition rollback :: "response \<Rightarrow> db \<Rightarrow> outcome" where
  "rollback r d = (r, d, [])"

definition resp_of :: "outcome \<Rightarrow> response" where
  "resp_of out = fst out"

definition db_of :: "outcome \<Rightarrow> db" where
  "db_of out = fst (snd out)"

definition effects_of :: "outcome \<Rightarrow> effect list" where
  "effects_of out = snd (snd out)"

lemma outcome_sel [simp]:
  "resp_of (r, d, es) = r" "db_of (r, d, es) = d" "effects_of (r, d, es) = es"
  "resp_of (rollback r d) = r" "db_of (rollback r d) = d" "effects_of (rollback r d) = []"
  by (simp_all add: resp_of_def db_of_def effects_of_def rollback_def)

lemma outcome_split: "out = (resp_of out, db_of out, effects_of out)"
  by (simp add: resp_of_def db_of_def effects_of_def)

end
