(* ===== verification/Booking.thy ===== *)
theory Booking
  imports Handler
begin

text \<open>
  Booking an appointment, in its two entry points of \<open>src/app.py\<close>:
  \<^item> \<open>book_appointment\<close>, the JSON endpoint \<open>POST /book_appointment\<close>
    (lines 728-767);
  \<^item> \<open>dashboard_book\<close>, the booking form of \<open>POST /receptionist_dashboard\<close>
    (lines 111-169), which does the same upsert and check but creates no
    placeholder billing row and answers with HTML.
  Both look the patient up by mobile number and update or insert it
  (\<open>upsert_patient\<close>), build the appointment row (\<open>new_appointment_row\<close>),
  parse the requested date with \<open>strptime\<close>, and reject a same-day
  \<open>Online Direct\<close> booking; the rejection closes the connection without
  commit, so the patient upsert is rolled back.  The fresh \<open>uuid4()\<close> values
  of the patient and of the appointment are inputs.
\<close>

record booking_req =
  bk_name :: string
  bk_mobile_number :: string
  bk_age :: string
  bk_address :: string
  bk_reason :: string
  bk_appointment_date :: string
  bk_booking_type :: string

text \<open>Lines 736-745: \<open>SELECT ... WHERE mobile_number = ?\<close>, then UPDATE or INSERT.\<close>

definition patient_update :: "booking_req \<Rightarrow> patient_row \<Rightarrow> patient_row" where
  "patient_update r row = row\<lparr>name := bk_name r, age := bk_age r, address := bk_address r\<rparr>"

definition new_patient_row :: "booking_req \<Rightarrow> patient_row" where
  "new_patient_row r =
     \<lparr>name = bk_name r, mobile_number = bk_mobile_number r, age = bk_age r, address = bk_address r\<rparr>"

definition upsert_patient ::
  "string \<Rightarrow> booking_req \<Rightarrow> patient_row table \<Rightarrow> sql_error + (string \<times> patient_row table)" where
  "upsert_patient pid r t =
     (case find_patient_by_mobile (bk_mobile_number r) t of
        Some p \<Rightarrow> Inr (p, tbl_update p (patient_update r) t)
      | None \<Rightarrow>
          (case tbl_insert pid (new_patient_row r) t of
             Inl e \<Rightarrow> Inl e
           | Inr t' \<Rightarrow> Inr (pid, t')))"

text \<open>Lines 754-756: the new row, with check-in fields blank and \<open>confirmed = 0\<close>.\<close>

definition new_appointment_row :: "clock \<Rightarrow> string \<Rightarrow> booking_req \<Rightarrow> appointment_row" where
  "new_appointment_row c p r =
     \<lparr>patient_id = p, reason = bk_reason r, booking_date = fmt_date (today c),
      appointment_date = bk_appointment_date r, booking_type = bk_booking_type r,
      confirmed = 0, checkin_status = [], checkin_time = []\<rparr>"

text \<open>Line 751: the one business rule, with the exact channel string.\<close>

definition same_day_direct :: "clock \<Rightarrow> pydate \<Rightarrow> string \<Rightarrow> bool" where
  "same_day_direct c ad ty \<longleftrightarrow> ad = today c \<and> ty = ''Online Direct''"

text \<open>Lines 761-763: the notices, sent after the commit.\<close>

definition booking_notices :: "booking_req \<Rightarrow> effect list" where
  "booking_notices r =
     WhatsApp (bk_mobile_number r) (''Appointment booked for '' @ bk_appointment_date r) #
     (if bk_booking_type r \<noteq> ''Manual In-Clinic''
      then [WhatsApp (bk_mobile_number r) ''Appointment confirmation pending from clinic'']
      else [])"

definition book_appointment :: "clock \<Rightarrow> string \<Rightarrow> string \<Rightarrow> booking_req \<Rightarrow> db \<Rightarrow> outcome" where
  "book_appointment c pid aid r d =
     (case upsert_patient pid r (patients d) of
        Inl e \<Rightarrow> rollback (ServerError (sql_exc e)) d
      | Inr (p, pts) \<Rightarrow>
          (case strptime_ymd (bk_appointment_date r) of
             None \<Rightarrow> rollback (ServerError ValueError) d
           | Some ad \<Rightarrow>
               if same_day_direct c ad (bk_booking_type r)
               then rollback (Json 400 ''Same-day online bookings not allowed'') d
               else
                 (case tbl_insert aid (new_appointment_row c p r) (appointments d) of
                    Inl e \<Rightarrow> rollback (ServerError (sql_exc e)) d
                  | Inr aps \<Rightarrow>
                      (Json 200 ''Appointment booked'',
                       ensure_billing aid (d\<lparr>patients := pts, appointments := aps\<rparr>),
                       booking_notices r @
                       [SaveCsv ''patients'', SaveCsv ''appointments'', SaveCsv ''billing'']))))"

text \<open>
  The appointment list every dashboard renders (lines 170-181, 423-434):
  the appointments in table order, inner-joined with their patient (the left
  joins with diagnoses and billing keep every row).
\<close>

definition dashboard_rows :: "db \<Rightarrow> string list" where
  "dashboard_rows d =
     map fst (filter (\<lambda>(k, a). map_of (patients d) (patient_id a) \<noteq> None) (appointments d))"

definition dashboard_book :: "clock \<Rightarrow> string \<Rightarrow> string \<Rightarrow> booking_req \<Rightarrow> db \<Rightarrow> outcome" where
  "dashboard_book c pid aid r d =
     (case upsert_patient pid r (patients d) of
        Inl e \<Rightarrow> rollback (ServerError (sql_exc e)) d
      | Inr (p, pts) \<Rightarrow>
          (case strptime_ymd (bk_appointment_date r) of
             None \<Rightarrow> rollback (ServerError ValueError) d
           | Some ad \<Rightarrow>
               if same_day_direct c ad (bk_booking_type r)
               then rollback (MessagePage ''Same-day online bookings not allowed'') d
               else
                 (case tbl_insert aid (new_appointment_row c p r) (appointments d) of
                    Inl e \<Rightarrow> rollback (ServerError (sql_exc e)) d
                  | Inr aps \<Rightarrow>
                      (let d' = d\<lparr>patients := pts, appointments := aps\<rparr>
                       in (DashboardPage ''receptionist'' (dashboard_rows d'), d',
                           booking_notices r @ [SaveCsv ''patients'', SaveCsv ''appointments''])))))"

lemmas booking_defs = book_appointment_def dashboard_book_def upsert_patient_def

section \<open>Lemmas on the patient upsert\<close>

lemma find_SomeD:
  "find P xs = Some x \<Longrightarrow> x \<in> set xs \<and> P x"
  by (induction xs) (auto split: if_splits)

lemma find_patient_by_mobile_None_iff:
  "find_patient_by_mobile m t = None \<longleftrightarrow> m \<notin> mobile_number ` snd ` set t"
proof -
  have "find_patient_by_mobile m t = None \<longleftrightarrow>
        \<not> (\<exists>q. q \<in> set t \<and> mobile_number (snd q) = m)"
    by (simp add: find_patient_by_mobile_def find_None_iff)
  also have "\<dots> \<longleftrightarrow> m \<notin> mobile_number ` snd ` set t"
    by force
  finally show ?thesis .
qed

lemma find_patient_by_mobile_Some:
  assumes "keys_distinct t" and "find_patient_by_mobile m t = Some p"
  shows "\<exists>row. map_of t p = Some row \<and> mobile_number row = m"
proof -
  from assms(2) obtain row where "find (\<lambda>q. mobile_number (snd q) = m) t = Some (p, row)"
    by (auto simp: find_patient_by_mobile_def)
  then have "(p, row) \<in> set t" and "mobile_number row = m"
    by (auto dest: find_SomeD)
  with assms(1) show ?thesis
    by (auto simp: keys_distinct_def)
qed

lemma mobiles_tbl_update:
  "(\<And>r. g (f r) = g r) \<Longrightarrow> map (g \<circ> snd) (tbl_update k f t) = map (g \<circ> snd) t"
  by (induction t) (auto simp: tbl_update_def)

lemma upsert_patient_cases:
  "upsert_patient pid r t =
     (case find_patient_by_mobile (bk_mobile_number r) t of
        Some p \<Rightarrow> Inr (p, tbl_update p (patient_update r) t)
      | None \<Rightarrow> (if map_of t pid = None then Inr (pid, t @ [(pid, new_patient_row r)])
                 else Inl IntegrityError))"
  by (simp add: upsert_patient_def tbl_insert_def split: option.split)

text \<open>The upsert keeps the constraints of the patients table and returns a key of it.\<close>

lemma upsert_patient_inv:
  assumes "keys_distinct t" "distinct (map (mobile_number \<circ> snd) t)"
    and "upsert_patient pid r t = Inr (p, t')"
  shows "keys_distinct t'" "distinct (map (mobile_number \<circ> snd) t')"
    "p \<in> fst ` set t'" "fst ` set t \<subseteq> fst ` set t'"
proof -
  have "keys_distinct t' \<and> distinct (map (mobile_number \<circ> snd) t') \<and>
        p \<in> fst ` set t' \<and> fst ` set t \<subseteq> fst ` set t'"
  proof (cases "find_patient_by_mobile (bk_mobile_number r) t")
    case None
    with assms(3) have "map_of t pid = None" and t': "p = pid" "t' = t @ [(pid, new_patient_row r)]"
      by (auto simp: upsert_patient_cases split: if_splits)
    moreover have "bk_mobile_number r \<notin> mobile_number ` snd ` set t"
      using None by (simp add: find_patient_by_mobile_None_iff)
    ultimately show ?thesis
      using assms(1,2) by (auto simp: new_patient_row_def image_iff)
  next
    case (Some q)
    with assms(3) have t': "p = q" "t' = tbl_update q (patient_update r) t"
      by (auto simp: upsert_patient_cases)
    from find_patient_by_mobile_Some [OF assms(1) Some]
    have "q \<in> fst ` set t" by (auto dest: map_of_SomeD intro: rev_image_eqI)
    moreover have "map (mobile_number \<circ> snd) t' = map (mobile_number \<circ> snd) t"
      unfolding t' by (rule mobiles_tbl_update) (simp add: patient_update_def)
    ultimately show ?thesis
      using assms(1,2) t' by (auto simp: set_keys_tbl_update keys_distinct_tbl_update)
  qed
  then show "keys_distinct t'" "distinct (map (mobile_number \<circ> snd) t')"
    "p \<in> fst ` set t'" "fst ` set t \<subseteq> fst ` set t'"
    by auto
qed

section \<open>Lemmas on \<open>book_appointment\<close>\<close>

lemma book_appointment_success:
  assumes "upsert_patient pid r (patients d) = Inr (p, pts)"
    and "strptime_ymd (bk_appointment_date r) = Some ad"
    and "\<not> same_day_direct c ad (bk_booking_type r)"
    and "map_of (appointments d) aid = None"
  shows "book_appointment c pid aid r d =
    (Json 200 ''Appointment booked'',
     ensure_billing aid (d\<lparr>patients := pts,
                           appointments := appointments d @ [(aid, new_appointment_row c p r)]\<rparr>),
     booking_notices r @ [SaveCsv ''patients'', SaveCsv ''appointments'', SaveCsv ''billing''])"
  using assms by (simp add: book_appointment_def tbl_insert_def)

text \<open>Every other run of the handler is a rollback.\<close>

lemma book_appointment_cases:
  "(\<exists>resp. resp \<noteq> Json 200 ''Appointment booked'' \<and> book_appointment c pid aid r d = rollback resp d) \<or>
   (\<exists>p pts ad. upsert_patient pid r (patients d) = Inr (p, pts) \<and>
      strptime_ymd (bk_appointment_date r) = Some ad \<and>
      \<not> same_day_direct c ad (bk_booking_type r) \<and> map_of (appointments d) aid = None \<and>
      book_appointment c pid aid r d =
       (Json 200 ''Appointment booked'',
        ensure_billing aid (d\<lparr>patients := pts,
                              appointments := appointments d @ [(aid, new_appointment_row c p r)]\<rparr>),
        booking_notices r @ [SaveCsv ''patients'', SaveCsv ''appointments'', SaveCsv ''billing'']))"
  by (auto simp: book_appointment_def tbl_insert_def rollback_def sql_exc_def
           split: sum.split option.split if_split prod.split sql_error.split)

lemma db_inv_book_success:
  assumes inv: "db_inv d"
    and up: "upsert_patient pid r (patients d) = Inr (p, pts)"
    and fresh: "map_of (appointments d) aid = None"
  shows "db_inv (d\<lparr>patients := pts,
                   appointments := appointments d @ [(aid, new_appointment_row c p r)]\<rparr>)"
proof -
  from inv have k: "keys_distinct (patients d)" "distinct (map (mobile_number \<circ> snd) (patients d))"
    by (simp_all add: db_inv_def)
  note u = upsert_patient_inv [OF k up]
  from inv have fk: "\<forall>a \<in> snd ` set (appointments d). patient_id a \<in> fst ` set (patients d)"
    by (simp add: db_inv_def)
  with u(3,4) inv fresh show ?thesis
    by (auto simp: db_inv_def u(1,2) new_appointment_row_def)
qed

lemma db_inv_book_appointment:
  assumes "db_inv d"
  shows "db_inv (db_of (book_appointment c pid aid r d))"
  using book_appointment_cases [of c pid aid r d]
proof (elim disjE exE conjE)
  fix resp
  assume "book_appointment c pid aid r d = rollback resp d"
  with assms show ?thesis by simp
next
  fix p pts ad
  assume up: "upsert_patient pid r (patients d) = Inr (p, pts)"
    and fresh: "map_of (appointments d) aid = None"
    and eq: "book_appointment c pid aid r d =
       (Json 200 ''Appointment booked'',
        ensure_billing aid (d\<lparr>patients := pts,
                              appointments := appointments d @ [(aid, new_appointment_row c p r)]\<rparr>),
        booking_notices r @ [SaveCsv ''patients'', SaveCsv ''appointments'', SaveCsv ''billing''])"
  have "db_inv (d\<lparr>patients := pts,
                  appointments := appointments d @ [(aid, new_appointment_row c p r)]\<rparr>)"
    by (rule db_inv_book_success [OF assms up fresh])
  then show ?thesis
    unfolding eq by (simp add: db_inv_ensure_billing)
qed

lemma upsert_patient_ok:
  "find_patient_by_mobile (bk_mobile_number r) t \<noteq> None \<or> map_of t pid = None \<Longrightarrow>
   \<exists>p t'. upsert_patient pid r t = Inr (p, t')"
  by (auto simp: upsert_patient_cases split: option.split)

lemma patient_update_same_mobile:
  "mobile_number row = bk_mobile_number r \<Longrightarrow> patient_update r row = new_patient_row r"
  by (simp add: patient_update_def new_patient_row_def)

section \<open>Properties of booking\<close>

text \<open>
  C1.  Booking with the mobile number of a known patient updates that patient's
  name, age and address in place (the patients' keys are unchanged, no second
  patient appears) and always adds one new appointment row for that patient.
\<close>

theorem book_existing_mobile_updates_in_place:
  assumes inv: "db_inv d"
    and found: "find_patient_by_mobile (bk_mobile_number r) (patients d) = Some p"
    and parse: "strptime_ymd (bk_appointment_date r) = Some ad"
    and ok: "\<not> same_day_direct c ad (bk_booking_type r)"
    and fresh: "map_of (appointments d) aid = None"
    and out: "book_appointment c pid aid r d = (resp, d', es)"
  shows "resp = Json 200 ''Appointment booked'' \<and>
         map fst (patients d') = map fst (patients d) \<and>
         map_of (patients d') p = Some (new_patient_row r) \<and>
         map_of (appointments d') aid = Some (new_appointment_row c p r) \<and>
         length (appointments d') = Suc (length (appointments d))"
proof -
  have up: "upsert_patient pid r (patients d) = Inr (p, tbl_update p (patient_update r) (patients d))"
    using found by (simp add: upsert_patient_cases)
  from inv have "keys_distinct (patients d)" by (simp add: db_inv_def)
  from find_patient_by_mobile_Some [OF this found]
  obtain row where row: "map_of (patients d) p = Some row" "mobile_number row = bk_mobile_number r"
    by blast
  from out book_appointment_success [OF up parse ok fresh]
  have d': "resp = Json 200 ''Appointment booked''"
    "d' = ensure_billing aid (d\<lparr>patients := tbl_update p (patient_update r) (patients d),
            appointments := appointments d @ [(aid, new_appointment_row c p r)]\<rparr>)"
    by simp_all
  show ?thesis
    using d' row fresh by (simp add: table_simps patient_update_same_mobile)
qed

text \<open>
  C2.  The same-day rule: once the patient upsert succeeds, the requested date
  parses and the appointment id is new, the booking is rejected with 400
  exactly when the parsed date is today and the channel is the exact string
  \<open>Online Direct\<close>; otherwise it succeeds.
\<close>

theorem book_appointment_same_day_rule:
  assumes up: "find_patient_by_mobile (bk_mobile_number r) (patients d) \<noteq> None \<or>
               map_of (patients d) pid = None"
    and parse: "strptime_ymd (bk_appointment_date r) = Some ad"
    and fresh: "map_of (appointments d) aid = None"
  shows "resp_of (book_appointment c pid aid r d) =
           (if ad = today c \<and> bk_booking_type r = ''Online Direct''
            then Json 400 ''Same-day online bookings not allowed''
            else Json 200 ''Appointment booked'')"
proof -
  obtain p pts where "upsert_patient pid r (patients d) = Inr (p, pts)"
    using upsert_patient_ok [OF up] by blast
  with parse fresh show ?thesis
    by (simp add: book_appointment_def same_day_direct_def tbl_insert_def)
qed

text \<open>
  C3.  Every booking that does not succeed (an IntegrityError, an unparsable
  date, the same-day rule) leaves the database as it was and sends nothing.
\<close>

theorem book_appointment_failure_rolls_back:
  assumes "resp_of (book_appointment c pid aid r d) \<noteq> Json 200 ''Appointment booked''"
  shows "db_of (book_appointment c pid aid r d) = d \<and> effects_of (book_appointment c pid aid r d) = []"
  using book_appointment_cases [of c pid aid r d] assms by auto

text \<open>
  C4.  A successful booking notifies the patient's mobile number of the booking,
  and sends the "confirmation pending" notice exactly when the channel is not
  \<open>Manual In-Clinic\<close>.
\<close>

theorem book_appointment_notices:
  assumes "resp_of (book_appointment c pid aid r d) = Json 200 ''Appointment booked''"
  shows "WhatsApp (bk_mobile_number r) (''Appointment booked for '' @ bk_appointment_date r)
           \<in> set (effects_of (book_appointment c pid aid r d)) \<and>
         (WhatsApp (bk_mobile_number r) ''Appointment confirmation pending from clinic''
           \<in> set (effects_of (book_appointment c pid aid r d)) \<longleftrightarrow>
          bk_booking_type r \<noteq> ''Manual In-Clinic'')"
  using book_appointment_cases [of c pid aid r d] assms
  by (auto simp: booking_notices_def)

section \<open>Witnesses\<close>

text \<open>A clinic with one patient, on 1 January 2025.\<close>

definition demo_clock :: clock where
  "demo_clock = \<lparr>today = \<lparr>year = 2025, month = 1, day = 1\<rparr>, hour = 9, minute = 30, second = 0\<rparr>"

definition demo_db :: db where
  "demo_db = empty_db\<lparr>patients :=
     [(''p1'', \<lparr>name = ''Ann'', mobile_number = ''555'', age = ''30'', address = ''Elm St''\<rparr>)]\<rparr>"

definition demo_req :: "string \<Rightarrow> string \<Rightarrow> booking_req" where
  "demo_req dt ty =
     \<lparr>bk_name = ''Ann B'', bk_mobile_number = ''555'', bk_age = ''31'', bk_address = ''Oak St'',
      bk_reason = ''Consultation'', bk_appointment_date = dt, bk_booking_type = ty\<rparr>"

lemma demo_facts:
  "db_inv demo_db"
  "find_patient_by_mobile (bk_mobile_number (demo_req dt ty)) (patients demo_db) = Some ''p1''"
  "map_of (appointments demo_db) ''a1'' = None"
  "strptime_ymd ''2025-01-02'' = Some \<lparr>year = 2025, month = 1, day = 2\<rparr>"
  "strptime_ymd ''2025-01-01'' = Some (today demo_clock)"
  by (simp_all add: demo_db_def demo_req_def empty_db_def db_inv_def keys_distinct_def
       find_patient_by_mobile_def demo_clock_def strptime_eval)

lemma demo_book_next_day:
  "book_appointment demo_clock ''p2'' ''a1'' (demo_req ''2025-01-02'' ''Online Direct'') demo_db =
    (Json 200 ''Appointment booked'',
     ensure_billing ''a1'' (demo_db\<lparr>patients := tbl_update ''p1'' (patient_update (demo_req ''2025-01-02'' ''Online Direct'')) (patients demo_db),
        appointments := [(''a1'', new_appointment_row demo_clock ''p1'' (demo_req ''2025-01-02'' ''Online Direct''))]\<rparr>),
     booking_notices (demo_req ''2025-01-02'' ''Online Direct'') @
       [SaveCsv ''patients'', SaveCsv ''appointments'', SaveCsv ''billing''])"
proof -
  have "upsert_patient ''p2'' (demo_req ''2025-01-02'' ''Online Direct'') (patients demo_db) =
        Inr (''p1'', tbl_update ''p1'' (patient_update (demo_req ''2025-01-02'' ''Online Direct'')) (patients demo_db))"
    using demo_facts(2) by (simp add: upsert_patient_cases)
  moreover have "strptime_ymd (bk_appointment_date (demo_req ''2025-01-02'' ''Online Direct'')) =
      Some \<lparr>year = 2025, month = 1, day = 2\<rparr>"
    using demo_facts(4) by (simp add: demo_req_def)
  moreover have "\<not> same_day_direct demo_clock \<lparr>year = 2025, month = 1, day = 2\<rparr>
      (bk_booking_type (demo_req ''2025-01-02'' ''Online Direct''))"
    by (simp add: same_day_direct_def demo_clock_def)
  ultimately show ?thesis
    using book_appointment_success [OF _ _ _ demo_facts(3)]
    by (simp add: same_day_direct_def demo_clock_def demo_req_def demo_db_def empty_db_def)
qed

theorem book_existing_mobile_updates_in_place_witness:
  "db_inv demo_db \<and>
   find_patient_by_mobile ''555'' (patients demo_db) = Some ''p1'' \<and>
   strptime_ymd ''2025-01-02'' = Some \<lparr>year = 2025, month = 1, day = 2\<rparr> \<and>
   \<not> same_day_direct demo_clock \<lparr>year = 2025, month = 1, day = 2\<rparr> ''Online Direct'' \<and>
   map_of (appointments demo_db) ''a1'' = None \<and>
   map_of (patients (db_of (book_appointment demo_clock ''p2'' ''a1''
       (demo_req ''2025-01-02'' ''Online Direct'') demo_db))) ''p1''
     = Some (new_patient_row (demo_req ''2025-01-02'' ''Online Direct''))"
proof -
  let ?r = "demo_req ''2025-01-02'' ''Online Direct''"
  let ?o = "book_appointment demo_clock ''p2'' ''a1'' ?r demo_db"
  have nsd: "\<not> same_day_direct demo_clock \<lparr>year = 2025, month = 1, day = 2\<rparr> ''Online Direct''"
    by (simp add: same_day_direct_def demo_clock_def)
  have m: "find_patient_by_mobile (bk_mobile_number ?r) (patients demo_db) = Some ''p1''"
    by (rule demo_facts(2))
  have dt: "strptime_ymd (bk_appointment_date ?r) = Some \<lparr>year = 2025, month = 1, day = 2\<rparr>"
    using demo_facts(4) by (simp add: demo_req_def)
  have ty: "\<not> same_day_direct demo_clock \<lparr>year = 2025, month = 1, day = 2\<rparr> (bk_booking_type ?r)"
    using nsd by (simp add: demo_req_def)
  from book_existing_mobile_updates_in_place [OF demo_facts(1) m dt ty demo_facts(3) outcome_split]
  have "map_of (patients (db_of ?o)) ''p1'' = Some (new_patient_row ?r)" by simp
  with demo_facts(1,3,4) nsd show ?thesis
    using demo_facts(2) by (simp add: demo_req_def)
qed

theorem book_appointment_same_day_rule_witness:
  "resp_of (book_appointment demo_clock ''p2'' ''a1'' (demo_req ''2025-01-01'' ''Online Direct'') demo_db)
     = Json 400 ''Same-day online bookings not allowed'' \<and>
   resp_of (book_appointment demo_clock ''p2'' ''a1'' (demo_req ''2025-01-01'' ''Online Manual'') demo_db)
     = Json 200 ''Appointment booked''"
proof -
  let ?r1 = "demo_req ''2025-01-01'' ''Online Direct''" and ?r2 = "demo_req ''2025-01-01'' ''Online Manual''"
  have up1: "find_patient_by_mobile (bk_mobile_number ?r1) (patients demo_db) \<noteq> None \<or>
             map_of (patients demo_db) ''p2'' = None"
    using demo_facts(2) by simp
  have up2: "find_patient_by_mobile (bk_mobile_number ?r2) (patients demo_db) \<noteq> None \<or>
             map_of (patients demo_db) ''p2'' = None"
    using demo_facts(2) by simp
  have dt1: "strptime_ymd (bk_appointment_date ?r1) = Some (today demo_clock)"
    using demo_facts(5) by (simp add: demo_req_def)
  have dt2: "strptime_ymd (bk_appointment_date ?r2) = Some (today demo_clock)"
    using demo_facts(5) by (simp add: demo_req_def)
  show ?thesis
    using book_appointment_same_day_rule [OF up1 dt1 demo_facts(3)]
      book_appointment_same_day_rule [OF up2 dt2 demo_facts(3)]
    by (simp add: demo_req_def)
qed

theorem book_appointment_failure_rolls_back_witness:
  "resp_of (book_appointment demo_clock ''p2'' ''a1'' (demo_req ''2025-01-01'' ''Online Direct'') demo_db)
     \<noteq> Json 200 ''Appointment booked'' \<and>
   db_of (book_appointment demo_clock ''p2'' ''a1'' (demo_req ''2025-01-01'' ''Online Direct'') demo_db) = demo_db"
proof -
  let ?o = "book_appointment demo_clock ''p2'' ''a1'' (demo_req ''2025-01-01'' ''Online Direct'') demo_db"
  have "upsert_patient ''p2'' (demo_req ''2025-01-01'' ''Online Direct'') (patients demo_db) =
        Inr (''p1'', tbl_update ''p1'' (patient_update (demo_req ''2025-01-01'' ''Online Direct'')) (patients demo_db))"
    using demo_facts(2) by (simp add: upsert_patient_cases)
  then have "resp_of ?o = Json 400 ''Same-day online bookings not allowed''"
    using demo_facts(5) by (simp add: book_appointment_def same_day_direct_def demo_req_def)
  then have "resp_of ?o \<noteq> Json 200 ''Appointment booked''" by simp
  with book_appointment_failure_rolls_back [OF this] show ?thesis by simp
qed

theorem book_appointment_notices_witness:
  "resp_of (book_appointment demo_clock ''p2'' ''a1'' (demo_req ''2025-01-02'' ''Online Direct'') demo_db)
     = Json 200 ''Appointment booked'' \<and>
   WhatsApp ''555'' ''Appointment confirmation pending from clinic''
     \<in> set (effects_of (book_appointment demo_clock ''p2'' ''a1''
                (demo_req ''2025-01-02'' ''Online Direct'') demo_db))"
proof -
  let ?r = "demo_req ''2025-01-02'' ''Online Direct''"
  have ok: "resp_of (book_appointment demo_clock ''p2'' ''a1'' ?r demo_db) = Json 200 ''Appointment booked''"
    by (simp add: demo_book_next_day)
  from book_appointment_notices [OF ok] ok show ?thesis
    by (simp add: demo_req_def)
qed

end
