(* ===== verification/Clinical.thy ===== *)
theory Clinical
  imports Booking
begin

text \<open>
  The clinical steps of an appointment in \<open>src/app.py\<close>:
  \<^item> \<open>check_in\<close> (lines 769-786): UPDATE the check-in status and time, then
    404 when the appointment does not exist;
  \<^item> \<open>get_diagnosis\<close> (lines 788-808): the diagnosis row or all defaults;
  \<^item> \<open>save_diagnosis\<close> (lines 810-831): INSERT OR REPLACE of the whole row with
    \<open>medicines_prescribed\<close> derived from the stripped medicines text, the
    placeholder billing row, a commit, and only then the lookup of the
    patient's mobile number for the notice;
  \<^item> \<open>prepare_medicine\<close> (lines 833-848): placeholder billing row, set
    \<open>medicines_prepared\<close>, look the mobile number up, commit.
  \<open>c.fetchone()[0]\<close> on a missing row raises \<open>TypeError\<close>; in
  \<open>save_diagnosis\<close> that happens after the commit, in \<open>prepare_medicine\<close>
  before it.
\<close>

section \<open>Check-in\<close>

definition checkin_update :: "clock \<Rightarrow> string \<Rightarrow> appointment_row \<Rightarrow> appointment_row" where
  "checkin_update c status a = a\<lparr>checkin_status := status, checkin_time := fmt_datetime c\<rparr>"

definition check_in :: "clock \<Rightarrow> string \<Rightarrow> string \<Rightarrow> db \<Rightarrow> outcome" where
  "check_in c k status d =
     (let d' = d\<lparr>appointments := tbl_update k (checkin_update c status) (appointments d)\<rparr>
      in if map_of (appointments d') k = None
         then rollback (Json 404 ''Appointment not found'') d
         else (Json 200 ''Checked in'', d', [SaveCsv ''appointments'']))"

section \<open>Diagnosis\<close>

record diag_req =
  dq_chief_complaints :: string
  dq_symptoms :: string
  dq_mind :: string
  dq_psychology :: string
  dq_diagnosis :: string
  dq_medicines :: string
  dq_tests :: string
  dq_next_visit :: string

text \<open>Line 815: \<open>1 if data['medicines'].strip() else 0\<close>.\<close>

definition prescribed_flag :: "string \<Rightarrow> int" where
  "prescribed_flag m = (if py_strip m \<noteq> [] then 1 else 0)"

definition diagnosis_of_req :: "diag_req \<Rightarrow> diagnosis_row" where
  "diagnosis_of_req q =
     \<lparr>chief_complaints = dq_chief_complaints q, symptoms = dq_symptoms q, mind = dq_mind q,
      psychology = dq_psychology q, diagnosis = dq_diagnosis q, medicines = dq_medicines q,
      tests = dq_tests q, next_visit = dq_next_visit q, diagnosis_saved = 1,
      medicines_prescribed = prescribed_flag (dq_medicines q)\<rparr>"

definition view_of_diagnosis :: "diagnosis_row option \<Rightarrow> diag_view" where
  "view_of_diagnosis r =
     (case r of
        None \<Rightarrow>
          \<lparr>v_chief_complaints = [], v_symptoms = [], v_mind = [], v_psychology = [],
           v_diagnosis = [], v_medicines = [], v_tests = [], v_next_visit = [],
           v_diagnosis_saved = 0, v_medicines_prescribed = 0\<rparr>
      | Some g \<Rightarrow>
          \<lparr>v_chief_complaints = chief_complaints g, v_symptoms = symptoms g, v_mind = mind g,
           v_psychology = psychology g, v_diagnosis = diagnosis g, v_medicines = medicines g,
           v_tests = tests g, v_next_visit = next_visit g,
           v_diagnosis_saved = diagnosis_saved g,
           v_medicines_prescribed = medicines_prescribed g\<rparr>)"

definition get_diagnosis :: "string \<Rightarrow> db \<Rightarrow> outcome" where
  "get_diagnosis k d = (DiagnosisJson (view_of_diagnosis (map_of (diagnoses d) k)), d, [])"

definition save_diagnosis :: "string \<Rightarrow> diag_req \<Rightarrow> db \<Rightarrow> outcome" where
  "save_diagnosis k q d =
     (let g = diagnosis_of_req q;
          d' = ensure_billing k (d\<lparr>diagnoses := tbl_insert_or_replace k g (diagnoses d)\<rparr>);
          saved = [SaveCsv ''diagnoses'', SaveCsv ''billing'']
      in if medicines_prescribed g \<noteq> 0
         then (case appt_mobile k d' of
                 None \<Rightarrow> (ServerError TypeError, d', [])
               | Some m \<Rightarrow> (Json 200 ''Diagnosis and prescription saved'', d',
                             WhatsApp m ''Medicines prescribed'' # saved))
         else (Json 200 ''Diagnosis and prescription saved'', d', saved))"

section \<open>Medicine preparation\<close>

definition set_prepared :: "billing_row \<Rightarrow> billing_row" where
  "set_prepared b = b\<lparr>medicines_prepared := Some 1\<rparr>"

definition prepare_medicine :: "string \<Rightarrow> db \<Rightarrow> outcome" where
  "prepare_medicine k d =
     (let d1 = ensure_billing k d;
          d2 = d1\<lparr>billing := tbl_update k set_prepared (billing d1)\<rparr>
      in case appt_mobile k d2 of
           None \<Rightarrow> rollback (ServerError TypeError) d
         | Some m \<Rightarrow> (Json 200 ''Medicines prepared'', d2,
                       [WhatsApp m ''Medicines prepared'', SaveCsv ''billing'']))"

text \<open>
  The pharmacist's list (lines 600-612): the dashboard rows whose diagnosis
  has \<open>medicines_prescribed = 1\<close>.
\<close>

definition pharmacist_rows :: "db \<Rightarrow> string list" where
  "pharmacist_rows d =
     map fst (filter (\<lambda>(k, a). map_of (patients d) (patient_id a) \<noteq> None \<and>
                       (case map_of (diagnoses d) k of
                          None \<Rightarrow> False
                        | Some g \<Rightarrow> medicines_prescribed g = 1)) (appointments d))"

section \<open>Lemmas\<close>

lemma prescribed_flag_iff: "prescribed_flag m = (if \<exists>c\<in>set m. \<not> py_isspace c then 1 else 0)"
  by (auto simp: prescribed_flag_def py_strip_Nil_iff)

lemma save_diagnosis_db:
  "db_of (save_diagnosis k q d) =
     ensure_billing k (d\<lparr>diagnoses := tbl_insert_or_replace k (diagnosis_of_req q) (diagnoses d)\<rparr>)"
  by (simp add: save_diagnosis_def Let_def split: option.split)

lemma appt_mobile_ensure_billing [simp]: "appt_mobile k' (ensure_billing k d) = appt_mobile k' d"
  by (rule appt_mobile_cong) simp_all

lemma appt_mobile_other_tables [simp]:
  "appt_mobile k' (d\<lparr>diagnoses := g\<rparr>) = appt_mobile k' d"
  "appt_mobile k' (d\<lparr>billing := b\<rparr>) = appt_mobile k' d"
  by (simp_all add: appt_mobile_def cong: option.case_cong)

lemma db_inv_diagnoses_update:
  "db_inv d \<Longrightarrow> keys_distinct g \<Longrightarrow> db_inv (d\<lparr>diagnoses := g\<rparr>)"
  by (simp add: db_inv_def)

lemma db_inv_save_diagnosis: "db_inv d \<Longrightarrow> db_inv (db_of (save_diagnosis k q d))"
  unfolding save_diagnosis_db
  by (intro db_inv_ensure_billing db_inv_diagnoses_update keys_distinct_tbl_insert_or_replace)
     (simp_all add: db_inv_def)

lemma prepare_medicine_cases:
  "prepare_medicine k d =
     (case appt_mobile k d of
        None \<Rightarrow> rollback (ServerError TypeError) d
      | Some m \<Rightarrow>
          (Json 200 ''Medicines prepared'',
           d\<lparr>billing := tbl_update k set_prepared (tbl_insert_or_ignore k placeholder_billing (billing d))\<rparr>,
           [WhatsApp m ''Medicines prepared'', SaveCsv ''billing'']))"
  by (simp add: prepare_medicine_def Let_def ensure_billing_def split: option.split)

lemma prepare_medicine_db:
  "db_of (prepare_medicine k d) = d \<or>
   db_of (prepare_medicine k d) =
     (ensure_billing k d)\<lparr>billing := tbl_update k set_prepared (billing (ensure_billing k d))\<rparr>"
  by (simp add: prepare_medicine_cases ensure_billing_def rollback_def split: option.split)

lemma db_inv_prepare_medicine: "db_inv d \<Longrightarrow> db_inv (db_of (prepare_medicine k d))"
  by (auto simp: prepare_medicine_cases db_inv_def split: option.split)

lemma check_in_cases:
  "check_in c k status d =
     (if map_of (appointments d) k = None then rollback (Json 404 ''Appointment not found'') d
      else (Json 200 ''Checked in'',
            d\<lparr>appointments := tbl_update k (checkin_update c status) (appointments d)\<rparr>,
            [SaveCsv ''appointments'']))"
  by (simp add: check_in_def Let_def table_simps)

lemma db_inv_check_in: "db_inv d \<Longrightarrow> db_inv (db_of (check_in c k status d))"
proof -
  assume inv: "db_inv d"
  have "\<forall>a \<in> snd ` set (tbl_update k (checkin_update c status) (appointments d)).
          patient_id a \<in> fst ` set (patients d)"
    by (rule tbl_update_rows_preserve) (use inv in \<open>simp_all add: db_inv_def checkin_update_def\<close>)
  with inv show ?thesis
    by (auto simp: check_in_cases db_inv_def)
qed

section \<open>Properties of the clinical steps\<close>

text \<open>
  C5.  Saving a diagnosis and reading it back returns exactly the saved payload,
  with \<open>diagnosis_saved = 1\<close> and \<open>medicines_prescribed = 1\<close> exactly when the
  medicines text has a character that is not whitespace (so \<open>"  "\<close> gives 0).
  This holds on every branch of \<open>save_diagnosis\<close>, the failing one included,
  because the row is committed before the notice is attempted.
\<close>

theorem save_then_get_diagnosis:
  "resp_of (get_diagnosis k (db_of (save_diagnosis k q d))) =
     DiagnosisJson
       \<lparr>v_chief_complaints = dq_chief_complaints q, v_symptoms = dq_symptoms q,
        v_mind = dq_mind q, v_psychology = dq_psychology q, v_diagnosis = dq_diagnosis q,
        v_medicines = dq_medicines q, v_tests = dq_tests q, v_next_visit = dq_next_visit q,
        v_diagnosis_saved = 1,
        v_medicines_prescribed = (if \<exists>c\<in>set (dq_medicines q). \<not> py_isspace c then 1 else 0)\<rparr>"
  by (simp add: get_diagnosis_def save_diagnosis_db table_simps view_of_diagnosis_def
                diagnosis_of_req_def prescribed_flag_iff)

text \<open>
  C6.  \<open>save_diagnosis\<close> for an id with no joinable patient and a non-blank
  medicines text answers 500 (the \<open>TypeError\<close> of \<open>fetchone()[0]\<close>), yet the
  diagnosis row and a placeholder billing row have already been committed.
\<close>

theorem save_diagnosis_error_after_commit:
  assumes "appt_mobile k d = None" and "\<exists>c\<in>set (dq_medicines q). \<not> py_isspace c"
  shows "resp_of (save_diagnosis k q d) = ServerError TypeError \<and>
         map_of (diagnoses (db_of (save_diagnosis k q d))) k = Some (diagnosis_of_req q) \<and>
         map_of (billing (db_of (save_diagnosis k q d))) k \<noteq> None"
proof -
  have "medicines_prescribed (diagnosis_of_req q) \<noteq> 0"
    using assms(2) by (simp add: diagnosis_of_req_def prescribed_flag_iff)
  then have "resp_of (save_diagnosis k q d) = ServerError TypeError"
    using assms(1) by (simp add: save_diagnosis_def Let_def)
  then show ?thesis
    by (simp add: save_diagnosis_db table_simps split: option.split)
qed

text \<open>
  C7.  Check-in of an existing appointment sets its status to the given label
  and its time to the formatted clock, keeps every other field and every other
  row, and may be repeated (it overwrites); an unknown id answers 404 and
  changes nothing.
\<close>

theorem check_in_behaviour:
  "check_in c k status d =
     (case map_of (appointments d) k of
        None \<Rightarrow> (Json 404 ''Appointment not found'', d, [])
      | Some a \<Rightarrow>
          (Json 200 ''Checked in'',
           d\<lparr>appointments := tbl_update k (\<lambda>a. a\<lparr>checkin_status := status,
                                                  checkin_time := fmt_datetime c\<rparr>) (appointments d)\<rparr>,
           [SaveCsv ''appointments''])) \<and>
   map_of (appointments (db_of (check_in c k status d))) =
     (map_of (appointments d))(k := map_option (\<lambda>a. a\<lparr>checkin_status := status,
                                                     checkin_time := fmt_datetime c\<rparr>)
                                               (map_of (appointments d) k))"
  by (auto simp: check_in_cases checkin_update_def [abs_def] rollback_def table_simps
           split: option.split)

text \<open>
  C8.  \<open>prepare_medicine\<close> does not check that medicines were prescribed: for
  any appointment whose patient can be joined it sets \<open>medicines_prepared\<close>,
  creating the billing row if needed, whatever the diagnosis says (the
  prescription filter exists only in the pharmacist's list).  When no patient
  joins, it rolls back with a 500.
\<close>

theorem prepare_medicine_unguarded:
  "(appt_mobile k d \<noteq> None \<longrightarrow>
      resp_of (prepare_medicine k d) = Json 200 ''Medicines prepared'' \<and>
      map_option medicines_prepared (map_of (billing (db_of (prepare_medicine k d))) k) = Some (Some 1)) \<and>
   (appt_mobile k d = None \<longrightarrow> prepare_medicine k d = (ServerError TypeError, d, []))"
  by (auto simp: prepare_medicine_cases set_prepared_def rollback_def table_simps
           split: option.split)

section \<open>Witnesses\<close>

text \<open>The demo clinic of \<open>Booking\<close> with one booked appointment \<open>a1\<close> and no diagnosis.\<close>

definition demo_db2 :: db where
  "demo_db2 = demo_db\<lparr>appointments :=
     [(''a1'', new_appointment_row demo_clock ''p1'' (demo_req ''2025-01-02'' ''Manual In-Clinic''))],
     billing := [(''a1'', placeholder_billing)]\<rparr>"

definition demo_diag :: "string \<Rightarrow> diag_req" where
  "demo_diag m =
     \<lparr>dq_chief_complaints = ''fever'', dq_symptoms = ''cough'', dq_mind = [], dq_psychology = [],
      dq_diagnosis = ''flu'', dq_medicines = m, dq_tests = [], dq_next_visit = ''2025-01-09''\<rparr>"

lemma demo_db2_facts:
  "appt_mobile ''a1'' demo_db2 = Some ''555''"
  "map_of (appointments demo_db2) ''a1'' \<noteq> None"
  "appt_mobile ''zz'' demo_db2 = None"
  by (simp_all add: demo_db2_def demo_db_def empty_db_def appt_mobile_def new_appointment_row_def)

lemma demo_blank_medicines:
  "\<not> (\<exists>c\<in>set ''  ''. \<not> py_isspace c)" "\<exists>c\<in>set ''Amoxicillin''. \<not> py_isspace c"
  by (simp_all add: py_isspace_def py_whitespace_def)

theorem save_then_get_diagnosis_witness:
  "resp_of (get_diagnosis ''a1'' (db_of (save_diagnosis ''a1'' (demo_diag ''  '') demo_db2))) =
     DiagnosisJson
       \<lparr>v_chief_complaints = ''fever'', v_symptoms = ''cough'', v_mind = [], v_psychology = [],
        v_diagnosis = ''flu'', v_medicines = ''  '', v_tests = [], v_next_visit = ''2025-01-09'',
        v_diagnosis_saved = 1, v_medicines_prescribed = 0\<rparr> \<and>
   resp_of (get_diagnosis ''a1'' (db_of (save_diagnosis ''a1'' (demo_diag ''Amoxicillin'') demo_db2))) =
     DiagnosisJson
       \<lparr>v_chief_complaints = ''fever'', v_symptoms = ''cough'', v_mind = [], v_psychology = [],
        v_diagnosis = ''flu'', v_medicines = ''Amoxicillin'', v_tests = [],
        v_next_visit = ''2025-01-09'', v_diagnosis_saved = 1, v_medicines_prescribed = 1\<rparr>"
  using save_then_get_diagnosis [of "''a1''" "demo_diag ''  ''" demo_db2]
    save_then_get_diagnosis [of "''a1''" "demo_diag ''Amoxicillin''" demo_db2]
    demo_blank_medicines
  by (simp add: demo_diag_def)

theorem save_diagnosis_error_after_commit_witness:
  "appt_mobile ''zz'' demo_db2 = None \<and>
   resp_of (save_diagnosis ''zz'' (demo_diag ''Amoxicillin'') demo_db2) = ServerError TypeError \<and>
   map_of (billing (db_of (save_diagnosis ''zz'' (demo_diag ''Amoxicillin'') demo_db2))) ''zz'' \<noteq> None"
proof -
  have "\<exists>c\<in>set (dq_medicines (demo_diag ''Amoxicillin'')). \<not> py_isspace c"
    using demo_blank_medicines(2) by (simp add: demo_diag_def)
  from save_diagnosis_error_after_commit [OF demo_db2_facts(3) this] demo_db2_facts(3)
  show ?thesis by simp
qed

theorem check_in_behaviour_witness:
  "resp_of (check_in demo_clock ''a1'' ''Scheduled'' demo_db2) = Json 200 ''Checked in'' \<and>
   map_option checkin_status
     (map_of (appointments (db_of (check_in demo_clock ''a1'' ''Scheduled'' demo_db2))) ''a1'')
     = Some ''Scheduled'' \<and>
   resp_of (check_in demo_clock ''zz'' ''Scheduled'' demo_db2) = Json 404 ''Appointment not found''"
proof -
  obtain a where a: "map_of (appointments demo_db2) ''a1'' = Some a"
    using demo_db2_facts(2) by blast
  have z: "map_of (appointments demo_db2) ''zz'' = None"
    by (simp add: demo_db2_def)
  note b1 = check_in_behaviour [of demo_clock "''a1''" "''Scheduled''" demo_db2]
  note b2 = check_in_behaviour [of demo_clock "''zz''" "''Scheduled''" demo_db2]
  have r1: "resp_of (check_in demo_clock ''a1'' ''Scheduled'' demo_db2) = Json 200 ''Checked in''"
    using conjunct1 [OF b1] a by simp
  have m1: "map_option checkin_status
     (map_of (appointments (db_of (check_in demo_clock ''a1'' ''Scheduled'' demo_db2))) ''a1'')
     = Some ''Scheduled''"
    unfolding conjunct2 [OF b1] using a by simp
  have r2: "resp_of (check_in demo_clock ''zz'' ''Scheduled'' demo_db2) = Json 404 ''Appointment not found''"
    using conjunct1 [OF b2] z by simp
  from r1 m1 r2 show ?thesis by blast
qed

theorem prepare_medicine_unguarded_witness:
  "appt_mobile ''a1'' demo_db2 \<noteq> None \<and> map_of (diagnoses demo_db2) ''a1'' = None \<and>
   resp_of (prepare_medicine ''a1'' demo_db2) = Json 200 ''Medicines prepared'' \<and>
   map_option medicines_prepared (map_of (billing (db_of (prepare_medicine ''a1'' demo_db2))) ''a1'')
     = Some (Some 1)"
  using prepare_medicine_unguarded [of "''a1''" demo_db2] demo_db2_facts(1)
  by (simp add: demo_db2_def demo_db_def empty_db_def)

end
