(* ===== verification/Lifecycle.thy ===== *)
theory Lifecycle
  imports Prelude
begin

text \<open>
  The abstract specification of the terminal sub-machine of an appointment
  (spec section 4.6): the four progress flags of its billing row and its
  delivery type.  Medicines are prepared, then handed over or couriered (the
  latter only for delivery type \<open>Courier\<close>), then the checkout is done; the
  delivery type may be set at any time by the billing form.  No step clears a
  flag.  The concrete handlers refine this machine (theory \<open>Billing\<close>).
\<close>

record lifecycle =
  lc_prepared :: bool
  lc_handed :: bool
  lc_couriered :: bool
  lc_checked_out :: bool
  lc_delivery :: "string option"

definition lc_init :: lifecycle where
  "lc_init = \<lparr>lc_prepared = False, lc_handed = False, lc_couriered = False,
              lc_checked_out = False, lc_delivery = Some ''In-Person''\<rparr>"

inductive lc_step :: "lifecycle \<Rightarrow> lifecycle \<Rightarrow> bool" where
  lc_prepare: "lc_step s (s\<lparr>lc_prepared := True\<rparr>)"
| lc_hand_over: "lc_prepared s \<Longrightarrow> lc_step s (s\<lparr>lc_handed := True\<rparr>)"
| lc_courier: "lc_prepared s \<Longrightarrow> lc_delivery s = Some ''Courier'' \<Longrightarrow>
    lc_step s (s\<lparr>lc_couriered := True\<rparr>)"
| lc_checkout: "lc_handed s \<or> lc_couriered s \<Longrightarrow> lc_step s (s\<lparr>lc_checked_out := True\<rparr>)"
| lc_set_delivery: "lc_step s (s\<lparr>lc_delivery := t\<rparr>)"

inductive_cases lc_stepE: "lc_step s s'"

text \<open>The flags only grow along a step.\<close>

definition lc_le :: "lifecycle \<Rightarrow> lifecycle \<Rightarrow> bool" where
  "lc_le s s' \<longleftrightarrow>
     (lc_prepared s \<longrightarrow> lc_prepared s') \<and> (lc_handed s \<longrightarrow> lc_handed s') \<and>
     (lc_couriered s \<longrightarrow> lc_couriered s') \<and> (lc_checked_out s \<longrightarrow> lc_checked_out s')"

lemma lc_step_mono: "lc_step s s' \<Longrightarrow> lc_le s s'"
  by (induction rule: lc_step.induct) (simp_all add: lc_le_def)

lemma lc_le_refl [simp]: "lc_le s s"
  by (simp add: lc_le_def)

lemma lc_le_trans: "lc_le s t \<Longrightarrow> lc_le t u \<Longrightarrow> lc_le s u"
  by (simp add: lc_le_def)

text \<open>
  The ordering invariant of the machine: a hand-over or a courier needs the
  medicines prepared, a checkout needs one of the two.
\<close>

definition lc_inv :: "lifecycle \<Rightarrow> bool" where
  "lc_inv s \<longleftrightarrow>
     (lc_handed s \<longrightarrow> lc_prepared s) \<and> (lc_couriered s \<longrightarrow> lc_prepared s) \<and>
     (lc_checked_out s \<longrightarrow> lc_handed s \<or> lc_couriered s)"

lemma lc_inv_init: "lc_inv lc_init"
  by (simp add: lc_inv_def lc_init_def)

lemma lc_step_inv: "lc_step s s' \<Longrightarrow> lc_inv s \<Longrightarrow> lc_inv s'"
  by (induction rule: lc_step.induct) (auto simp: lc_inv_def)

lemma lc_reach_inv: "lc_step\<^sup>*\<^sup>* lc_init s \<Longrightarrow> lc_inv s"
proof (induction rule: rtranclp_induct)
  case base
  show ?case by (rule lc_inv_init)
next
  case (step t u)
  then show ?case by (blast intro: lc_step_inv)
qed

end
