(* ===== verification/Billing.thy ===== *)
theory Billing
  imports Clinical Lifecycle
begin

text \<open>
  Billing and the terminal steps of an appointment in \<open>src/app.py\<close>:
  \<^item> \<open>get_billing\<close> (lines 850-875): the row, each NULL column replaced by its
    default, or all defaults when there is no row;
  \<^item> \<open>billing_prepare\<close> (lines 877-906): placeholder row, then a full UPDATE of
    the eleven payment columns (the four flags are not written), each numeric
    field \<open>float(x) if x else 0.0\<close> and each text field \<open>x or default\<close>;
  \<^item> \<open>hand_over_medicine\<close>, \<open>courier_done\<close>, \<open>complete_checkout\<close>
    (lines 908-972): a guard on the row's flags, the flag set, the mobile
    lookup, commit, notice.
  \<open>float()\<close> of a string is Python's parser, a parameter \<open>pf\<close> of the model
  (\<open>None\<close> is its \<open>ValueError\<close>); JSON numbers are reals (the model does not
  round to IEEE doubles).
\<close>

section \<open>Reading a billing row\<close>

definition opt_or :: "'a \<Rightarrow> 'a option \<Rightarrow> 'a" where
  "opt_or dflt v = (case v of None \<Rightarrow> dflt | Some x \<Rightarrow> x)"

definition view_of_billing :: "billing_row option \<Rightarrow> billing_view" where
  "view_of_billing r =
     (case r of
        None \<Rightarrow>
          \<lparr>v_consultation_charge = 0, v_medicine_charge = 0, v_courier_charge = 0,
           v_delivery_type = ''In-Person'', v_delivered_to = [], v_courier_channel = [],
           v_courier_tracking = [], v_amount_paid = 0, v_payment_date = [], v_payment_id = [],
           v_discount = 0, v_medicines_prepared = 0, v_medicines_handed_over = 0,
           v_couriered = 0, v_checkout_done = 0\<rparr>
      | Some b \<Rightarrow>
          \<lparr>v_consultation_charge = opt_or 0 (consultation_charge b),
           v_medicine_charge = opt_or 0 (medicine_charge b),
           v_courier_charge = opt_or 0 (courier_charge b),
           v_delivery_type = opt_or ''In-Person'' (delivery_type b),
           v_delivered_to = opt_or [] (delivered_to b),
           v_courier_channel = opt_or [] (courier_channel b),
           v_courier_tracking = opt_or [] (courier_tracking b),
           v_amount_paid = opt_or 0 (amount_paid b),
           v_payment_date = opt_or [] (payment_date b),
           v_payment_id = opt_or [] (payment_id b),
           v_discount = opt_or 0 (discount b),
           v_medicines_prepared = opt_or 0 (medicines_prepared b),
           v_medicines_handed_over = opt_or 0 (medicines_handed_over b),
           v_couriered = opt_or 0 (couriered b),
           v_checkout_done = opt_or 0 (checkout_done b)\<rparr>)"

definition get_billing :: "string \<Rightarrow> db \<Rightarrow> outcome" where
  "get_billing k d = (BillingJson (view_of_billing (map_of (billing d) k)), d, [])"

section \<open>Writing the payment fields\<close>

text \<open>A JSON value of a numeric form field.\<close>

datatype jval = JNull | JNum real | JStr string

text \<open>\<open>float(x) if x else 0.0\<close>: \<open>None\<close>, \<open>0\<close> and \<open>""\<close> are falsy.\<close>

definition py_float_or_zero :: "(string \<Rightarrow> real option) \<Rightarrow> jval \<Rightarrow> real option" where
  "py_float_or_zero pf v =
     (case v of
        JNull \<Rightarrow> Some 0
      | JNum r \<Rightarrow> Some r
      | JStr s \<Rightarrow> if s = [] then Some 0 else pf s)"

text \<open>\<open>x or default\<close> on a JSON string or null.\<close>

definition py_or :: "string \<Rightarrow> string option \<Rightarrow> string" where
  "py_or dflt v = (case v of None \<Rightarrow> dflt | Some s \<Rightarrow> if s = [] then dflt else s)"

record billing_req =
  bq_consultation_charge :: jval
  bq_medicine_charge :: jval
  bq_courier_charge :: jval
  bq_delivery_type :: "string option"
  bq_delivered_to :: "string option"
  bq_courier_channel :: "string option"
  bq_courier_tracking :: "string option"
  bq_amount_paid :: jval
  bq_payment_date :: "string option"
  bq_payment_id :: "string option"
  bq_discount :: jval

text \<open>Lines 886-902: the UPDATE, or \<open>None\<close> when a \<open>float()\<close> raises.\<close>

definition payment_update ::
  "(string \<Rightarrow> real option) \<Rightarrow> billing_req \<Rightarrow> (billing_row \<Rightarrow> billing_row) option" where
  "payment_update pf q =
     (case (py_float_or_zero pf (bq_consultation_charge q), py_float_or_zero pf (bq_medicine_charge q),
            py_float_or_zero pf (bq_courier_charge q), py_float_or_zero pf (bq_amount_paid q),
            py_float_or_zero pf (bq_discount q)) of
        (Some cc, Some mc, Some kc, Some ap, Some dc) \<Rightarrow>
          Some (\<lambda>b. b\<lparr>consultation_charge := Some cc, medicine_charge := Some mc,
                      courier_charge := Some kc,
                      delivery_type := Some (py_or ''In-Person'' (bq_delivery_type q)),
                      delivered_to := Some (py_or [] (bq_delivered_to q)),
                      courier_channel := Some (py_or [] (bq_courier_channel q)),
                      courier_tracking := Some (py_or [] (bq_courier_tracking q)),
                      amount_paid := Some ap,
                      payment_date := Some (py_or [] (bq_payment_date q)),
                      payment_id := Some (py_or [] (bq_payment_id q)),
                      discount := Some dc\<rparr>)
      | _ \<Rightarrow> None)"

definition billing_prepare ::
  "(string \<Rightarrow> real option) \<Rightarrow> string \<Rightarrow> billing_req \<Rightarrow> db \<Rightarrow> outcome" where
  "billing_prepare pf k q d =
     (case payment_update pf q of
        None \<Rightarrow> rollback (ServerError ValueError) d
      | Some f \<Rightarrow>
          (let d1 = ensure_billing k d
           in (Json 200 ''Billing saved'', d1\<lparr>billing := tbl_update k f (billing d1)\<rparr>,
               [SaveCsv ''billing''])))"

section \<open>Hand-over, courier, checkout\<close>

definition set_handed_over :: "billing_row \<Rightarrow> billing_row" where
  "set_handed_over b = b\<lparr>medicines_handed_over := Some 1\<rparr>"

definition set_couriered :: "billing_row \<Rightarrow> billing_row" where
  "set_couriered b = b\<lparr>couriered := Some 1\<rparr>"

definition set_checkout :: "billing_row \<Rightarrow> billing_row" where
  "set_checkout b = b\<lparr>checkout_done := Some 1\<rparr>"

text \<open>
  The tail the three handlers share: write the flag, look the mobile number
  up (\<open>TypeError\<close> and rollback when none), commit, notify, export.
\<close>

definition flag_commit ::
  "string \<Rightarrow> (billing_row \<Rightarrow> billing_row) \<Rightarrow> string \<Rightarrow> string \<Rightarrow> effect list \<Rightarrow> db \<Rightarrow> outcome" where
  "flag_commit k f msg notice pre d =
     (let d' = d\<lparr>billing := tbl_update k f (billing d)\<rparr>
      in case appt_mobile k d' of
           None \<Rightarrow> (ServerError TypeError, d, pre)
         | Some m \<Rightarrow> (Json 200 msg, d', pre @ [WhatsApp m notice, SaveCsv ''billing'']))"

definition hand_over_medicine :: "string \<Rightarrow> db \<Rightarrow> outcome" where
  "hand_over_medicine k d =
     (case map_of (billing d) k of
        None \<Rightarrow> rollback (Json 400 ''Medicines not prepared yet'') d
      | Some b \<Rightarrow>
          if \<not> py_truthy_int (medicines_prepared b)
          then rollback (Json 400 ''Medicines not prepared yet'') d
          else flag_commit k set_handed_over ''Medicine handed over'' ''Medicines handed over'' [] d)"

definition courier_done :: "string \<Rightarrow> db \<Rightarrow> outcome" where
  "courier_done k d =
     (case map_of (billing d) k of
        None \<Rightarrow> rollback (Json 400 ''Medicines not prepared yet'') d
      | Some b \<Rightarrow>
          if \<not> py_truthy_int (medicines_prepared b)
          then rollback (Json 400 ''Medicines not prepared yet'') d
          else if delivery_type b \<noteq> Some ''Courier''
          then rollback (Json 400 ''Delivery type is not Courier'') d
          else flag_commit k set_couriered ''Courier done'' ''Medicines couriered'' [] d)"

text \<open>
  Line 963: \<open>total_due\<close>, each NULL charge read as 0.  Line 964 compares the
  paid amount with it; a NULL \<open>amount_paid\<close> makes \<open>None < total_due\<close> raise
  \<open>TypeError\<close> before the commit.  The credit note is printed before the mobile
  lookup, so it is emitted even when that lookup fails.
\<close>

definition total_due :: "billing_row \<Rightarrow> real" where
  "total_due b =
     or_zero (consultation_charge b) + or_zero (medicine_charge b) +
     or_zero (courier_charge b) - or_zero (discount b)"

definition complete_checkout :: "string \<Rightarrow> db \<Rightarrow> outcome" where
  "complete_checkout k d =
     (case map_of (billing d) k of
        None \<Rightarrow> rollback (Json 400 ''Medicines not handed over or couriered'') d
      | Some b \<Rightarrow>
          if \<not> py_truthy_int (medicines_handed_over b) \<and> \<not> py_truthy_int (couriered b)
          then rollback (Json 400 ''Medicines not handed over or couriered'') d
          else (case amount_paid b of
                  None \<Rightarrow> rollback (ServerError TypeError) d
                | Some p \<Rightarrow>
                    flag_commit k set_checkout ''Checkout completed'' ''Checkout completed''
                      (if p < total_due b then [CreditDue k (total_due b - p)] else []) d))"

section \<open>Lemmas\<close>

lemma opt_or_simps [simp]: "opt_or x None = x" "opt_or x (Some y) = y"
  by (simp_all add: opt_or_def)

lemma flag_commit_cases:
  "flag_commit k f msg notice pre d =
     (case appt_mobile k d of
        None \<Rightarrow> (ServerError TypeError, d, pre)
      | Some m \<Rightarrow> (Json 200 msg, d\<lparr>billing := tbl_update k f (billing d)\<rparr>,
                    pre @ [WhatsApp m notice, SaveCsv ''billing'']))"
  by (simp add: flag_commit_def Let_def split: option.split)

lemma flag_commit_db:
  "db_of (flag_commit k f msg notice pre d) =
     (if appt_mobile k d = None then d else d\<lparr>billing := tbl_update k f (billing d)\<rparr>)"
  by (simp add: flag_commit_cases split: option.split)

lemma appt_mobile_tbl_update_billing [simp]:
  "appt_mobile k' (d\<lparr>billing := tbl_update k f (billing d)\<rparr>) = appt_mobile k' d"
  by simp

lemma flag_setters_idem [simp]:
  "set_handed_over (set_handed_over b) = set_handed_over b"
  "set_couriered (set_couriered b) = set_couriered b"
  "set_checkout (set_checkout b) = set_checkout b"
  "set_prepared (set_prepared b) = set_prepared b"
  by (simp_all add: set_handed_over_def set_couriered_def set_checkout_def set_prepared_def)

lemma flag_setters_sel [simp]:
  "medicines_prepared (set_handed_over b) = medicines_prepared b"
  "medicines_handed_over (set_handed_over b) = Some 1"
  "medicines_handed_over (set_couriered b) = medicines_handed_over b"
  "couriered (set_couriered b) = Some 1"
  "medicines_prepared (set_couriered b) = medicines_prepared b"
  "medicines_handed_over (set_checkout b) = medicines_handed_over b"
  "couriered (set_checkout b) = couriered b"
  "checkout_done (set_checkout b) = Some 1"
  "amount_paid (set_checkout b) = amount_paid b"
  by (simp_all add: set_handed_over_def set_couriered_def set_checkout_def)

lemma db_inv_flag_commit:
  "db_inv d \<Longrightarrow> db_inv (db_of (flag_commit k f msg notice pre d))"
  by (auto simp: flag_commit_db db_inv_def)

lemma db_inv_billing_prepare: "db_inv d \<Longrightarrow> db_inv (db_of (billing_prepare pf k q d))"
  by (auto simp: billing_prepare_def Let_def db_inv_def ensure_billing_def split: option.split)

lemma db_inv_hand_over: "db_inv d \<Longrightarrow> db_inv (db_of (hand_over_medicine k d))"
  by (simp add: hand_over_medicine_def db_inv_flag_commit split: option.split)

lemma db_inv_courier_done: "db_inv d \<Longrightarrow> db_inv (db_of (courier_done k d))"
  by (simp add: courier_done_def db_inv_flag_commit split: option.split)

lemma db_inv_complete_checkout: "db_inv d \<Longrightarrow> db_inv (db_of (complete_checkout k d))"
  by (simp add: complete_checkout_def db_inv_flag_commit split: option.split)

definition default_billing_view :: billing_view where
  "default_billing_view = view_of_billing None"

section \<open>Properties of billing and the terminal steps\<close>

text \<open>
  C9.  Reading the billing of an appointment that has no billing row, or only
  the placeholder row, returns all charges 0, delivery type \<open>In-Person\<close>, empty
  texts and all flags 0; the read never fails and changes nothing.
\<close>

theorem get_billing_defaults:
  assumes "map_of (billing d) k = None \<or> map_of (billing d) k = Some placeholder_billing"
  shows "get_billing k d =
           (BillingJson
              \<lparr>v_consultation_charge = 0, v_medicine_charge = 0, v_courier_charge = 0,
               v_delivery_type = ''In-Person'', v_delivered_to = [], v_courier_channel = [],
               v_courier_tracking = [], v_amount_paid = 0, v_payment_date = [], v_payment_id = [],
               v_discount = 0, v_medicines_prepared = 0, v_medicines_handed_over = 0,
               v_couriered = 0, v_checkout_done = 0\<rparr>, d, [])"
  using assms
  by (auto simp: get_billing_def view_of_billing_def placeholder_billing_def)

text \<open>
  C10.  Hand-over fails with 400 and changes nothing unless the row exists with
  \<open>medicines_prepared\<close> set; when it is set (and the patient joins) it answers
  200 and sets \<open>medicines_handed_over\<close>, and invoking it again answers 200 and
  leaves the database as the first call left it.
\<close>

theorem hand_over_guard_and_idempotence:
  "(\<not> (\<exists>b. map_of (billing d) k = Some b \<and> py_truthy_int (medicines_prepared b)) \<longrightarrow>
      hand_over_medicine k d = (Json 400 ''Medicines not prepared yet'', d, [])) \<and>
   ((\<exists>b. map_of (billing d) k = Some b \<and> py_truthy_int (medicines_prepared b)) \<and>
    appt_mobile k d \<noteq> None \<longrightarrow>
      resp_of (hand_over_medicine k d) = Json 200 ''Medicine handed over'' \<and>
      map_option (py_truthy_int \<circ> medicines_handed_over)
        (map_of (billing (db_of (hand_over_medicine k d))) k) = Some True \<and>
      resp_of (hand_over_medicine k (db_of (hand_over_medicine k d))) = Json 200 ''Medicine handed over'' \<and>
      db_of (hand_over_medicine k (db_of (hand_over_medicine k d))) = db_of (hand_over_medicine k d))"
  by (auto simp: hand_over_medicine_def flag_commit_cases rollback_def table_simps tbl_update_idem
           split: option.split)

text \<open>
  C11.  Courier-done fails with 400 and changes nothing when the medicines are
  not prepared, and also when they are prepared but the delivery type is not
  exactly \<open>Courier\<close>; with both (and a joinable patient) it answers 200 and
  sets \<open>couriered\<close>.
\<close>

theorem courier_done_guards:
  assumes "map_of (billing d) k = Some b"
  shows "(\<not> py_truthy_int (medicines_prepared b) \<longrightarrow>
            courier_done k d = (Json 400 ''Medicines not prepared yet'', d, [])) \<and>
         (py_truthy_int (medicines_prepared b) \<and> delivery_type b \<noteq> Some ''Courier'' \<longrightarrow>
            courier_done k d = (Json 400 ''Delivery type is not Courier'', d, [])) \<and>
         (py_truthy_int (medicines_prepared b) \<and> delivery_type b = Some ''Courier'' \<and>
          appt_mobile k d \<noteq> None \<longrightarrow>
            resp_of (courier_done k d) = Json 200 ''Courier done'' \<and>
            map_of (billing (db_of (courier_done k d))) k = Some (set_couriered b))"
  using assms
  by (auto simp: courier_done_def flag_commit_cases rollback_def table_simps split: option.split)

text \<open>
  C12.  Checkout fails with 400 and changes nothing when neither
  \<open>medicines_handed_over\<close> nor \<open>couriered\<close> is set.  When one is set, the paid
  amount is recorded (not NULL) and the patient joins, it answers 200, sets
  \<open>checkout_done\<close>, reports a credit exactly when the paid amount is below
  \<open>consultation + medicine + courier - discount\<close>, and repeating it answers 200
  again without changing the database further.
\<close>

theorem complete_checkout_behaviour:
  assumes row: "map_of (billing d) k = Some b"
  shows "(\<not> py_truthy_int (medicines_handed_over b) \<and> \<not> py_truthy_int (couriered b) \<longrightarrow>
            complete_checkout k d = (Json 400 ''Medicines not handed over or couriered'', d, [])) \<and>
         ((py_truthy_int (medicines_handed_over b) \<or> py_truthy_int (couriered b)) \<and>
          amount_paid b = Some p \<and> appt_mobile k d \<noteq> None \<longrightarrow>
            resp_of (complete_checkout k d) = Json 200 ''Checkout completed'' \<and>
            map_of (billing (db_of (complete_checkout k d))) k = Some (set_checkout b) \<and>
            (CreditDue k (total_due b - p) \<in> set (effects_of (complete_checkout k d)) \<longleftrightarrow>
             p < total_due b) \<and>
            resp_of (complete_checkout k (db_of (complete_checkout k d))) = Json 200 ''Checkout completed'' \<and>
            db_of (complete_checkout k (db_of (complete_checkout k d))) = db_of (complete_checkout k d))"
proof -
  have tot: "total_due (set_checkout b) = total_due b"
    by (simp add: total_due_def set_checkout_def)
  show ?thesis
    using row
    by (auto simp: complete_checkout_def flag_commit_cases rollback_def table_simps tbl_update_idem tot
             split: option.split)
qed

text \<open>
  C13.  Checkout of a row whose \<open>amount_paid\<close> is NULL crashes: for a row that
  is handed over or couriered but was never written by the billing form (the
  placeholder leaves \<open>amount_paid\<close> NULL), \<open>None < total_due\<close> raises
  \<open>TypeError\<close>, the handler answers 500 and the checkout is rolled back.
\<close>

theorem checkout_crashes_without_payment:
  assumes "map_of (billing d) k = Some b"
    and "py_truthy_int (medicines_handed_over b) \<or> py_truthy_int (couriered b)"
    and "amount_paid b = None"
  shows "complete_checkout k d = (ServerError TypeError, d, [])"
  using assms by (auto simp: complete_checkout_def rollback_def)

text \<open>
  C14.  The billing form writes the payment fields and nothing else: after a
  successful \<open>billing_prepare\<close> the billing read returns the parsed charges,
  the texts with their defaults, and the four flags exactly as they were
  before (a missing row reads as the placeholder).
\<close>

theorem billing_prepare_then_get:
  assumes "py_float_or_zero pf (bq_consultation_charge q) = Some cc"
    and "py_float_or_zero pf (bq_medicine_charge q) = Some mc"
    and "py_float_or_zero pf (bq_courier_charge q) = Some kc"
    and "py_float_or_zero pf (bq_amount_paid q) = Some ap"
    and "py_float_or_zero pf (bq_discount q) = Some dc"
  shows "resp_of (billing_prepare pf k q d) = Json 200 ''Billing saved'' \<and>
         resp_of (get_billing k (db_of (billing_prepare pf k q d))) =
           BillingJson
             \<lparr>v_consultation_charge = cc, v_medicine_charge = mc, v_courier_charge = kc,
              v_delivery_type = py_or ''In-Person'' (bq_delivery_type q),
              v_delivered_to = py_or [] (bq_delivered_to q),
              v_courier_channel = py_or [] (bq_courier_channel q),
              v_courier_tracking = py_or [] (bq_courier_tracking q),
              v_amount_paid = ap, v_payment_date = py_or [] (bq_payment_date q),
              v_payment_id = py_or [] (bq_payment_id q), v_discount = dc,
              v_medicines_prepared = v_medicines_prepared (view_of_billing (Some (opt_or placeholder_billing (map_of (billing d) k)))),
              v_medicines_handed_over = v_medicines_handed_over (view_of_billing (Some (opt_or placeholder_billing (map_of (billing d) k)))),
              v_couriered = v_couriered (view_of_billing (Some (opt_or placeholder_billing (map_of (billing d) k)))),
              v_checkout_done = v_checkout_done (view_of_billing (Some (opt_or placeholder_billing (map_of (billing d) k))))\<rparr>"
  using assms
  by (auto simp: billing_prepare_def payment_update_def get_billing_def view_of_billing_def
                 ensure_billing_def table_simps Let_def split: option.split)

lemma py_float_or_zero_None:
  "py_float_or_zero pf v = None \<longleftrightarrow> (\<exists>s. v = JStr s \<and> s \<noteq> [] \<and> pf s = None)"
  by (cases v) (auto simp: py_float_or_zero_def)

lemma payment_update_None:
  "payment_update pf q = None \<longleftrightarrow>
   (\<exists>v\<in>set [bq_consultation_charge q, bq_medicine_charge q, bq_courier_charge q, bq_amount_paid q,
             bq_discount q]. py_float_or_zero pf v = None)"
  by (auto simp: payment_update_def split: option.splits)

text \<open>
  C15.  A numeric billing field (any of the five: consultation, medicine and
  courier charge, amount paid, discount) that is a non-empty string Python's
  \<open>float()\<close> rejects makes the handler raise \<open>ValueError\<close>: the answer is 500
  (not a 400 validation error) and nothing is written; and this is the only
  way the billing save fails.
\<close>

theorem billing_prepare_malformed_number:
  "(\<exists>v\<in>set [bq_consultation_charge q, bq_medicine_charge q, bq_courier_charge q, bq_amount_paid q,
             bq_discount q]. \<exists>s. v = JStr s \<and> s \<noteq> [] \<and> pf s = None) \<longleftrightarrow>
   billing_prepare pf k q d = (ServerError ValueError, d, [])"
proof -
  have "billing_prepare pf k q d = (ServerError ValueError, d, []) \<longleftrightarrow> payment_update pf q = None"
    by (auto simp: billing_prepare_def rollback_def Let_def split: option.split)
  then show ?thesis by (simp only: payment_update_None py_float_or_zero_None)
qed

section \<open>Witnesses\<close>

definition demo_with_row :: "billing_row \<Rightarrow> db" where
  "demo_with_row b = demo_db2\<lparr>billing := [(''a1'', b)]\<rparr>"

definition demo_prepared :: "string \<Rightarrow> billing_row" where
  "demo_prepared dt = placeholder_billing\<lparr>medicines_prepared := Some 1, delivery_type := Some dt\<rparr>"

definition demo_handed :: "real option \<Rightarrow> billing_row" where
  "demo_handed p = placeholder_billing\<lparr>consultation_charge := Some 50, medicine_charge := Some 80,
     medicines_prepared := Some 1, medicines_handed_over := Some 1, amount_paid := p\<rparr>"

lemma demo_with_row_facts [simp]:
  "map_of (billing (demo_with_row b)) ''a1'' = Some b"
  "appt_mobile ''a1'' (demo_with_row b) = Some ''555''"
  by (simp_all add: demo_with_row_def demo_db2_facts(1))

theorem get_billing_defaults_witness:
  "map_of (billing demo_db2) ''a1'' = Some placeholder_billing \<and>
   resp_of (get_billing ''a1'' demo_db2) = BillingJson default_billing_view"
proof -
  have h: "map_of (billing demo_db2) ''a1'' = Some placeholder_billing"
    by (simp add: demo_db2_def)
  then have "map_of (billing demo_db2) ''a1'' = None \<or> map_of (billing demo_db2) ''a1'' = Some placeholder_billing"
    by simp
  from get_billing_defaults [OF this] h show ?thesis
    by (simp add: default_billing_view_def view_of_billing_def)
qed

theorem hand_over_guard_and_idempotence_witness:
  "hand_over_medicine ''a1'' demo_db2 = (Json 400 ''Medicines not prepared yet'', demo_db2, []) \<and>
   resp_of (hand_over_medicine ''a1'' (demo_with_row (demo_prepared ''In-Person''))) = Json 200 ''Medicine handed over'' \<and>
   db_of (hand_over_medicine ''a1'' (db_of (hand_over_medicine ''a1'' (demo_with_row (demo_prepared ''In-Person''))))) =
     db_of (hand_over_medicine ''a1'' (demo_with_row (demo_prepared ''In-Person'')))"
proof -
  have n: "\<not> (\<exists>b. map_of (billing demo_db2) ''a1'' = Some b \<and> py_truthy_int (medicines_prepared b))"
    by (simp add: demo_db2_def placeholder_billing_def)
  have y: "(\<exists>b. map_of (billing (demo_with_row (demo_prepared ''In-Person''))) ''a1'' = Some b \<and>
              py_truthy_int (medicines_prepared b)) \<and>
           appt_mobile ''a1'' (demo_with_row (demo_prepared ''In-Person'')) \<noteq> None"
    by (simp add: demo_prepared_def)
  show ?thesis
    using hand_over_guard_and_idempotence [of demo_db2 "''a1''"]
      hand_over_guard_and_idempotence [of "demo_with_row (demo_prepared ''In-Person'')" "''a1''"] n y
    by blast
qed

theorem courier_done_guards_witness:
  "courier_done ''a1'' (demo_with_row (demo_prepared ''In-Person'')) =
     (Json 400 ''Delivery type is not Courier'', demo_with_row (demo_prepared ''In-Person''), []) \<and>
   resp_of (courier_done ''a1'' (demo_with_row (demo_prepared ''Courier''))) = Json 200 ''Courier done''"
proof -
  note c1 = courier_done_guards [OF demo_with_row_facts(1) [of "demo_prepared ''In-Person''"]]
  note c2 = courier_done_guards [OF demo_with_row_facts(1) [of "demo_prepared ''Courier''"]]
  show ?thesis
    using c1 c2 by (simp add: demo_prepared_def)
qed

theorem complete_checkout_behaviour_witness:
  "resp_of (complete_checkout ''a1'' (demo_with_row (demo_handed (Some 100)))) = Json 200 ''Checkout completed'' \<and>
   CreditDue ''a1'' 30 \<in> set (effects_of (complete_checkout ''a1'' (demo_with_row (demo_handed (Some 100))))) \<and>
   complete_checkout ''a1'' (demo_with_row (demo_prepared ''In-Person'')) =
     (Json 400 ''Medicines not handed over or couriered'', demo_with_row (demo_prepared ''In-Person''), [])"
proof -
  have tot: "total_due (demo_handed (Some 100)) = 130"
    by (simp add: total_due_def demo_handed_def placeholder_billing_def)
  note c1 = complete_checkout_behaviour [OF demo_with_row_facts(1) [of "demo_handed (Some 100)"], of 100]
  note c2 = complete_checkout_behaviour [OF demo_with_row_facts(1) [of "demo_prepared ''In-Person''"]]
  have h: "(py_truthy_int (medicines_handed_over (demo_handed (Some 100))) \<or>
            py_truthy_int (couriered (demo_handed (Some 100)))) \<and>
           amount_paid (demo_handed (Some 100)) = Some 100 \<and>
           appt_mobile ''a1'' (demo_with_row (demo_handed (Some 100))) \<noteq> None"
    by (simp add: demo_handed_def)
  from c1 h tot have "resp_of (complete_checkout ''a1'' (demo_with_row (demo_handed (Some 100)))) =
        Json 200 ''Checkout completed'' \<and>
      CreditDue ''a1'' 30 \<in> set (effects_of (complete_checkout ''a1'' (demo_with_row (demo_handed (Some 100)))))"
    by simp
  moreover have "complete_checkout ''a1'' (demo_with_row (demo_prepared ''In-Person'')) =
     (Json 400 ''Medicines not handed over or couriered'', demo_with_row (demo_prepared ''In-Person''), [])"
    using c2 by (simp add: demo_prepared_def placeholder_billing_def)
  ultimately show ?thesis by blast
qed

theorem checkout_crashes_without_payment_witness:
  "amount_paid (demo_handed None) = None \<and>
   complete_checkout ''a1'' (demo_with_row (demo_handed None)) =
     (ServerError TypeError, demo_with_row (demo_handed None), [])"
proof -
  have h: "py_truthy_int (medicines_handed_over (demo_handed None)) \<or> py_truthy_int (couriered (demo_handed None))"
    and a: "amount_paid (demo_handed None) = None"
    by (simp_all add: demo_handed_def)
  from checkout_crashes_without_payment [OF demo_with_row_facts(1) h a] a show ?thesis by simp
qed

definition demo_payment :: billing_req where
  "demo_payment =
     \<lparr>bq_consultation_charge = JNum 50, bq_medicine_charge = JStr ''80'', bq_courier_charge = JNull,
      bq_delivery_type = Some [], bq_delivered_to = Some ''Ann'', bq_courier_channel = None,
      bq_courier_tracking = None, bq_amount_paid = JNum 130, bq_payment_date = Some ''2025-01-02'',
      bq_payment_id = Some ''UPI-1'', bq_discount = JStr []\<rparr>"

definition demo_float :: "string \<Rightarrow> real option" where
  "demo_float s = (if s = ''80'' then Some 80 else None)"

theorem billing_prepare_then_get_witness:
  "resp_of (get_billing ''a1'' (db_of (billing_prepare demo_float ''a1'' demo_payment demo_db2))) =
     BillingJson
       \<lparr>v_consultation_charge = 50, v_medicine_charge = 80, v_courier_charge = 0,
        v_delivery_type = ''In-Person'', v_delivered_to = ''Ann'', v_courier_channel = [],
        v_courier_tracking = [], v_amount_paid = 130, v_payment_date = ''2025-01-02'',
        v_payment_id = ''UPI-1'', v_discount = 0, v_medicines_prepared = 0,
        v_medicines_handed_over = 0, v_couriered = 0, v_checkout_done = 0\<rparr>"
proof -
  have h: "py_float_or_zero demo_float (bq_consultation_charge demo_payment) = Some 50"
    "py_float_or_zero demo_float (bq_medicine_charge demo_payment) = Some 80"
    "py_float_or_zero demo_float (bq_courier_charge demo_payment) = Some 0"
    "py_float_or_zero demo_float (bq_amount_paid demo_payment) = Some 130"
    "py_float_or_zero demo_float (bq_discount demo_payment) = Some 0"
    by (simp_all add: py_float_or_zero_def demo_payment_def demo_float_def)
  from billing_prepare_then_get [OF h, of "''a1''" demo_db2] show ?thesis
    by (simp add: demo_payment_def py_or_def demo_db2_def view_of_billing_def placeholder_billing_def)
qed

theorem billing_prepare_malformed_number_witness:
  "billing_prepare demo_float ''a1'' (demo_payment\<lparr>bq_discount := JStr ''abc''\<rparr>) demo_db2 =
     (ServerError ValueError, demo_db2, [])"
  using billing_prepare_malformed_number [of "demo_payment\<lparr>bq_discount := JStr ''abc''\<rparr>" demo_float "''a1''" demo_db2]
  by (simp add: demo_float_def)

end
