(* ===== verification/Auth.thy ===== *)
theory Auth
  imports Handler
begin

text \<open>
  Login, logout and the role check of \<open>src/app.py\<close>.  \<open>init_db\<close> writes three
  fixed accounts to \<open>uploads/users.csv\<close> (lines 42-48) with the SHA-256 hex
  digest of their password; \<open>login\<close> (lines 61-99) compares the digest of the
  submitted password with the stored one and stores the username and role of
  the first matching row in the session; \<open>logout\<close> (lines 101-105) removes
  both.  Every other handler first tests
  \<open>'role' not in session or session['role'] != ROLE\<close>.  The hash function is
  a parameter \<open>h\<close> (the model does not compute SHA-256).
\<close>

record session =
  s_username :: "string option"
  s_role :: "string option"

definition empty_session :: session where
  "empty_session = \<lparr>s_username = None, s_role = None\<rparr>"

record user =
  u_username :: string
  u_password :: string
  u_role :: string

definition initial_users :: "(string \<Rightarrow> string) \<Rightarrow> user list" where
  "initial_users h =
     [\<lparr>u_username = ''receptionist'', u_password = h ''rec123'', u_role = ''receptionist''\<rparr>,
      \<lparr>u_username = ''doctor'', u_password = h ''doc123'', u_role = ''doctor''\<rparr>,
      \<lparr>u_username = ''pharmacist'', u_password = h ''pharm123'', u_role = ''pharmacist''\<rparr>]"

datatype login_req = LoginGet | LoginPost string string

text \<open>\<open>redirect(url_for(f"{session['role']}_dashboard"))\<close>, a \<open>KeyError\<close> without a role.\<close>

definition dashboard_redirect :: "session \<Rightarrow> response" where
  "dashboard_redirect s =
     (case s_role s of None \<Rightarrow> ServerError KeyError | Some r \<Rightarrow> Redirect (r @ ''_dashboard''))"

definition login :: "(string \<Rightarrow> string) \<Rightarrow> user list \<Rightarrow> session \<Rightarrow> login_req \<Rightarrow> response \<times> session" where
  "login h us s q =
     (if s_username s \<noteq> None then (dashboard_redirect s, s)
      else case q of
        LoginGet \<Rightarrow> (LoginPage None, s)
      | LoginPost un pw \<Rightarrow>
          (case filter (\<lambda>u. u_username u = un \<and> u_password u = h pw) us of
             [] \<Rightarrow> (LoginPage (Some ''Invalid credentials''), s)
           | u # _ \<Rightarrow>
               (let s' = s\<lparr>s_username := Some un, s_role := Some (u_role u)\<rparr>
                in (dashboard_redirect s', s'))))"

definition logout :: "session \<Rightarrow> response \<times> session" where
  "logout s = (Redirect ''login'', s\<lparr>s_username := None, s_role := None\<rparr>)"

text \<open>The guard at the top of every role-scoped handler.\<close>

definition has_role :: "string \<Rightarrow> session \<Rightarrow> bool" where
  "has_role r s \<longleftrightarrow> s_role s = Some r"

section \<open>Properties of login\<close>

text \<open>
  C16.  From a fresh session, logging in with one of the three built-in
  accounts and its password yields that account's role in the session and a
  redirect to that role's dashboard, whatever the hash function; a password
  whose hash differs from the stored one is refused and leaves the session
  empty.
\<close>

theorem login_builtin_accounts:
  assumes "(un, pw, r) \<in> {(''receptionist'', ''rec123'', ''receptionist''),
                          (''doctor'', ''doc123'', ''doctor''),
                          (''pharmacist'', ''pharm123'', ''pharmacist'')}"
  shows "login h (initial_users h) empty_session (LoginPost un pw) =
           (Redirect (r @ ''_dashboard''),
            \<lparr>s_username = Some un, s_role = Some r\<rparr>) \<and>
         (h pw' \<noteq> h pw \<longrightarrow>
            login h (initial_users h) empty_session (LoginPost un pw') =
              (LoginPage (Some ''Invalid credentials''), empty_session))"
proof -
  from assms consider
      "un = ''receptionist''" "pw = ''rec123''" "r = ''receptionist''"
    | "un = ''doctor''" "pw = ''doc123''" "r = ''doctor''"
    | "un = ''pharmacist''" "pw = ''pharm123''" "r = ''pharmacist''"
    by blast
  then show ?thesis
    by cases (simp_all add: login_def initial_users_def empty_session_def dashboard_redirect_def)
qed

section \<open>Witnesses\<close>

theorem login_builtin_accounts_witness:
  "login (\<lambda>x. x) (initial_users (\<lambda>x. x)) empty_session (LoginPost ''doctor'' ''doc123'') =
     (Redirect ''doctor_dashboard'', \<lparr>s_username = Some ''doctor'', s_role = Some ''doctor''\<rparr>) \<and>
   login (\<lambda>x. x) (initial_users (\<lambda>x. x)) empty_session (LoginPost ''doctor'' ''wrong'') =
     (LoginPage (Some ''Invalid credentials''), empty_session)"
proof -
  have m: "(''doctor'', ''doc123'', ''doctor'') \<in> {(''receptionist'', ''rec123'', ''receptionist''),
                          (''doctor'', ''doc123'', ''doctor''),
                          (''pharmacist'', ''pharm123'', ''pharmacist'')}"
    by simp
  note l = login_builtin_accounts [OF m, of "\<lambda>x. x" "''wrong''"]
  have a: "login (\<lambda>x. x) (initial_users (\<lambda>x. x)) empty_session (LoginPost ''doctor'' ''doc123'') =
     (Redirect (''doctor'' @ ''_dashboard''), \<lparr>s_username = Some ''doctor'', s_role = Some ''doctor''\<rparr>)"
    by (rule conjunct1 [OF l])
  have b: "login (\<lambda>x. x) (initial_users (\<lambda>x. x)) empty_session (LoginPost ''doctor'' ''wrong'') =
     (LoginPage (Some ''Invalid credentials''), empty_session)"
    by (rule mp [OF conjunct2 [OF l]]) simp
  from a b show ?thesis by (simp only: append.simps)
qed

end
