(* ===== verification/Api.thy ===== *)
theory Api
  imports Billing Auth
begin

text \<open>
  The HTTP surface of \<open>src/app.py\<close> as one dispatcher.  A request names a
  route and its payload; \<open>dispatch\<close> first applies the route's role check
  (\<open>'role' not in session or session['role'] != ROLE\<close>: 403 JSON for the API
  routes, a redirect to the login page for the dashboards) and then runs the
  handler of the route.  The inputs a handler takes from its environment
  (\<open>datetime.now()\<close>, the two \<open>uuid4()\<close> values, Python's \<open>float()\<close>) are
  an \<open>env\<close>.  The states the program can reach are those produced from the
  empty database by any sequence of requests from any sessions.
\<close>

datatype request =
    BookAppointment booking_req
  | CheckIn string string
  | GetDiagnosis string
  | SaveDiagnosis string diag_req
  | PrepareMedicine string
  | GetBilling string
  | BillingPrepare string billing_req
  | HandOver string
  | CourierDone string
  | CompleteCheckout string
  | ReceptionistDashboard "booking_req option"
  | DoctorDashboard
  | PharmacistDashboard

record env =
  now :: clock
  new_patient_id :: string
  new_appointment_id :: string
  py_float :: "string \<Rightarrow> real option"

fun required_role :: "request \<Rightarrow> string" where
  "required_role (BookAppointment _) = ''receptionist''"
| "required_role (CheckIn _ _) = ''receptionist''"
| "required_role (GetDiagnosis _) = ''doctor''"
| "required_role (SaveDiagnosis _ _) = ''doctor''"
| "required_role (PrepareMedicine _) = ''pharmacist''"
| "required_role (GetBilling _) = ''receptionist''"
| "required_role (BillingPrepare _ _) = ''receptionist''"
| "required_role (HandOver _) = ''receptionist''"
| "required_role (CourierDone _) = ''receptionist''"
| "required_role (CompleteCheckout _) = ''receptionist''"
| "required_role (ReceptionistDashboard _) = ''receptionist''"
| "required_role DoctorDashboard = ''doctor''"
| "required_role PharmacistDashboard = ''pharmacist''"

fun is_page :: "request \<Rightarrow> bool" where
  "is_page (ReceptionistDashboard _) = True"
| "is_page DoctorDashboard = True"
| "is_page PharmacistDashboard = True"
| "is_page _ = False"

text \<open>
  Lines 419-434 and 596-614: the doctor's and the pharmacist's dashboards
  read the join and render it; they change nothing.
\<close>

definition doctor_dashboard :: "db \<Rightarrow> outcome" where
  doctor_dashboard_def [simp]: "doctor_dashboard d = (DashboardPage ''doctor'' (dashboard_rows d), d, [])"

definition pharmacist_dashboard :: "db \<Rightarrow> outcome" where
  pharmacist_dashboard_def [simp]:
    "pharmacist_dashboard d = (DashboardPage ''pharmacist'' (pharmacist_rows d), d, [])"

fun handle :: "env \<Rightarrow> request \<Rightarrow> db \<Rightarrow> outcome" where
  "handle e (BookAppointment r) d =
     book_appointment (now e) (new_patient_id e) (new_appointment_id e) r d"
| "handle e (CheckIn k st) d = check_in (now e) k st d"
| "handle e (GetDiagnosis k) d = get_diagnosis k d"
| "handle e (SaveDiagnosis k q) d = save_diagnosis k q d"
| "handle e (PrepareMedicine k) d = prepare_medicine k d"
| "handle e (GetBilling k) d = get_billing k d"
| "handle e (BillingPrepare k q) d = billing_prepare (py_float e) k q d"
| "handle e (HandOver k) d = hand_over_medicine k d"
| "handle e (CourierDone k) d = courier_done k d"
| "handle e (CompleteCheckout k) d = complete_checkout k d"
| "handle e (ReceptionistDashboard None) d =
     (DashboardPage ''receptionist'' (dashboard_rows d), d, [])"
| "handle e (ReceptionistDashboard (Some r)) d =
     dashboard_book (now e) (new_patient_id e) (new_appointment_id e) r d"
| "handle e DoctorDashboard d = doctor_dashboard d"
| "handle e PharmacistDashboard d = pharmacist_dashboard d"

definition dispatch :: "env \<Rightarrow> session \<Rightarrow> request \<Rightarrow> db \<Rightarrow> outcome" where
  "dispatch e s q d =
     (if has_role (required_role q) s then handle e q d
      else rollback (if is_page q then Redirect ''login'' else Json 403 ''Unauthorized'') d)"

inductive reachable :: "db \<Rightarrow> bool" where
  reach_init: "reachable empty_db"
| reach_step: "reachable d \<Longrightarrow> reachable (db_of (dispatch e s q d))"

text \<open>A run: a sequence of requests, each with its environment and session.\<close>

fun run :: "(env \<times> session \<times> request) list \<Rightarrow> db \<Rightarrow> response list \<times> db" where
  "run [] d = ([], d)"
| "run ((e, s, q) # rs) d =
     (let out = dispatch e s q d; (resps, d') = run rs (db_of out) in (resp_of out # resps, d'))"

definition role_session :: "string \<Rightarrow> session" where
  "role_session r = \<lparr>s_username = Some r, s_role = Some r\<rparr>"

definition demo_env :: env where
  "demo_env = \<lparr>now = demo_clock, new_patient_id = ''p1'', new_appointment_id = ''a1'',
               py_float = demo_float\<rparr>"

section \<open>The database constraints hold in every reachable state\<close>

lemma dashboard_book_cases:
  "(\<exists>resp. dashboard_book c pid aid r d = rollback resp d) \<or>
   (\<exists>p pts. upsert_patient pid r (patients d) = Inr (p, pts) \<and>
      map_of (appointments d) aid = None \<and>
      db_of (dashboard_book c pid aid r d) =
        d\<lparr>patients := pts, appointments := appointments d @ [(aid, new_appointment_row c p r)]\<rparr>)"
  by (auto simp: dashboard_book_def tbl_insert_def Let_def
           split: sum.split option.split if_split prod.split)

lemma db_inv_dashboard_book: "db_inv d \<Longrightarrow> db_inv (db_of (dashboard_book c pid aid r d))"
  using dashboard_book_cases [of c pid aid r d]
  by (auto intro: db_inv_book_success)

lemmas db_inv_handlers =
  db_inv_book_appointment db_inv_dashboard_book db_inv_check_in db_inv_save_diagnosis
  db_inv_prepare_medicine db_inv_billing_prepare db_inv_hand_over db_inv_courier_done
  db_inv_complete_checkout

lemma db_inv_handle: "db_inv d \<Longrightarrow> db_inv (db_of (handle e q d))"
  by (cases "(e, q, d)" rule: handle.cases) (simp_all add: db_inv_handlers get_diagnosis_def get_billing_def)

lemma db_inv_dispatch: "db_inv d \<Longrightarrow> db_inv (db_of (dispatch e s q d))"
  by (simp add: dispatch_def db_inv_handle)

text \<open>
  C18.  The integrity constraints of the schema (primary keys, the unique
  mobile number, every appointment naming an existing patient) hold in every
  database reachable from the empty one by requests of any sessions.
\<close>

theorem reachable_db_inv: "reachable d \<Longrightarrow> db_inv d"
  by (induction rule: reachable.induct) (simp_all add: db_inv_empty db_inv_dispatch)

section \<open>What each role's requests can change\<close>

lemma has_role_required:
  "has_role (required_role q) s \<Longrightarrow> s_role s = Some (required_role q)"
  by (simp add: has_role_def)

lemma required_role_cases:
  "required_role q = ''receptionist'' \<or> required_role q = ''doctor'' \<or> required_role q = ''pharmacist''"
  by (cases q) simp_all

lemma dispatch_denied [simp]:
  "\<not> has_role (required_role q) s \<Longrightarrow> db_of (dispatch e s q d) = d \<and> effects_of (dispatch e s q d) = []"
  by (simp add: dispatch_def rollback_def)

lemma dispatch_allowed [simp]:
  "has_role (required_role q) s \<Longrightarrow> dispatch e s q d = handle e q d"
  by (simp add: dispatch_def)

lemma handle_keeps_diagnoses:
  "required_role q \<noteq> ''doctor'' \<Longrightarrow> diagnoses (db_of (handle e q d)) = diagnoses d"
proof (cases "(e, q, d)" rule: handle.cases)
  case (1 e r d)
  then show ?thesis
    using book_appointment_cases [of "now e" "new_patient_id e" "new_appointment_id e" r d]
    by (auto simp: rollback_def)
next
  case (5 e k d)
  then show ?thesis using prepare_medicine_db [of k d] by auto
next
  case (12 e r d)
  then show ?thesis
    using dashboard_book_cases [of "now e" "new_patient_id e" "new_appointment_id e" r d]
    by (auto simp: rollback_def)
qed (auto simp: check_in_cases billing_prepare_def hand_over_medicine_def courier_done_def
                complete_checkout_def flag_commit_db get_billing_def rollback_def Let_def
          split: option.split)

lemma handle_keeps_people:
  "required_role q \<noteq> ''receptionist'' \<Longrightarrow>
   patients (db_of (handle e q d)) = patients d \<and> appointments (db_of (handle e q d)) = appointments d"
proof (cases "(e, q, d)" rule: handle.cases)
  case (5 e k d)
  then show ?thesis using prepare_medicine_db [of k d] by auto
qed (auto simp: save_diagnosis_db get_diagnosis_def)

lemma doctor_request_cases:
  "required_role q = ''doctor'' \<Longrightarrow>
   (\<exists>k. q = GetDiagnosis k) \<or> (\<exists>k r. q = SaveDiagnosis k r) \<or> q = DoctorDashboard"
  by (cases q) simp_all

lemma pharmacist_request_cases:
  "required_role q = ''pharmacist'' \<Longrightarrow> (\<exists>k. q = PrepareMedicine k) \<or> q = PharmacistDashboard"
  by (cases q) simp_all

text \<open>
  C19.  Logging out clears the session: no role check passes afterwards, the
  login page shows its form again, and every request is refused before its
  handler runs (dashboards redirect to the login page, API routes answer 403)
  with neither the database nor the outside world touched.
\<close>

theorem logout_then_request_rejected:
  "\<not> has_role r (snd (logout s)) \<and>
   login h us (snd (logout s)) LoginGet = (LoginPage None, snd (logout s)) \<and>
   dispatch e (snd (logout s)) q d =
     (if is_page q then Redirect ''login'' else Json 403 ''Unauthorized'', d, [])"
  by (simp add: dispatch_def has_role_def logout_def rollback_def login_def)

text \<open>
  C20.  Role separation: only the doctor's requests change diagnoses, only the
  receptionist's requests change patients and appointments, and a session with
  none of the three roles changes nothing.
\<close>

theorem role_separation:
  "(s_role s \<noteq> Some ''doctor'' \<longrightarrow> diagnoses (db_of (dispatch e s q d)) = diagnoses d) \<and>
   (s_role s \<noteq> Some ''receptionist'' \<longrightarrow>
      patients (db_of (dispatch e s q d)) = patients d \<and>
      appointments (db_of (dispatch e s q d)) = appointments d) \<and>
   (s_role s \<notin> Some ` {''receptionist'', ''doctor'', ''pharmacist''} \<longrightarrow> db_of (dispatch e s q d) = d)"
proof (cases "has_role (required_role q) s")
  case False
  then show ?thesis by simp
next
  case True
  then have r: "s_role s = Some (required_role q)" by (rule has_role_required)
  show ?thesis
    using True r required_role_cases [of q] handle_keeps_diagnoses [of q e d]
          handle_keeps_people [of q e d]
    by auto
qed

text \<open>
  C21.  A doctor's requests never change an existing billing row: saving a
  diagnosis only inserts the placeholder row where there is none.
\<close>

theorem doctor_keeps_billing_rows:
  assumes "s_role s = Some ''doctor''" and "map_of (billing d) k = Some b"
  shows "map_of (billing (db_of (dispatch e s q d))) k = Some b"
proof (cases "has_role (required_role q) s")
  case False
  then show ?thesis using assms(2) by simp
next
  case True
  then have "required_role q = ''doctor''" using assms(1) by (simp add: has_role_def)
  then show ?thesis
    using True assms(2) doctor_request_cases [of q]
    by (auto simp: save_diagnosis_db get_diagnosis_def table_simps split: option.split)
qed

text \<open>
  C22.  A pharmacist's requests change nothing but the prepared flag: patients,
  appointments and diagnoses stay as they are, and an existing billing row is
  either unchanged or has \<open>medicines_prepared\<close> set.
\<close>

theorem pharmacist_only_prepares:
  assumes "s_role s = Some ''pharmacist''" and "map_of (billing d) k = Some b"
  shows "patients (db_of (dispatch e s q d)) = patients d \<and>
         appointments (db_of (dispatch e s q d)) = appointments d \<and>
         diagnoses (db_of (dispatch e s q d)) = diagnoses d \<and>
         map_of (billing (db_of (dispatch e s q d))) k \<in> {Some b, Some (set_prepared b)}"
proof (cases "has_role (required_role q) s")
  case False
  then show ?thesis using assms(2) by simp
next
  case True
  then have p: "required_role q = ''pharmacist''" using assms(1) by (simp add: has_role_def)
  have keep: "patients (db_of (dispatch e s q d)) = patients d \<and>
              appointments (db_of (dispatch e s q d)) = appointments d \<and>
              diagnoses (db_of (dispatch e s q d)) = diagnoses d"
    using True p handle_keeps_diagnoses [of q e d] handle_keeps_people [of q e d] by simp
  have "map_of (billing (db_of (handle e q d))) k \<in> {Some b, Some (set_prepared b)}"
    using pharmacist_request_cases [OF p]
  proof (elim disjE exE)
    fix k'
    assume q: "q = PrepareMedicine k'"
    show ?thesis
      using prepare_medicine_db [of k' d] assms(2)
      by (auto simp: q table_simps split: option.split)
  qed (simp add: assms(2))
  with keep True show ?thesis by simp
qed

section \<open>Witnesses\<close>

lemma demo_sessions [simp]:
  "s_role (role_session r) = Some r"
  "map_of (billing demo_db2) ''a1'' = Some placeholder_billing"
  by (simp_all add: role_session_def demo_db2_def)

theorem reachable_db_inv_witness:
  "reachable (db_of (dispatch demo_env (role_session ''receptionist'')
      (BookAppointment (demo_req ''2025-01-02'' ''Manual In-Clinic'')) empty_db)) \<and>
   db_inv (db_of (dispatch demo_env (role_session ''receptionist'')
      (BookAppointment (demo_req ''2025-01-02'' ''Manual In-Clinic'')) empty_db))"
proof -
  have r: "reachable (db_of (dispatch demo_env (role_session ''receptionist'')
      (BookAppointment (demo_req ''2025-01-02'' ''Manual In-Clinic'')) empty_db))"
    by (rule reach_step [OF reach_init])
  from r reachable_db_inv [OF r] show ?thesis by simp
qed

theorem role_separation_witness:
  "diagnoses (db_of (dispatch demo_env (role_session ''pharmacist'') (PrepareMedicine ''a1'') demo_db2))
     = diagnoses demo_db2 \<and>
   patients (db_of (dispatch demo_env (role_session ''pharmacist'') (PrepareMedicine ''a1'') demo_db2))
     = patients demo_db2 \<and>
   db_of (dispatch demo_env empty_session (SaveDiagnosis ''a1'' (demo_diag ''Amoxicillin'')) demo_db2)
     = demo_db2"
  using role_separation [of "role_session ''pharmacist''" demo_env "PrepareMedicine ''a1''" demo_db2]
        role_separation [of empty_session demo_env "SaveDiagnosis ''a1'' (demo_diag ''Amoxicillin'')" demo_db2]
  by (simp add: empty_session_def)

theorem doctor_keeps_billing_rows_witness:
  "map_of (billing (db_of (dispatch demo_env (role_session ''doctor'')
      (SaveDiagnosis ''a1'' (demo_diag ''Amoxicillin'')) demo_db2))) ''a1'' = Some placeholder_billing"
  by (rule doctor_keeps_billing_rows) simp_all

theorem pharmacist_only_prepares_witness:
  "map_of (billing (db_of (dispatch demo_env (role_session ''pharmacist'') (PrepareMedicine ''a1'') demo_db2))) ''a1''
     \<in> {Some placeholder_billing, Some (set_prepared placeholder_billing)} \<and>
   diagnoses (db_of (dispatch demo_env (role_session ''pharmacist'') (PrepareMedicine ''a1'') demo_db2))
     = diagnoses demo_db2"
  using pharmacist_only_prepares [of "role_session ''pharmacist''" demo_db2 "''a1''" placeholder_billing
                                     demo_env "PrepareMedicine ''a1''"]
  by simp

end
