(* ===== verification/Refinement.thy ===== *)
theory Refinement
  imports Api
begin

text \<open>
  The handlers refine the abstract lifecycle of \<open>Lifecycle\<close>.  Each key's
  billing row is read as an abstract state (\<open>abs_row\<close>; a key with no row reads
  as the placeholder, that is \<open>lc_init\<close>).  Every request changes every key's
  abstract state by at most one \<open>lc_step\<close>; hence in every reachable database
  each row's flags are a state of the abstract machine reachable from
  \<open>lc_init\<close>, and the machine's ordering invariant and monotonicity carry over
  to the SQLite flags.
\<close>

definition abs_billing :: "billing_row \<Rightarrow> lifecycle" where
  "abs_billing b =
     \<lparr>lc_prepared = py_truthy_int (medicines_prepared b),
      lc_handed = py_truthy_int (medicines_handed_over b),
      lc_couriered = py_truthy_int (couriered b),
      lc_checked_out = py_truthy_int (checkout_done b),
      lc_delivery = delivery_type b\<rparr>"

definition abs_row :: "db \<Rightarrow> string \<Rightarrow> lifecycle" where
  "abs_row d k = abs_billing (opt_or placeholder_billing (map_of (billing d) k))"

definition billing_keys :: "db \<Rightarrow> string set" where
  "billing_keys d = fst ` set (billing d)"

lemma abs_placeholder [simp]: "abs_billing placeholder_billing = lc_init"
  by (simp add: abs_billing_def placeholder_billing_def lc_init_def)

section \<open>How the billing statements move the abstract state\<close>

lemma abs_row_same_billing:
  "billing d' = billing d \<Longrightarrow> abs_row d' = abs_row d"
  by (simp add: abs_row_def fun_eq_iff)

lemma abs_row_ensure_billing [simp]: "abs_row (ensure_billing k d) = abs_row d"
  by (auto simp: abs_row_def fun_eq_iff table_simps split: option.split)

lemma abs_row_tbl_update:
  "abs_row (d\<lparr>billing := tbl_update k f (billing d)\<rparr>) k' =
     (if k' = k \<and> map_of (billing d) k \<noteq> None
      then abs_billing (f (the (map_of (billing d) k))) else abs_row d k')"
  by (auto simp: abs_row_def table_simps)

text \<open>An UPDATE of one row by \<open>f\<close> refines when \<open>f\<close> does on that row.\<close>

lemma refines_tbl_update:
  assumes "\<And>b. map_of (billing d) k = Some b \<Longrightarrow> lc_step\<^sup>=\<^sup>= (abs_billing b) (abs_billing (f b))"
  shows "lc_step\<^sup>=\<^sup>= (abs_row d k') (abs_row (d\<lparr>billing := tbl_update k f (billing d)\<rparr>) k')"
proof (cases "k' = k \<and> map_of (billing d) k \<noteq> None")
  case True
  then obtain b where b: "map_of (billing d) k = Some b" and k: "k' = k" by auto
  have "abs_row (d\<lparr>billing := tbl_update k f (billing d)\<rparr>) k' = abs_billing (f b)"
    using b k by (simp add: abs_row_tbl_update)
  moreover have "abs_row d k' = abs_billing b"
    using b k by (simp add: abs_row_def)
  ultimately show ?thesis using assms [OF b] by simp
next
  case False
  have "abs_row (d\<lparr>billing := tbl_update k f (billing d)\<rparr>) k' =
        (if k' = k \<and> map_of (billing d) k \<noteq> None
         then abs_billing (f (the (map_of (billing d) k))) else abs_row d k')"
    by (rule abs_row_tbl_update)
  also have "\<dots> = abs_row d k'"
    using False by (rule if_not_P)
  finally show ?thesis by simp
qed

lemma refines_same:
  assumes "billing d' = billing d"
  shows "lc_step\<^sup>=\<^sup>= (abs_row d k) (abs_row d' k)"
proof -
  have "abs_row d' = abs_row d" using assms by (rule abs_row_same_billing)
  then show ?thesis by simp
qed

lemma abs_set_prepared: "lc_step (abs_billing b) (abs_billing (set_prepared b))"
proof -
  have "abs_billing (set_prepared b) = (abs_billing b)\<lparr>lc_prepared := True\<rparr>"
    by (simp add: abs_billing_def set_prepared_def)
  then show ?thesis by (simp add: lc_step.lc_prepare)
qed

lemma abs_set_handed_over:
  assumes "py_truthy_int (medicines_prepared b)"
  shows "lc_step (abs_billing b) (abs_billing (set_handed_over b))"
proof -
  have eq: "abs_billing (set_handed_over b) = (abs_billing b)\<lparr>lc_handed := True\<rparr>"
    by (simp add: abs_billing_def set_handed_over_def)
  have "lc_prepared (abs_billing b)" using assms by (simp add: abs_billing_def)
  then show ?thesis unfolding eq by (rule lc_step.lc_hand_over)
qed

lemma abs_set_couriered:
  assumes "py_truthy_int (medicines_prepared b)" and "delivery_type b = Some ''Courier''"
  shows "lc_step (abs_billing b) (abs_billing (set_couriered b))"
proof -
  have eq: "abs_billing (set_couriered b) = (abs_billing b)\<lparr>lc_couriered := True\<rparr>"
    by (simp add: abs_billing_def set_couriered_def)
  have "lc_prepared (abs_billing b)" "lc_delivery (abs_billing b) = Some ''Courier''"
    using assms by (simp_all add: abs_billing_def)
  then show ?thesis unfolding eq by (rule lc_step.lc_courier)
qed

lemma abs_set_checkout:
  assumes "py_truthy_int (medicines_handed_over b) \<or> py_truthy_int (couriered b)"
  shows "lc_step (abs_billing b) (abs_billing (set_checkout b))"
proof -
  have eq: "abs_billing (set_checkout b) = (abs_billing b)\<lparr>lc_checked_out := True\<rparr>"
    by (simp add: abs_billing_def set_checkout_def)
  have "lc_handed (abs_billing b) \<or> lc_couriered (abs_billing b)"
    using assms by (simp add: abs_billing_def)
  then show ?thesis unfolding eq by (rule lc_step.lc_checkout)
qed

lemma payment_update_flags:
  assumes "payment_update pf q = Some f"
  shows "medicines_prepared (f b) = medicines_prepared b \<and>
         medicines_handed_over (f b) = medicines_handed_over b \<and>
         couriered (f b) = couriered b \<and> checkout_done (f b) = checkout_done b"
  using assms unfolding payment_update_def
  by (auto split: option.splits)

lemma abs_payment_update:
  assumes "payment_update pf q = Some f"
  shows "lc_step (abs_billing b) (abs_billing (f b))"
proof -
  have eq: "abs_billing (f b) = (abs_billing b)\<lparr>lc_delivery := delivery_type (f b)\<rparr>"
    using payment_update_flags [OF assms, of b] by (simp add: abs_billing_def)
  show ?thesis unfolding eq by (rule lc_step.lc_set_delivery)
qed

section \<open>Each handler refines the lifecycle\<close>

lemma refines_flag_commit:
  assumes "\<And>b. map_of (billing d) k = Some b \<Longrightarrow> lc_step\<^sup>=\<^sup>= (abs_billing b) (abs_billing (f b))"
  shows "lc_step\<^sup>=\<^sup>= (abs_row d k') (abs_row (db_of (flag_commit k f msg notice pre d)) k')"
  using refines_tbl_update [OF assms] by (simp add: flag_commit_db)

lemma refines_prepare_medicine:
  "lc_step\<^sup>=\<^sup>= (abs_row d k') (abs_row (db_of (prepare_medicine k d)) k')"
proof -
  let ?e = "ensure_billing k d"
  have "lc_step\<^sup>=\<^sup>= (abs_row ?e k') (abs_row (?e\<lparr>billing := tbl_update k set_prepared (billing ?e)\<rparr>) k')"
    by (rule refines_tbl_update) (simp add: abs_set_prepared)
  then show ?thesis
    using prepare_medicine_db [of k d] by (elim disjE) simp_all
qed

lemma refines_billing_prepare:
  "lc_step\<^sup>=\<^sup>= (abs_row d k') (abs_row (db_of (billing_prepare pf k q d)) k')"
proof (cases "payment_update pf q")
  case None
  then show ?thesis by (simp add: billing_prepare_def)
next
  case (Some f)
  let ?e = "ensure_billing k d"
  have "lc_step\<^sup>=\<^sup>= (abs_row ?e k') (abs_row (?e\<lparr>billing := tbl_update k f (billing ?e)\<rparr>) k')"
    by (rule refines_tbl_update) (simp add: abs_payment_update [OF Some])
  moreover have "db_of (billing_prepare pf k q d) = ?e\<lparr>billing := tbl_update k f (billing ?e)\<rparr>"
    using Some by (simp add: billing_prepare_def Let_def)
  ultimately show ?thesis by simp
qed

lemma refines_hand_over:
  "lc_step\<^sup>=\<^sup>= (abs_row d k') (abs_row (db_of (hand_over_medicine k d)) k')"
proof (cases "map_of (billing d) k")
  case None
  then show ?thesis by (simp add: hand_over_medicine_def)
next
  case (Some b)
  show ?thesis
  proof (cases "py_truthy_int (medicines_prepared b)")
    case False
    with Some show ?thesis by (simp add: hand_over_medicine_def)
  next
    case True
    have "lc_step\<^sup>=\<^sup>= (abs_row d k')
            (abs_row (db_of (flag_commit k set_handed_over ''Medicine handed over''
                               ''Medicines handed over'' [] d)) k')"
      by (rule refines_flag_commit) (use Some True abs_set_handed_over in auto)
    with Some True show ?thesis by (simp add: hand_over_medicine_def)
  qed
qed

lemma refines_courier_done:
  "lc_step\<^sup>=\<^sup>= (abs_row d k') (abs_row (db_of (courier_done k d)) k')"
proof (cases "map_of (billing d) k")
  case None
  then show ?thesis by (simp add: courier_done_def)
next
  case (Some b)
  show ?thesis
  proof (cases "py_truthy_int (medicines_prepared b) \<and> delivery_type b = Some ''Courier''")
    case False
    with Some show ?thesis by (auto simp: courier_done_def)
  next
    case True
    have "lc_step\<^sup>=\<^sup>= (abs_row d k')
            (abs_row (db_of (flag_commit k set_couriered ''Courier done''
                               ''Medicines couriered'' [] d)) k')"
      by (rule refines_flag_commit) (use Some True abs_set_couriered in auto)
    with Some True show ?thesis by (simp add: courier_done_def)
  qed
qed

lemma refines_complete_checkout:
  "lc_step\<^sup>=\<^sup>= (abs_row d k') (abs_row (db_of (complete_checkout k d)) k')"
proof (cases "map_of (billing d) k")
  case None
  then show ?thesis by (simp add: complete_checkout_def)
next
  case (Some b)
  show ?thesis
  proof (cases "(py_truthy_int (medicines_handed_over b) \<or> py_truthy_int (couriered b)) \<and>
                amount_paid b \<noteq> None")
    case False
    with Some show ?thesis by (auto simp: complete_checkout_def split: option.split)
  next
    case True
    then obtain p where p: "amount_paid b = Some p" by auto
    have "lc_step\<^sup>=\<^sup>= (abs_row d k')
            (abs_row (db_of (flag_commit k set_checkout ''Checkout completed'' ''Checkout completed''
                               (if p < total_due b then [CreditDue k (total_due b - p)] else []) d)) k')"
      by (rule refines_flag_commit) (use Some True abs_set_checkout in auto)
    with Some True p show ?thesis by (simp add: complete_checkout_def)
  qed
qed

lemma abs_row_other_tables [simp]:
  "abs_row (d\<lparr>patients := ps\<rparr>) = abs_row d"
  "abs_row (d\<lparr>appointments := as\<rparr>) = abs_row d"
  "abs_row (d\<lparr>diagnoses := ds\<rparr>) = abs_row d"
  by (simp_all add: abs_row_def fun_eq_iff)

lemma billing_book_appointment:
  "abs_row (db_of (book_appointment c pid aid r d)) = abs_row d"
  using book_appointment_cases [of c pid aid r d]
proof (elim disjE exE conjE)
  fix resp
  assume "book_appointment c pid aid r d = rollback resp d"
  then show ?thesis by (simp add: rollback_def)
next
  fix p pts ad
  assume "book_appointment c pid aid r d =
       (Json 200 ''Appointment booked'',
        ensure_billing aid (d\<lparr>patients := pts,
                              appointments := appointments d @ [(aid, new_appointment_row c p r)]\<rparr>),
        booking_notices r @ [SaveCsv ''patients'', SaveCsv ''appointments'', SaveCsv ''billing''])"
  then show ?thesis by simp
qed

lemma billing_dashboard_book [simp]:
  "billing (db_of (dashboard_book c pid aid r d)) = billing d"
  using dashboard_book_cases [of c pid aid r d] by (auto simp: rollback_def)

lemma billing_check_in [simp]: "billing (db_of (check_in c k st d)) = billing d"
  by (simp add: check_in_cases rollback_def split: option.split)

lemma abs_row_save_diagnosis [simp]: "abs_row (db_of (save_diagnosis k q d)) = abs_row d"
  by (simp add: save_diagnosis_db)

lemmas refines_handlers =
  refines_prepare_medicine refines_billing_prepare refines_hand_over refines_courier_done
  refines_complete_checkout refines_same billing_book_appointment

lemma refines_handle: "lc_step\<^sup>=\<^sup>= (abs_row d k) (abs_row (db_of (handle e q d)) k)"
  by (cases "(e, q, d)" rule: handle.cases)
     (simp_all add: refines_handlers [simplified] get_diagnosis_def get_billing_def)

section \<open>Billing rows are never deleted\<close>

lemma keys_tbl_insert_or_ignore [simp]:
  "fst ` set (tbl_insert_or_ignore k r t) = insert k (fst ` set t)"
  by (auto simp: tbl_insert_or_ignore_def image_iff map_of_eq_None_iff weak_map_of_SomeI)

lemma billing_keys_tbl_update [simp]:
  "billing_keys (d\<lparr>billing := tbl_update k f t\<rparr>) = fst ` set t"
  by (simp add: billing_keys_def set_keys_tbl_update)

lemma billing_keys_ensure_billing [simp]:
  "billing_keys (ensure_billing k d) = insert k (billing_keys d)"
  by (simp add: billing_keys_def)

lemma billing_keys_other_tables [simp]:
  "billing_keys (d\<lparr>patients := ps\<rparr>) = billing_keys d"
  "billing_keys (d\<lparr>appointments := as\<rparr>) = billing_keys d"
  "billing_keys (d\<lparr>diagnoses := ds\<rparr>) = billing_keys d"
  by (simp_all add: billing_keys_def)

lemma billing_keys_flag_commit [simp]:
  "billing_keys (db_of (flag_commit k f msg notice pre d)) = billing_keys d"
  by (simp add: flag_commit_db billing_keys_def set_keys_tbl_update)

lemma billing_keys_check_in_dashboard_book [simp]:
  "billing_keys (db_of (check_in c k st d)) = billing_keys d"
  "billing_keys (db_of (dashboard_book c pid aid r d)) = billing_keys d"
  by (simp_all add: billing_keys_def)

lemma billing_keys_handle: "billing_keys d \<subseteq> billing_keys (db_of (handle e q d))"
proof (cases "(e, q, d)" rule: handle.cases)
  case (1 e r d)
  then show ?thesis
    using book_appointment_cases [of "now e" "new_patient_id e" "new_appointment_id e" r d]
    by (auto simp: rollback_def)
next
  case (5 e k d)
  then show ?thesis
    using prepare_medicine_db [of k d] by (elim disjE) (auto simp: billing_keys_def set_keys_tbl_update)
next
  case (7 e k q d)
  then show ?thesis
    by (auto simp: billing_prepare_def Let_def billing_keys_def set_keys_tbl_update split: option.split)
qed (auto simp: save_diagnosis_db hand_over_medicine_def courier_done_def complete_checkout_def
                get_diagnosis_def get_billing_def rollback_def split: option.split)

section \<open>The dispatcher and runs of requests\<close>

lemma billing_keys_dispatch: "billing_keys d \<subseteq> billing_keys (db_of (dispatch e s q d))"
  by (simp add: dispatch_def rollback_def billing_keys_handle)

lemma refines_dispatch: "lc_step\<^sup>=\<^sup>= (abs_row d k) (abs_row (db_of (dispatch e s q d)) k)"
  using refines_handle [of d k e q] by (simp add: dispatch_def rollback_def)

lemma snd_run_Cons [simp]:
  "snd (run ((e, s, q) # rs) d) = snd (run rs (db_of (dispatch e s q d)))"
  by (simp add: Let_def split: prod.split)

lemma abs_row_empty_db [simp]: "abs_row empty_db k = lc_init"
  by (simp add: abs_row_def empty_db_def)

lemma reachable_lifecycle: "reachable d \<Longrightarrow> lc_step\<^sup>*\<^sup>* lc_init (abs_row d k)"
proof (induction rule: reachable.induct)
  case reach_init
  then show ?case by simp
next
  case (reach_step d e s q)
  then show ?case
    using refines_dispatch [of d k e s q] by (auto intro: rtranclp.rtrancl_into_rtrancl)
qed

lemma abs_row_Some: "map_of (billing d) k = Some b \<Longrightarrow> abs_row d k = abs_billing b"
  by (simp add: abs_row_def)

lemma billing_row_kept:
  assumes "map_of (billing d) k = Some b"
  obtains b' where "map_of (billing (db_of (dispatch e s q d))) k = Some b'"
proof -
  have "k \<in> billing_keys d"
    using assms by (metis billing_keys_def domI dom_map_of_conv_image_fst)
  then have "k \<in> fst ` set (billing (db_of (dispatch e s q d)))"
    using billing_keys_dispatch [of d e s q] by (auto simp: billing_keys_def)
  then have "map_of (billing (db_of (dispatch e s q d))) k \<noteq> None"
    by (metis domIff dom_map_of_conv_image_fst)
  then show ?thesis using that by blast
qed

text \<open>
  C23.  Every run of requests, from any sessions and in any order, moves each
  appointment's billing flags along the abstract lifecycle: the abstract
  state after the run is reachable from the one before by lifecycle steps.
\<close>

theorem run_refines_lifecycle: "lc_step\<^sup>*\<^sup>* (abs_row d k) (abs_row (snd (run rs d)) k)"
proof (induction rs arbitrary: d)
  case Nil
  then show ?case by simp
next
  case (Cons x rs)
  obtain e s q where x: "x = (e, s, q)" by (cases x) auto
  have h: "lc_step\<^sup>*\<^sup>* (abs_row d k) (abs_row (db_of (dispatch e s q d)) k)"
    using refines_dispatch [of d k e s q] by auto
  show ?case
    unfolding x snd_run_Cons by (rule rtranclp_trans [OF h Cons.IH])
qed

text \<open>
  C24.  No request clears a progress flag or deletes a billing row: if an
  appointment has a billing row before a request, it has one after, and each
  of the four flags that was truthy stays truthy.
\<close>

theorem dispatch_never_clears_flags:
  assumes "map_of (billing d) k = Some b"
  shows "\<exists>b'. map_of (billing (db_of (dispatch e s q d))) k = Some b' \<and>
           (py_truthy_int (medicines_prepared b) \<longrightarrow> py_truthy_int (medicines_prepared b')) \<and>
           (py_truthy_int (medicines_handed_over b) \<longrightarrow> py_truthy_int (medicines_handed_over b')) \<and>
           (py_truthy_int (couriered b) \<longrightarrow> py_truthy_int (couriered b')) \<and>
           (py_truthy_int (checkout_done b) \<longrightarrow> py_truthy_int (checkout_done b'))"
proof -
  obtain b' where b': "map_of (billing (db_of (dispatch e s q d))) k = Some b'"
    using billing_row_kept [OF assms] .
  have "lc_le (abs_row d k) (abs_row (db_of (dispatch e s q d)) k)"
    using refines_dispatch [of d k e s q] by (auto dest: lc_step_mono)
  then have "lc_le (abs_billing b) (abs_billing b')"
    by (simp add: abs_row_Some [OF assms] abs_row_Some [OF b'])
  with b' show ?thesis by (simp add: lc_le_def abs_billing_def)
qed

theorem dispatch_never_clears_flags_witness:
  "\<exists>b'. map_of (billing (db_of (dispatch demo_env (role_session ''receptionist'') (CompleteCheckout ''a1'')
                  (demo_with_row (demo_handed (Some 200)))))) ''a1'' = Some b' \<and>
        py_truthy_int (medicines_prepared b') \<and> py_truthy_int (medicines_handed_over b')"
  using dispatch_never_clears_flags [OF demo_with_row_facts(1) [of "demo_handed (Some 200)"], of demo_env "role_session ''receptionist''"
                                      "CompleteCheckout ''a1''"]
  by (auto simp: demo_handed_def)

end
