(* ===== verification/Pages.thy ===== *)
theory Pages
  imports Billing
begin

text \<open>
  The three dashboards of \<open>src/app.py\<close> as the server renders them.  Each
  page runs the same 38-column join (lines 170-182, 425-434, 600-613: \<open>a.*\<close>,
  four patient columns, ten diagnosis columns, fifteen billing columns) and
  the Jinja template reads the fetched tuples by position.  A tuple is a list
  of SQLite values; a \<open>LEFT JOIN\<close> without a match gives \<open>NULL\<close> columns.
  The template's action buttons and status badges are functions of the tuple
  (receptionist lines 283-305, doctor 511-521, pharmacist 687-699).
\<close>

datatype sqlval = SNull | SInt int | SReal real | SText string

text \<open>Jinja truthiness of a fetched value: \<open>None\<close>, \<open>0\<close>, \<open>0.0\<close> and \<open>''\<close> are false.\<close>

fun jinja_truthy :: "sqlval \<Rightarrow> bool" where
  "jinja_truthy SNull = False"
| "jinja_truthy (SInt i) = (i \<noteq> 0)"
| "jinja_truthy (SReal r) = (r \<noteq> 0)"
| "jinja_truthy (SText s) = (s \<noteq> [])"

definition int_col :: "int option \<Rightarrow> sqlval" where
  "int_col v = (case v of None \<Rightarrow> SNull | Some i \<Rightarrow> SInt i)"

definition real_col :: "real option \<Rightarrow> sqlval" where
  "real_col v = (case v of None \<Rightarrow> SNull | Some r \<Rightarrow> SReal r)"

definition text_col :: "string option \<Rightarrow> sqlval" where
  "text_col v = (case v of None \<Rightarrow> SNull | Some s \<Rightarrow> SText s)"

section \<open>The joined row\<close>

definition appointment_cols :: "string \<Rightarrow> appointment_row \<Rightarrow> sqlval list" where
  "appointment_cols k a =
     [SText k, SText (patient_id a), SText (reason a), SText (booking_date a),
      SText (appointment_date a), SText (booking_type a), SInt (confirmed a),
      SText (checkin_status a), SText (checkin_time a)]"

definition patient_cols :: "patient_row \<Rightarrow> sqlval list" where
  "patient_cols p = [SText (name p), SText (mobile_number p), SText (age p), SText (address p)]"

definition diagnosis_cols :: "diagnosis_row option \<Rightarrow> sqlval list" where
  "diagnosis_cols r =
     (case r of
        None \<Rightarrow> replicate 10 SNull
      | Some g \<Rightarrow>
          [SText (chief_complaints g), SText (symptoms g), SText (mind g), SText (psychology g),
           SText (diagnosis g), SText (medicines g), SText (tests g), SText (next_visit g),
           SInt (diagnosis_saved g), SInt (medicines_prescribed g)])"

definition billing_cols :: "billing_row option \<Rightarrow> sqlval list" where
  "billing_cols r =
     (case r of
        None \<Rightarrow> replicate 15 SNull
      | Some b \<Rightarrow>
          [real_col (consultation_charge b), real_col (medicine_charge b),
           real_col (courier_charge b), text_col (delivery_type b), text_col (delivered_to b),
           text_col (courier_channel b), text_col (courier_tracking b), real_col (amount_paid b),
           text_col (payment_date b), text_col (payment_id b), real_col (discount b),
           int_col (medicines_prepared b), int_col (medicines_handed_over b),
           int_col (couriered b), int_col (checkout_done b)])"

definition dash_row :: "db \<Rightarrow> string \<Rightarrow> appointment_row \<Rightarrow> patient_row \<Rightarrow> sqlval list" where
  "dash_row d k a p =
     appointment_cols k a @ patient_cols p @ diagnosis_cols (map_of (diagnoses d) k) @
     billing_cols (map_of (billing d) k)"

text \<open>
  The join in the order of the appointments table (the query has no
  \<open>ORDER BY\<close>; SQLite scans the appointments by rowid).
\<close>

definition dashboard_table :: "db \<Rightarrow> sqlval list list" where
  "dashboard_table d =
     concat (map (\<lambda>(k, a). case map_of (patients d) (patient_id a) of
                             None \<Rightarrow> []
                           | Some p \<Rightarrow> [dash_row d k a p]) (appointments d))"

text \<open>Line 612: \<open>WHERE d.medicines_prescribed = 1\<close>; a \<open>NULL\<close> compares as unknown.\<close>

definition pharmacist_table :: "db \<Rightarrow> sqlval list list" where
  "pharmacist_table d = filter (\<lambda>r. r ! 22 = SInt 1) (dashboard_table d)"

section \<open>What the templates show\<close>

datatype action = CheckInBtn | BillingBtn | HandOverBtn | CourierDoneBtn | CheckoutBtn
  | DiagnosisBtn | PrepareBtn

datatype badge = CheckedInBadge string string | DiagnosisSavedBadge | PrescribedBadge
  | PreparedBadge | HandedOverBadge | CourieredBadge | CheckedOutBadge

text \<open>Lines 283-289 (and 511-517, 687-693): the status column.\<close>

definition status_badges :: "sqlval list \<Rightarrow> badge list" where
  "status_badges r =
     (if jinja_truthy (r ! 7) then [CheckedInBadge (case r ! 7 of SText s \<Rightarrow> s | _ \<Rightarrow> [])
                                                   (case r ! 8 of SText s \<Rightarrow> s | _ \<Rightarrow> [])] else []) @
     (if jinja_truthy (r ! 22) then [DiagnosisSavedBadge] else []) @
     (if jinja_truthy (r ! 23) then [PrescribedBadge] else []) @
     (if jinja_truthy (r ! 32) then [PreparedBadge] else []) @
     (if jinja_truthy (r ! 33) then [HandedOverBadge] else []) @
     (if jinja_truthy (r ! 34) then [CourieredBadge] else []) @
     (if jinja_truthy (r ! 35) then [CheckedOutBadge] else [])"

text \<open>Lines 291-305: the receptionist's action buttons.\<close>

definition recep_actions :: "sqlval list \<Rightarrow> action list" where
  "recep_actions r =
     (if \<not> jinja_truthy (r ! 7) then [CheckInBtn] else []) @ [BillingBtn] @
     (if jinja_truthy (r ! 32) \<and> \<not> jinja_truthy (r ! 33) then [HandOverBtn] else []) @
     (if jinja_truthy (r ! 32) \<and> \<not> jinja_truthy (r ! 34) \<and> r ! 26 = SText ''Courier''
      then [CourierDoneBtn] else []) @
     (if jinja_truthy (r ! 33) \<or> jinja_truthy (r ! 34) then [CheckoutBtn] else [])"

text \<open>Line 520: the doctor's button; lines 696-698: the pharmacist's.\<close>

definition doctor_actions :: "sqlval list \<Rightarrow> action list" where
  "doctor_actions r = [DiagnosisBtn]"

definition pharm_actions :: "sqlval list \<Rightarrow> action list" where
  "pharm_actions r = (if \<not> jinja_truthy (r ! 32) then [PrepareBtn] else [])"

text \<open>Lines 271-281: the billing column is filled when \<open>appt[23] is not none\<close>.\<close>

definition billed_shown :: "sqlval list \<Rightarrow> bool" where
  "billed_shown r \<longleftrightarrow> r ! 23 \<noteq> SNull"

text \<open>\<open>value|default(x, true)\<close>: the default replaces every falsy value.\<close>

definition jinja_default :: "sqlval \<Rightarrow> sqlval \<Rightarrow> sqlval" where
  "jinja_default x v = (if jinja_truthy v then v else x)"

text \<open>
  Lines 248-282 (and 476-509, 653-686 in another column order): the cells of a
  table row, as the values the template prints.
\<close>

record row_view =
  rv_patient :: sqlval
  rv_mobile :: sqlval
  rv_date :: sqlval
  rv_reason :: sqlval
  rv_diagnosis :: "sqlval list option"
  rv_medicines :: sqlval
  rv_billing :: "sqlval list option"

text \<open>Lines 253-265: the diagnosis cell, shown when \<open>appt[14]\<close> is truthy.\<close>

definition diagnosis_cell :: "sqlval list \<Rightarrow> sqlval list option" where
  "diagnosis_cell r =
     (if jinja_truthy (r ! 14) then Some [r ! 14, r ! 15, r ! 16, r ! 17, r ! 18, r ! 20, r ! 21] else None)"

text \<open>Line 266: the medicines cell.\<close>

definition medicines_cell :: "sqlval list \<Rightarrow> sqlval" where
  "medicines_cell r = (if jinja_truthy (r ! 19) then r ! 19 else SText ''None'')"

text \<open>Lines 267-281: the billing cell, shown when \<open>appt[23] is not none\<close>.\<close>

definition billing_cell :: "sqlval list \<Rightarrow> sqlval list option" where
  "billing_cell r =
     (if r ! 23 \<noteq> SNull
      then Some [jinja_default (SInt 0) (r ! 23), jinja_default (SInt 0) (r ! 24),
                 jinja_default (SInt 0) (r ! 25), jinja_default (SText ''In-Person'') (r ! 26),
                 jinja_default (SText ''N/A'') (r ! 27), jinja_default (SText ''N/A'') (r ! 28),
                 jinja_default (SText ''N/A'') (r ! 29), jinja_default (SInt 0) (r ! 30),
                 jinja_default (SInt 0) (r ! 31)]
      else None)"

definition row_view :: "sqlval list \<Rightarrow> row_view" where
  "row_view r =
     \<lparr>rv_patient = r ! 9, rv_mobile = r ! 10, rv_date = r ! 4, rv_reason = r ! 2,
      rv_diagnosis = diagnosis_cell r, rv_medicines = medicines_cell r, rv_billing = billing_cell r\<rparr>"

text \<open>
  Lines 476-509: the doctor's table row, a copy of the receptionist's cells
  (patient, mobile, date, reason, diagnosis, medicines, billing).
\<close>

definition doctor_row_view :: "sqlval list \<Rightarrow> row_view" where
  "doctor_row_view r =
     \<lparr>rv_patient = r ! 9, rv_mobile = r ! 10, rv_date = r ! 4, rv_reason = r ! 2,
      rv_diagnosis = diagnosis_cell r, rv_medicines = medicines_cell r, rv_billing = billing_cell r\<rparr>"

text \<open>
  Lines 653-686: the pharmacist's table row: patient, mobile, date, then the
  medicines cell before the diagnosis cell, no reason, and the billing cell.
\<close>

record pharm_view =
  pv_patient :: sqlval
  pv_mobile :: sqlval
  pv_date :: sqlval
  pv_medicines :: sqlval
  pv_diagnosis :: "sqlval list option"
  pv_billing :: "sqlval list option"

definition pharm_row_view :: "sqlval list \<Rightarrow> pharm_view" where
  "pharm_row_view r =
     \<lparr>pv_patient = r ! 9, pv_mobile = r ! 10, pv_date = r ! 4, pv_medicines = medicines_cell r,
      pv_diagnosis = diagnosis_cell r, pv_billing = billing_cell r\<rparr>"

text \<open>
  The table bodies: \<open>{% for appt in appointments %}\<close> renders one row per
  fetched tuple, in fetch order, each with its key (the buttons' argument),
  its cells, its status badges and its buttons (receptionist lines 247-307,
  doctor 475-523, pharmacist 652-701).
\<close>

type_synonym 'v page_row = "sqlval \<times> 'v \<times> badge list \<times> action list"

definition recep_page :: "db \<Rightarrow> row_view page_row list" where
  "recep_page d = map (\<lambda>r. (r ! 0, row_view r, status_badges r, recep_actions r)) (dashboard_table d)"

definition doctor_page :: "db \<Rightarrow> row_view page_row list" where
  "doctor_page d = map (\<lambda>r. (r ! 0, doctor_row_view r, status_badges r, doctor_actions r)) (dashboard_table d)"

definition pharm_page :: "db \<Rightarrow> pharm_view page_row list" where
  "pharm_page d = map (\<lambda>r. (r ! 0, pharm_row_view r, status_badges r, pharm_actions r)) (pharmacist_table d)"

section \<open>Reading the joined row\<close>

lemma length_dash_row [simp]: "length (dash_row d k a p) = 38"
  by (simp add: dash_row_def appointment_cols_def patient_cols_def diagnosis_cols_def
                billing_cols_def split: option.split)

lemma dash_row_nth:
  "dash_row d k a p ! 0 = SText k"
  "dash_row d k a p ! 4 = SText (appointment_date a)"
  "dash_row d k a p ! 7 = SText (checkin_status a)"
  "dash_row d k a p ! 8 = SText (checkin_time a)"
  "dash_row d k a p ! 9 = SText (name p)"
  "dash_row d k a p ! 10 = SText (mobile_number p)"
  by (simp_all add: dash_row_def appointment_cols_def patient_cols_def)

lemma dash_row_diag_nth:
  "map_of (diagnoses d) k = Some g \<Longrightarrow>
   dash_row d k a p ! 22 = SInt (medicines_prescribed g)"
  "map_of (diagnoses d) k = None \<Longrightarrow> dash_row d k a p ! 22 = SNull"
  by (simp_all add: dash_row_def appointment_cols_def patient_cols_def diagnosis_cols_def nth_append)

lemma dash_row_diag_cols:
  assumes "map_of (diagnoses d) k = Some g"
  shows "dash_row d k a p ! 14 = SText (symptoms g)" "dash_row d k a p ! 19 = SText (tests g)"
  using assms by (simp_all add: dash_row_def appointment_cols_def patient_cols_def diagnosis_cols_def nth_append)

lemma dash_row_billing_nth:
  assumes "map_of (billing d) k = Some b"
  shows "dash_row d k a p ! 23 = real_col (consultation_charge b)"
    "dash_row d k a p ! 26 = text_col (delivery_type b)"
    "dash_row d k a p ! 31 = text_col (payment_date b)"
    "dash_row d k a p ! 32 = text_col (payment_id b)"
    "dash_row d k a p ! 33 = real_col (discount b)"
    "dash_row d k a p ! 34 = int_col (medicines_prepared b)"
    "dash_row d k a p ! 35 = int_col (medicines_handed_over b)"
  using assms
  by (simp_all add: dash_row_def appointment_cols_def patient_cols_def diagnosis_cols_def
                    billing_cols_def nth_append split: option.split)

lemma dash_row_no_billing_nth:
  assumes "map_of (billing d) k = None"
  shows "dash_row d k a p ! 23 = SNull" "dash_row d k a p ! 32 = SNull"
    "dash_row d k a p ! 33 = SNull" "dash_row d k a p ! 34 = SNull"
  using assms
  by (simp_all add: dash_row_def appointment_cols_def patient_cols_def diagnosis_cols_def
                    billing_cols_def nth_append split: option.split)

lemma jinja_truthy_cols [simp]:
  "jinja_truthy (int_col v) \<longleftrightarrow> py_truthy_int v"
  "jinja_truthy (real_col r) \<longleftrightarrow> r \<notin> {None, Some 0}"
  "jinja_truthy (text_col s) \<longleftrightarrow> s \<notin> {None, Some []}"
  "text_col s = SText t \<longleftrightarrow> s = Some t"
  by (auto simp: int_col_def real_col_def text_col_def split: option.split)

section \<open>Properties of the pages\<close>

text \<open>
  The status badges read the columns one or two places before the ones they
  name.
\<close>

lemma status_badges_cols:
  assumes "map_of (diagnoses d) k = Some g" and "map_of (billing d) k = Some b"
  shows "(DiagnosisSavedBadge \<in> set (status_badges (dash_row d k a p)) \<longleftrightarrow> medicines_prescribed g \<noteq> 0) \<and>
         (PrescribedBadge \<in> set (status_badges (dash_row d k a p)) \<longleftrightarrow>
            consultation_charge b \<notin> {None, Some 0}) \<and>
         (PreparedBadge \<in> set (status_badges (dash_row d k a p)) \<longleftrightarrow> payment_id b \<notin> {None, Some []}) \<and>
         (HandedOverBadge \<in> set (status_badges (dash_row d k a p)) \<longleftrightarrow> discount b \<notin> {None, Some 0}) \<and>
         (CourieredBadge \<in> set (status_badges (dash_row d k a p)) \<longleftrightarrow> py_truthy_int (medicines_prepared b)) \<and>
         (CheckedOutBadge \<in> set (status_badges (dash_row d k a p)) \<longleftrightarrow>
            py_truthy_int (medicines_handed_over b))"
  by (auto simp: status_badges_def dash_row_billing_nth [OF assms(2)] dash_row_diag_nth(1) [OF assms(1)])

text \<open>
  C25.  The receptionist's action buttons read the wrong columns of the joined
  tuple: the Hand Over button depends on \<open>payment_id\<close> and \<open>discount\<close>
  (columns 32 and 33), the Courier Done button on \<open>payment_id\<close> and
  \<open>medicines_prepared\<close>, and the Complete Checkout button on \<open>discount\<close> and
  \<open>medicines_prepared\<close>, instead of the four progress flags (columns 34-37)
  that the server's guards test.  The pharmacist's Prepare Medicine button
  likewise depends on \<open>payment_id\<close>, whatever \<open>medicines_prepared\<close> says.
\<close>

theorem receptionist_buttons_shifted:
  assumes "map_of (billing d) k = Some b"
  shows "(HandOverBtn \<in> set (recep_actions (dash_row d k a p)) \<longleftrightarrow>
            payment_id b \<notin> {None, Some []} \<and> discount b \<in> {None, Some 0}) \<and>
         (CourierDoneBtn \<in> set (recep_actions (dash_row d k a p)) \<longleftrightarrow>
            payment_id b \<notin> {None, Some []} \<and> \<not> py_truthy_int (medicines_prepared b) \<and>
            delivery_type b = Some ''Courier'') \<and>
         (CheckoutBtn \<in> set (recep_actions (dash_row d k a p)) \<longleftrightarrow>
            discount b \<notin> {None, Some 0} \<or> py_truthy_int (medicines_prepared b)) \<and>
         (PrepareBtn \<in> set (pharm_actions (dash_row d k a p)) \<longleftrightarrow> payment_id b \<in> {None, Some []})"
  by (auto simp: recep_actions_def pharm_actions_def dash_row_billing_nth [OF assms])

text \<open>
  C27.  The diagnosis and medicines cells are shifted by one column: the
  Medicines cell prints the prescribed tests, the diagnosis block is shown
  only when the symptoms are non-empty, and the billing block's "Discount"
  line prints the payment date.  The doctor's page renders the same cells,
  and the pharmacist's page shows the same shifted Medicines and Diagnosis
  cells.  The status badges are shifted in the same way: "Diagnosis Saved"
  shows the prescribed flag, "Medicines Prescribed" the consultation charge,
  "Medicines Prepared" the payment id, "Handed Over" the discount,
  "Couriered" the prepared flag and "Checked Out" the hand-over flag.
\<close>

theorem diagnosis_cells_shifted:
  assumes "map_of (diagnoses d) k = Some g" and "map_of (billing d) k = Some b"
    and "consultation_charge b \<noteq> None"
  shows "rv_medicines (row_view (dash_row d k a p)) =
           (if tests g \<noteq> [] then SText (tests g) else SText ''None'') \<and>
         (rv_diagnosis (row_view (dash_row d k a p)) \<noteq> None \<longleftrightarrow> symptoms g \<noteq> []) \<and>
         map_option last (rv_billing (row_view (dash_row d k a p))) =
           Some (jinja_default (SInt 0) (text_col (payment_date b))) \<and>
         doctor_row_view (dash_row d k a p) = row_view (dash_row d k a p) \<and>
         pv_medicines (pharm_row_view (dash_row d k a p)) =
           (if tests g \<noteq> [] then SText (tests g) else SText ''None'') \<and>
         (pv_diagnosis (pharm_row_view (dash_row d k a p)) \<noteq> None \<longleftrightarrow> symptoms g \<noteq> []) \<and>
         (DiagnosisSavedBadge \<in> set (status_badges (dash_row d k a p)) \<longleftrightarrow> medicines_prescribed g \<noteq> 0) \<and>
         (PrescribedBadge \<in> set (status_badges (dash_row d k a p)) \<longleftrightarrow>
            consultation_charge b \<notin> {None, Some 0}) \<and>
         (PreparedBadge \<in> set (status_badges (dash_row d k a p)) \<longleftrightarrow> payment_id b \<notin> {None, Some []}) \<and>
         (HandedOverBadge \<in> set (status_badges (dash_row d k a p)) \<longleftrightarrow> discount b \<notin> {None, Some 0}) \<and>
         (CourieredBadge \<in> set (status_badges (dash_row d k a p)) \<longleftrightarrow> py_truthy_int (medicines_prepared b)) \<and>
         (CheckedOutBadge \<in> set (status_badges (dash_row d k a p)) \<longleftrightarrow>
            py_truthy_int (medicines_handed_over b))"
  using assms status_badges_cols [OF assms(1,2), of a p]
  by (simp add: row_view_def doctor_row_view_def pharm_row_view_def diagnosis_cell_def medicines_cell_def
                billing_cell_def dash_row_diag_cols dash_row_billing_nth real_col_def split: option.split)

section \<open>Witnesses\<close>

definition demo_appt :: appointment_row where
  "demo_appt = new_appointment_row demo_clock ''p1'' (demo_req ''2025-01-02'' ''Manual In-Clinic'')"

definition demo_patient :: patient_row where
  "demo_patient = new_patient_row (demo_req ''2025-01-02'' ''Manual In-Clinic'')"

definition demo_diagnosed :: "billing_row \<Rightarrow> db" where
  "demo_diagnosed b =
     (demo_with_row b)\<lparr>diagnoses := [(''a1'', diagnosis_of_req (demo_diag ''Amoxicillin''))]\<rparr>"

theorem receptionist_buttons_shifted_witness:
  "HandOverBtn \<notin> set (recep_actions (dash_row (demo_with_row (demo_prepared ''In-Person'')) ''a1''
                                       demo_appt demo_patient)) \<and>
   CheckoutBtn \<in> set (recep_actions (dash_row (demo_with_row (demo_prepared ''In-Person'')) ''a1''
                                       demo_appt demo_patient)) \<and>
   PrepareBtn \<in> set (pharm_actions (dash_row (demo_with_row (demo_prepared ''In-Person'')) ''a1''
                                       demo_appt demo_patient))"
  using receptionist_buttons_shifted [OF demo_with_row_facts(1) [of "demo_prepared ''In-Person''"],
                                      of demo_appt demo_patient]
  by (simp add: demo_prepared_def placeholder_billing_def)

theorem diagnosis_cells_shifted_witness:
  "rv_medicines (row_view (dash_row (demo_diagnosed (demo_prepared ''In-Person'')) ''a1''
                                  demo_appt demo_patient)) = SText ''None'' \<and>
   pv_medicines (pharm_row_view (dash_row (demo_diagnosed (demo_prepared ''In-Person'')) ''a1''
                                  demo_appt demo_patient)) = SText ''None'' \<and>
   CourieredBadge \<in> set (status_badges (dash_row (demo_diagnosed (demo_prepared ''In-Person'')) ''a1''
                                          demo_appt demo_patient)) \<and>
   PreparedBadge \<notin> set (status_badges (dash_row (demo_diagnosed (demo_prepared ''In-Person'')) ''a1''
                                          demo_appt demo_patient))"
proof -
  have g: "map_of (diagnoses (demo_diagnosed (demo_prepared ''In-Person''))) ''a1'' =
           Some (diagnosis_of_req (demo_diag ''Amoxicillin''))"
    by (simp add: demo_diagnosed_def)
  have b: "map_of (billing (demo_diagnosed (demo_prepared ''In-Person''))) ''a1'' =
           Some (demo_prepared ''In-Person'')"
    by (simp add: demo_diagnosed_def demo_with_row_def)
  have c: "consultation_charge (demo_prepared ''In-Person'') \<noteq> None"
    by (simp add: demo_prepared_def placeholder_billing_def)
  show ?thesis
    using diagnosis_cells_shifted [OF g b c, of demo_appt demo_patient]
    by (simp add: diagnosis_of_req_def demo_diag_def demo_prepared_def placeholder_billing_def)
qed

end
