(* ===== verification/Search.thy ===== *)
theory Search
  imports Pages "HOL-Library.Sublist"
begin

text \<open>
  The search box of the three dashboards (\<open>src/app.py\<close> lines 404-413,
  581-590, 714-723): each table row stays visible when the lower-cased query
  is contained, by \<open>String.prototype.includes\<close>, in the lower-cased text of
  its first cells.  Strings are sequences of code units below 256 (the
  Latin-1 range of \<open>char\<close>).  The filter is then run on the rendered
  tables of \<open>Pages\<close>.
\<close>

section \<open>Search\<close>

text \<open>\<open>toLowerCase\<close> on the Latin-1 range: A-Z and the letters 0xC0-0xDE except 0xD7.\<close>

definition js_lower :: "char \<Rightarrow> char" where
  "js_lower c =
     (let n = of_char c :: nat
      in if (65 \<le> n \<and> n \<le> 90) \<or> (192 \<le> n \<and> n \<le> 222 \<and> n \<noteq> 215) then char_of (n + 32) else c)"

definition js_lower_str :: "string \<Rightarrow> string" where
  "js_lower_str s = map js_lower s"

text \<open>
  \<open>S.includes(T)\<close> is \<open>StringIndexOf(S, T, 0) \<noteq> -1\<close>; \<open>StringIndexOf\<close> tries
  the positions from the start in order.
\<close>

function js_index_from :: "string \<Rightarrow> string \<Rightarrow> nat \<Rightarrow> int" where
  "js_index_from s t i =
     (if length s < i + length t then -1
      else if take (length t) (drop i s) = t then int i
      else js_index_from s t (Suc i))"
  by pat_completeness auto
termination
  by (relation "measure (\<lambda>(s, t, i). Suc (length s) - i)") auto

declare js_index_from.simps [simp del]

definition js_includes :: "string \<Rightarrow> string \<Rightarrow> bool" where
  "js_includes s t \<longleftrightarrow> js_index_from s t 0 \<noteq> -1"

text \<open>Lines 404-413: the receptionist's filter.\<close>

definition search_visible :: "string \<Rightarrow> string \<Rightarrow> string \<Rightarrow> string \<Rightarrow> bool" where
  "search_visible q patient mobile date =
     (let i = js_lower_str q
      in js_includes (js_lower_str patient) i \<or> js_includes (js_lower_str mobile) i \<or>
         js_includes (js_lower_str date) i)"

text \<open>Lines 581-590: the doctor's page carries its own copy of the filter.\<close>

definition doctor_search_visible :: "string \<Rightarrow> string \<Rightarrow> string \<Rightarrow> string \<Rightarrow> bool" where
  "doctor_search_visible q patient mobile date =
     (let i = js_lower_str q
      in js_includes (js_lower_str patient) i \<or> js_includes (js_lower_str mobile) i \<or>
         js_includes (js_lower_str date) i)"

text \<open>Lines 714-723: the pharmacist's filter reads only the first two cells.\<close>

definition pharm_search_visible :: "string \<Rightarrow> string \<Rightarrow> string \<Rightarrow> bool" where
  "pharm_search_visible q patient mobile =
     (let i = js_lower_str q
      in js_includes (js_lower_str patient) i \<or> js_includes (js_lower_str mobile) i)"

text \<open>
  The text a table cell shows, which the filter reads back with
  \<open>textContent\<close>: Jinja prints a string as itself (escaped, and unescaped
  again by the browser), \<open>None\<close> as \<open>None\<close>, an integer in decimal and a
  float with Python's \<open>str\<close>, a parameter here.
\<close>

fun dec_nat :: "nat \<Rightarrow> string" where
  "dec_nat n = (if n < 10 then [digit_char n] else dec_nat (n div 10) @ [digit_char (n mod 10)])"

definition dec_int :: "int \<Rightarrow> string" where
  "dec_int i = (if i < 0 then CHR ''-'' # dec_nat (nat (- i)) else dec_nat (nat i))"

definition cell_text :: "(real \<Rightarrow> string) \<Rightarrow> sqlval \<Rightarrow> string" where
  "cell_text fs v =
     (case v of SNull \<Rightarrow> ''None'' | SInt i \<Rightarrow> dec_int i | SReal r \<Rightarrow> fs r | SText t \<Rightarrow> t)"

text \<open>
  What the search promises, stated on the database: the keys of the
  appointments with a patient whose name, mobile number or appointment date
  the filter accepts, in table order.
\<close>

definition search_spec :: "string \<Rightarrow> db \<Rightarrow> string list" where
  "search_spec q d =
     map fst (filter (\<lambda>(k, a). case map_of (patients d) (patient_id a) of
                                None \<Rightarrow> False
                              | Some p \<Rightarrow> search_visible q (name p) (mobile_number p) (appointment_date a))
                     (appointments d))"

text \<open>
  The pharmacist's table holds the appointments with \<open>medicines_prescribed = 1\<close>,
  and its filter reads the name and mobile cells only.
\<close>

definition pharm_search_spec :: "string \<Rightarrow> db \<Rightarrow> string list" where
  "pharm_search_spec q d =
     map fst (filter (\<lambda>(k, a). case (map_of (patients d) (patient_id a), map_of (diagnoses d) k) of
                                (Some p, Some g) \<Rightarrow>
                                  medicines_prescribed g = 1 \<and> pharm_search_visible q (name p) (mobile_number p)
                              | _ \<Rightarrow> False)
                     (appointments d))"

section \<open>Search lemmas\<close>

lemma js_index_from_found:
  "js_index_from s t i \<noteq> -1 \<longleftrightarrow>
   (\<exists>j\<ge>i. j + length t \<le> length s \<and> take (length t) (drop j s) = t)"
proof (induction s t i rule: js_index_from.induct)
  case (1 s t i)
  show ?case
  proof (cases "length s < i + length t")
    case True
    then show ?thesis by (subst js_index_from.simps) auto
  next
    case False
    show ?thesis
    proof (cases "take (length t) (drop i s) = t")
      case True
      with False show ?thesis by (subst js_index_from.simps) auto
    next
      case nomatch: False
      have "(\<exists>j\<ge>i. j + length t \<le> length s \<and> take (length t) (drop j s) = t) \<longleftrightarrow>
            (\<exists>j\<ge>Suc i. j + length t \<le> length s \<and> take (length t) (drop j s) = t)"
        using nomatch by (auto simp: Suc_le_eq) (metis le_neq_implies_less less_imp_le)+
      with False nomatch "1.IH" show ?thesis by (subst js_index_from.simps) simp
    qed
  qed
qed

lemma sublist_take_drop:
  "sublist t s \<longleftrightarrow> (\<exists>j. j + length t \<le> length s \<and> take (length t) (drop j s) = t)"
proof
  assume "sublist t s"
  then obtain ps ss where s: "s = ps @ t @ ss" by (auto simp: sublist_def)
  then show "\<exists>j. j + length t \<le> length s \<and> take (length t) (drop j s) = t"
    by (intro exI [of _ "length ps"]) simp
next
  assume "\<exists>j. j + length t \<le> length s \<and> take (length t) (drop j s) = t"
  then obtain j where j: "j + length t \<le> length s" and t: "take (length t) (drop j s) = t" by blast
  have "s = take j s @ take (length t) (drop j s) @ drop (length t) (drop j s)"
    by (simp only: append_take_drop_id)
  with t have "s = take j s @ t @ drop (length t) (drop j s)" by simp
  then show "sublist t s" unfolding sublist_def by blast
qed

lemma js_includes_iff_sublist: "js_includes s t \<longleftrightarrow> sublist t s"
  by (simp add: js_includes_def js_index_from_found sublist_take_drop)

lemma js_lower_idem [simp]: "js_lower (js_lower c) = js_lower c"
  by (auto simp: js_lower_def Let_def of_char_of)

lemma js_lower_str_Nil [simp]: "js_lower_str [] = []"
  by (simp add: js_lower_str_def)

lemma js_lower_str_idem [simp]: "js_lower_str (js_lower_str s) = js_lower_str s"
  by (simp add: js_lower_str_def)

lemma search_table_rows:
  "map fst (filter (\<lambda>(k, v, _). search_visible q (cell_text fs (rv_patient v)) (cell_text fs (rv_mobile v))
                                  (cell_text fs (rv_date v)))
     (map (\<lambda>r. (r ! 0, rv r, status_badges r, acts r))
        (concat (map (\<lambda>(k, a). case map_of (patients d) (patient_id a) of
                                 None \<Rightarrow> [] | Some p \<Rightarrow> [dash_row d k a p]) xs)))) =
   map SText (map fst (filter (\<lambda>(k, a). case map_of (patients d) (patient_id a) of
                                None \<Rightarrow> False
                              | Some p \<Rightarrow> search_visible q (name p) (mobile_number p) (appointment_date a)) xs))"
  if "\<And>r. rv_patient (rv r) = r ! 9 \<and> rv_mobile (rv r) = r ! 10 \<and> rv_date (rv r) = r ! 4"
proof (induction xs)
  case Nil
  then show ?case by simp
next
  case (Cons x xs)
  obtain k a where x: "x = (k, a)" by (cases x)
  show ?case
    using Cons.IH that
    by (cases "map_of (patients d) (patient_id a)") (simp_all add: x dash_row_nth cell_text_def)
qed

lemma recep_page_search:
  "map fst (filter (\<lambda>(k, v, _). search_visible q (cell_text fs (rv_patient v)) (cell_text fs (rv_mobile v))
                                  (cell_text fs (rv_date v))) (recep_page d)) = map SText (search_spec q d)"
  unfolding recep_page_def dashboard_table_def search_spec_def
  by (rule search_table_rows) (simp add: row_view_def)

lemma doctor_page_search:
  "map fst (filter (\<lambda>(k, v, _). search_visible q (cell_text fs (rv_patient v)) (cell_text fs (rv_mobile v))
                                  (cell_text fs (rv_date v))) (doctor_page d)) = map SText (search_spec q d)"
  unfolding doctor_page_def dashboard_table_def search_spec_def
  by (rule search_table_rows) (simp add: doctor_row_view_def)

lemma pharm_page_search:
  "map fst (filter (\<lambda>(k, v, _). pharm_search_visible q (cell_text fs (pv_patient v)) (cell_text fs (pv_mobile v)))
     (pharm_page d)) = map SText (pharm_search_spec q d)"
proof -
  have "map fst (filter (\<lambda>(k, v, _). pharm_search_visible q (cell_text fs (pv_patient v)) (cell_text fs (pv_mobile v)))
          (map (\<lambda>r. (r ! 0, pharm_row_view r, status_badges r, pharm_actions r))
             (filter (\<lambda>r. r ! 22 = SInt 1)
                (concat (map (\<lambda>(k, a). case map_of (patients d) (patient_id a) of
                                         None \<Rightarrow> [] | Some p \<Rightarrow> [dash_row d k a p]) xs))))) =
        map SText (map fst (filter (\<lambda>(k, a). case (map_of (patients d) (patient_id a), map_of (diagnoses d) k) of
                                (Some p, Some g) \<Rightarrow>
                                  medicines_prescribed g = 1 \<and> pharm_search_visible q (name p) (mobile_number p)
                              | _ \<Rightarrow> False) xs))" for xs
  proof (induction xs)
    case Nil
    then show ?case by simp
  next
    case (Cons x xs)
    obtain k a where x: "x = (k, a)" by (cases x)
    show ?case
      using Cons.IH
      by (cases "map_of (patients d) (patient_id a)"; cases "map_of (diagnoses d) k")
         (simp_all add: x dash_row_nth dash_row_diag_nth cell_text_def pharm_row_view_def)
  qed
  then show ?thesis
    by (simp add: pharm_page_def pharmacist_table_def dashboard_table_def pharm_search_spec_def)
qed

text \<open>
  C28.  The search filter: a row is visible exactly when the lower-cased query
  is a contiguous substring of the lower-cased patient name, mobile number or
  appointment date (the pharmacist's page only of the first two), so the
  empty query shows every row and the filter ignores the case of the query.
  The doctor's page filters the same way.  On the rendered receptionist's and
  doctor's tables, whose first three cells print the patient's name, mobile
  number and the appointment date, the rows the filter keeps are exactly the
  appointments of \<open>search_spec\<close>, in table order; on the pharmacist's
  table they are the prescribed appointments whose patient's name or mobile
  number matches (\<open>pharm_search_spec\<close>: the date is not searched there).
\<close>

theorem search_filter:
  "(search_visible q patient mobile date \<longleftrightarrow>
      sublist (js_lower_str q) (js_lower_str patient) \<or> sublist (js_lower_str q) (js_lower_str mobile) \<or>
      sublist (js_lower_str q) (js_lower_str date)) \<and>
   (pharm_search_visible q patient mobile \<longleftrightarrow>
      sublist (js_lower_str q) (js_lower_str patient) \<or> sublist (js_lower_str q) (js_lower_str mobile)) \<and>
   search_visible [] patient mobile date \<and>
   search_visible (js_lower_str q) patient mobile date = search_visible q patient mobile date \<and>
   doctor_search_visible q patient mobile date = search_visible q patient mobile date \<and>
   map fst (filter (\<lambda>(k, v, _). search_visible q (cell_text fs (rv_patient v)) (cell_text fs (rv_mobile v))
                                   (cell_text fs (rv_date v))) (recep_page d)) = map SText (search_spec q d) \<and>
   map fst (filter (\<lambda>(k, v, _). doctor_search_visible q (cell_text fs (rv_patient v))
                                   (cell_text fs (rv_mobile v)) (cell_text fs (rv_date v))) (doctor_page d)) =
     map SText (search_spec q d) \<and>
   map fst (filter (\<lambda>(k, v, _). pharm_search_visible q (cell_text fs (pv_patient v)) (cell_text fs (pv_mobile v)))
     (pharm_page d)) = map SText (pharm_search_spec q d)"
  using recep_page_search [of q fs d] doctor_page_search [of q fs d] pharm_page_search [of q fs d]
  by (simp add: search_visible_def doctor_search_visible_def pharm_search_visible_def
                js_includes_iff_sublist Let_def)

end
