(* ===== verification/Client.thy ===== *)
theory Client
  imports Search
begin

text \<open>
  The forms of the dashboards' JavaScript (\<open>src/app.py\<close> lines 343-403,
  546-580) and the HTML form controls they read and write (the search is in
  \<open>Search\<close>): the billing and diagnosis forms are filled from the JSON of
  \<open>/billing\<close> and \<open>/diagnosis\<close> and posted back as JSON.  Strings are sequences of code
  units below 256 (the Latin-1 range of \<open>char\<close>); a number input holds the
  JavaScript number it was set to, since \<open>parseFloat(String(x)) = x\<close> for
  every finite number.
\<close>

section \<open>Form controls\<close>

text \<open>\<open>x || d\<close> on a JSON string: the empty string is falsy.\<close>

definition js_or_str :: "string \<Rightarrow> string \<Rightarrow> string" where
  "js_or_str v dflt = (if v = [] then dflt else v)"

text \<open>A text input strips line feeds and carriage returns from its value.\<close>

definition html_text_value :: "string \<Rightarrow> string" where
  "html_text_value s = filter (\<lambda>c. c \<noteq> CHR 0x0A \<and> c \<noteq> CHR 0x0D) s"

text \<open>A textarea's value normalises CR LF and a lone CR to LF.\<close>

fun norm_newlines :: "string \<Rightarrow> string" where
  "norm_newlines [] = []"
| "norm_newlines [c] = (if c = CHR 0x0D then [CHR 0x0A] else [c])"
| "norm_newlines (c # e # r) =
     (if c = CHR 0x0D \<and> e = CHR 0x0A then CHR 0x0A # norm_newlines r
      else (if c = CHR 0x0D then CHR 0x0A else c) # norm_newlines (e # r))"

text \<open>
  Setting a select's value to a string no option carries leaves no option
  selected, and the select then reads as the empty string.
\<close>

definition html_select :: "string list \<Rightarrow> string \<Rightarrow> string" where
  "html_select opts v = (if v \<in> set opts then v else [])"

definition delivery_opts :: "string list" where
  "delivery_opts = [''In-Person'', ''Courier'']"

definition courier_opts :: "string list" where
  "courier_opts = [''Rapido'', ''Porter'', ''India Post'', ''DTDC'', ''BlueDart'', ''Others'']"

text \<open>
  A date input keeps only a valid date string: four or more digits of a
  positive year, a two-digit month and a two-digit day of that month.
\<close>

definition digits_value :: "string \<Rightarrow> nat" where
  "digits_value s = foldl (\<lambda>a c. 10 * a + digit_val c) 0 s"

definition html_valid_date :: "string \<Rightarrow> bool" where
  "html_valid_date s =
     (let n = length s; y = take (n - 6) s; m = take 2 (drop (n - 5) s); dd = drop (n - 2) s
      in 10 \<le> n \<and> s ! (n - 6) = CHR ''-'' \<and> s ! (n - 3) = CHR ''-'' \<and>
         (\<forall>c\<in>set (y @ m @ dd). c \<in> set digit_chars) \<and>
         0 < digits_value y \<and> 1 \<le> digits_value m \<and> digits_value m \<le> 12 \<and>
         1 \<le> digits_value dd \<and> digits_value dd \<le> days_in_month (digits_value y) (digits_value m))"

definition html_date_value :: "string \<Rightarrow> string" where
  "html_date_value s = (if html_valid_date s then s else [])"

section \<open>The billing form\<close>

record billing_form =
  bf_id :: string
  bf_consultation_charge :: real
  bf_medicine_charge :: real
  bf_courier_charge :: real
  bf_delivery_type :: string
  bf_delivered_to :: string
  bf_courier_channel :: string
  bf_courier_tracking :: string
  bf_amount_paid :: real
  bf_payment_date :: string
  bf_payment_id :: string
  bf_discount :: real

text \<open>Lines 349-364, \<open>showBillingForm\<close>: the JSON of \<open>/billing\<close> copied into the form.\<close>

definition show_billing_form :: "string \<Rightarrow> billing_view \<Rightarrow> billing_form" where
  "show_billing_form k v =
     \<lparr>bf_id = k, bf_consultation_charge = v_consultation_charge v,
      bf_medicine_charge = v_medicine_charge v, bf_courier_charge = v_courier_charge v,
      bf_delivery_type = html_select delivery_opts (js_or_str (v_delivery_type v) ''In-Person''),
      bf_delivered_to = html_text_value (js_or_str (v_delivered_to v) []),
      bf_courier_channel = html_select courier_opts (js_or_str (v_courier_channel v) ''Rapido''),
      bf_courier_tracking = html_text_value (js_or_str (v_courier_tracking v) []),
      bf_amount_paid = v_amount_paid v,
      bf_payment_date = html_date_value (js_or_str (v_payment_date v) []),
      bf_payment_id = html_text_value (js_or_str (v_payment_id v) []),
      bf_discount = v_discount v\<rparr>"

text \<open>
  Lines 366-387, \<open>saveBilling\<close>: the id and the JSON body posted to
  \<open>/billing_prepare/<id>\<close>.  Every number is sent as a JSON number
  (\<open>parseFloat(v) || 0\<close>), every other field as a string.
\<close>

definition save_billing_form :: "billing_form \<Rightarrow> string \<times> billing_req" where
  "save_billing_form f =
     (bf_id f,
      \<lparr>bq_consultation_charge = JNum (bf_consultation_charge f),
       bq_medicine_charge = JNum (bf_medicine_charge f),
       bq_courier_charge = JNum (bf_courier_charge f),
       bq_delivery_type = Some (bf_delivery_type f), bq_delivered_to = Some (bf_delivered_to f),
       bq_courier_channel = Some (bf_courier_channel f),
       bq_courier_tracking = Some (bf_courier_tracking f),
       bq_amount_paid = JNum (bf_amount_paid f), bq_payment_date = Some (bf_payment_date f),
       bq_payment_id = Some (bf_payment_id f), bq_discount = JNum (bf_discount f)\<rparr>)"

section \<open>The diagnosis form\<close>

record diag_form =
  df_id :: string
  df_chief_complaints :: string
  df_symptoms :: string
  df_mind :: string
  df_psychology :: string
  df_diagnosis :: string
  df_medicines :: string
  df_tests :: string
  df_next_visit :: string

text \<open>Lines 547-560, \<open>showDoctorForm\<close>: seven textareas and a date input.\<close>

definition show_diag_form :: "string \<Rightarrow> diag_view \<Rightarrow> diag_form" where
  "show_diag_form k v =
     \<lparr>df_id = k,
      df_chief_complaints = norm_newlines (js_or_str (v_chief_complaints v) []),
      df_symptoms = norm_newlines (js_or_str (v_symptoms v) []),
      df_mind = norm_newlines (js_or_str (v_mind v) []),
      df_psychology = norm_newlines (js_or_str (v_psychology v) []),
      df_diagnosis = norm_newlines (js_or_str (v_diagnosis v) []),
      df_medicines = norm_newlines (js_or_str (v_medicines v) []),
      df_tests = norm_newlines (js_or_str (v_tests v) []),
      df_next_visit = html_date_value (js_or_str (v_next_visit v) [])\<rparr>"

text \<open>Lines 561-579, \<open>saveDiagnosis\<close>.\<close>

definition save_diag_form :: "diag_form \<Rightarrow> string \<times> diag_req" where
  "save_diag_form f =
     (df_id f,
      \<lparr>dq_chief_complaints = df_chief_complaints f, dq_symptoms = df_symptoms f,
       dq_mind = df_mind f, dq_psychology = df_psychology f, dq_diagnosis = df_diagnosis f,
       dq_medicines = df_medicines f, dq_tests = df_tests f, dq_next_visit = df_next_visit f\<rparr>)"

section \<open>Form lemmas\<close>

definition no_newline :: "string \<Rightarrow> bool" where
  "no_newline s \<longleftrightarrow> CHR 0x0A \<notin> set s \<and> CHR 0x0D \<notin> set s"

lemma js_or_str_Nil [simp]: "js_or_str s [] = s"
  by (simp add: js_or_str_def)

lemma html_text_value_id: "no_newline s \<Longrightarrow> html_text_value s = s"
  by (auto simp: html_text_value_def no_newline_def filter_id_conv)

lemma norm_newlines_id: "CHR 0x0D \<notin> set s \<Longrightarrow> norm_newlines s = s"
  by (induction s rule: norm_newlines.induct) auto

lemma html_date_value_id: "s = [] \<or> html_valid_date s \<Longrightarrow> html_date_value s = s"
  by (auto simp: html_date_value_def)

lemma html_select_id: "v \<in> set opts \<Longrightarrow> html_select opts v = v"
  by (simp add: html_select_def)

lemma payment_update_saved_form:
  "payment_update pf (snd (save_billing_form f)) =
     Some (\<lambda>b. b\<lparr>consultation_charge := Some (bf_consultation_charge f),
                 medicine_charge := Some (bf_medicine_charge f),
                 courier_charge := Some (bf_courier_charge f),
                 delivery_type := Some (py_or ''In-Person'' (Some (bf_delivery_type f))),
                 delivered_to := Some (bf_delivered_to f),
                 courier_channel := Some (bf_courier_channel f),
                 courier_tracking := Some (bf_courier_tracking f),
                 amount_paid := Some (bf_amount_paid f),
                 payment_date := Some (bf_payment_date f),
                 payment_id := Some (bf_payment_id f),
                 discount := Some (bf_discount f)\<rparr>)"
  by (simp add: payment_update_def save_billing_form_def py_float_or_zero_def py_or_def)

lemma billing_prepare_saved_form:
  "billing_prepare pf k (snd (save_billing_form f)) d =
     (Json 200 ''Billing saved'',
      ensure_billing k d\<lparr>billing := tbl_update k
         (\<lambda>b. b\<lparr>consultation_charge := Some (bf_consultation_charge f),
                 medicine_charge := Some (bf_medicine_charge f),
                 courier_charge := Some (bf_courier_charge f),
                 delivery_type := Some (py_or ''In-Person'' (Some (bf_delivery_type f))),
                 delivered_to := Some (bf_delivered_to f),
                 courier_channel := Some (bf_courier_channel f),
                 courier_tracking := Some (bf_courier_tracking f),
                 amount_paid := Some (bf_amount_paid f),
                 payment_date := Some (bf_payment_date f),
                 payment_id := Some (bf_payment_id f),
                 discount := Some (bf_discount f)\<rparr>)
         (billing (ensure_billing k d))\<rparr>,
      [SaveCsv ''billing''])"
  by (simp add: billing_prepare_def payment_update_saved_form Let_def)

definition billing_form_clean :: "billing_row \<Rightarrow> bool" where
  "billing_form_clean b \<longleftrightarrow>
     consultation_charge b \<noteq> None \<and> medicine_charge b \<noteq> None \<and> courier_charge b \<noteq> None \<and>
     amount_paid b \<noteq> None \<and> discount b \<noteq> None \<and>
     (\<exists>t\<in>set delivery_opts. delivery_type b = Some t) \<and>
     (\<exists>t\<in>set courier_opts. courier_channel b = Some t) \<and>
     (\<exists>t. delivered_to b = Some t \<and> no_newline t) \<and>
     (\<exists>t. courier_tracking b = Some t \<and> no_newline t) \<and>
     (\<exists>t. payment_id b = Some t \<and> no_newline t) \<and>
     (\<exists>t. payment_date b = Some t \<and> (t = [] \<or> html_valid_date t))"

lemma map_of_billing_prepare_saved_form:
  assumes "map_of (billing d) k = Some b"
  shows "map_of (billing (db_of (billing_prepare pf k (snd (save_billing_form f)) d))) k =
     Some (b\<lparr>consultation_charge := Some (bf_consultation_charge f),
             medicine_charge := Some (bf_medicine_charge f),
             courier_charge := Some (bf_courier_charge f),
             delivery_type := Some (py_or ''In-Person'' (Some (bf_delivery_type f))),
             delivered_to := Some (bf_delivered_to f),
             courier_channel := Some (bf_courier_channel f),
             courier_tracking := Some (bf_courier_tracking f),
             amount_paid := Some (bf_amount_paid f),
             payment_date := Some (bf_payment_date f),
             payment_id := Some (bf_payment_id f),
             discount := Some (bf_discount f)\<rparr>)"
  using assms by (simp add: billing_prepare_saved_form table_simps)

section \<open>Properties of the forms\<close>

text \<open>
  A row whose fields are all set and are values the form controls can hold
  (a delivery type and a courier channel among the options, texts without
  line breaks, a valid or empty payment date) is stored back unchanged.
\<close>

lemma clean_form_roundtrip:
  assumes row: "map_of (billing d) k = Some b" and clean: "billing_form_clean b"
  shows "map_of (billing (db_of (billing_prepare pf k
             (snd (save_billing_form (show_billing_form k (view_of_billing (Some b))))) d))) k = Some b"
proof -
  from clean obtain dt ch dl tr pid pd where
    dt: "dt \<in> set delivery_opts" "delivery_type b = Some dt" and
    ch: "ch \<in> set courier_opts" "courier_channel b = Some ch" and
    dl: "delivered_to b = Some dl" "no_newline dl" and
    tr: "courier_tracking b = Some tr" "no_newline tr" and
    pid: "payment_id b = Some pid" "no_newline pid" and
    pd: "payment_date b = Some pd" "pd = [] \<or> html_valid_date pd"
    by (auto simp: billing_form_clean_def)
  have ne: "dt \<noteq> []" "ch \<noteq> []"
    using dt(1) ch(1) by (auto simp: delivery_opts_def courier_opts_def)
  have f: "show_billing_form k (view_of_billing (Some b)) =
           \<lparr>bf_id = k, bf_consultation_charge = the (consultation_charge b),
            bf_medicine_charge = the (medicine_charge b), bf_courier_charge = the (courier_charge b),
            bf_delivery_type = dt, bf_delivered_to = dl, bf_courier_channel = ch,
            bf_courier_tracking = tr, bf_amount_paid = the (amount_paid b), bf_payment_date = pd,
            bf_payment_id = pid, bf_discount = the (discount b)\<rparr>"
    using clean dt ch dl tr pid pd ne
    by (auto simp: show_billing_form_def view_of_billing_def billing_form_clean_def js_or_str_def
                   html_select_id html_text_value_id html_date_value_id)
  let ?b' = "b\<lparr>consultation_charge := Some (the (consultation_charge b)),
                 medicine_charge := Some (the (medicine_charge b)),
                 courier_charge := Some (the (courier_charge b)),
                 delivery_type := Some (py_or ''In-Person'' (Some dt)), delivered_to := Some dl,
                 courier_channel := Some ch, courier_tracking := Some tr,
                 amount_paid := Some (the (amount_paid b)), payment_date := Some pd,
                 payment_id := Some pid, discount := Some (the (discount b))\<rparr>"
  have m: "map_of (billing (db_of (billing_prepare pf k
             (snd (save_billing_form (show_billing_form k (view_of_billing (Some b))))) d))) k = Some ?b'"
    using map_of_billing_prepare_saved_form [OF row, of pf "show_billing_form k (view_of_billing (Some b))"]
    unfolding f by simp
  have "?b' = b"
    using clean dt ch dl tr pid pd ne
    by (cases b) (auto simp: billing_form_clean_def py_or_def)
  with m show ?thesis by simp
qed

text \<open>
  The placeholder row is stored with the empty strings and zeros the form
  shows, and with the courier channel \<open>Rapido\<close>.
\<close>

lemma placeholder_form_row:
  assumes "map_of (billing d) k = Some placeholder_billing"
  shows "map_of (billing (db_of (billing_prepare pf k
             (snd (save_billing_form (show_billing_form k (view_of_billing (Some placeholder_billing))))) d))) k =
           Some (placeholder_billing\<lparr>delivered_to := Some [], courier_channel := Some ''Rapido'',
                   courier_tracking := Some [], amount_paid := Some 0, payment_date := Some [],
                   payment_id := Some [], discount := Some 0\<rparr>)"
  by (simp add: map_of_billing_prepare_saved_form [OF assms] show_billing_form_def view_of_billing_def
                placeholder_billing_def html_select_def delivery_opts_def courier_opts_def js_or_str_def
                html_text_value_def html_date_value_def html_valid_date_def py_or_def)

text \<open>
  C29.  Round trip of the billing form: opening the billing form of a row
  and saving it unchanged always succeeds; for a row whose fields are all
  set and are values the form controls can hold it stores the same row.  The
  placeholder row does not round-trip: it is stored with the empty strings
  and zeros the form shows and with the courier channel \<open>Rapido\<close> even for
  an in-person delivery, because \<open>showBillingForm\<close> defaults an empty
  channel to the first option.
\<close>

theorem billing_form_roundtrip:
  assumes row: "map_of (billing d) k = Some b"
  shows "resp_of (billing_prepare pf k (snd (save_billing_form (show_billing_form k (view_of_billing (Some b))))) d)
           = Json 200 ''Billing saved'' \<and>
         (billing_form_clean b \<longrightarrow>
            map_of (billing (db_of (billing_prepare pf k
              (snd (save_billing_form (show_billing_form k (view_of_billing (Some b))))) d))) k = Some b) \<and>
         (b = placeholder_billing \<longrightarrow>
            map_of (billing (db_of (billing_prepare pf k
              (snd (save_billing_form (show_billing_form k (view_of_billing (Some b))))) d))) k =
            Some (placeholder_billing\<lparr>delivered_to := Some [], courier_channel := Some ''Rapido'',
                   courier_tracking := Some [], amount_paid := Some 0, payment_date := Some [],
                   payment_id := Some [], discount := Some 0\<rparr>))"
  using clean_form_roundtrip [OF row] placeholder_form_row row
  by (simp add: billing_prepare_saved_form)

lemma saved_form_row:
  "\<exists>b'. map_of (billing (db_of (billing_prepare pf k (snd (save_billing_form f)) d))) k = Some b' \<and>
        amount_paid b' = Some (bf_amount_paid f)"
  by (cases "map_of (billing d) k") (simp_all add: billing_prepare_saved_form table_simps)

lemma appt_mobile_saved_form [simp]:
  "appt_mobile k' (db_of (billing_prepare pf k (snd (save_billing_form f)) d)) = appt_mobile k' d"
  by (simp add: billing_prepare_saved_form)

text \<open>
  C31.  Whatever the form holds, saving the billing form succeeds and leaves a
  non-NULL \<open>amount_paid\<close>, so that a later checkout of an appointment with a
  joinable patient can no longer fail with the \<open>TypeError\<close> of C13: the
  crash needs a billing row that was never saved through the form.
\<close>

theorem form_save_then_checkout:
  "resp_of (billing_prepare pf k (snd (save_billing_form f)) d) = Json 200 ''Billing saved'' \<and>
   (appt_mobile k d \<noteq> None \<longrightarrow>
      resp_of (complete_checkout k (db_of (billing_prepare pf k (snd (save_billing_form f)) d)))
        \<noteq> ServerError TypeError)"
proof -
  obtain b' where b': "map_of (billing (db_of (billing_prepare pf k (snd (save_billing_form f)) d))) k = Some b'"
    and p: "amount_paid b' = Some (bf_amount_paid f)"
    using saved_form_row by blast
  show ?thesis
    using b' p by (auto simp: billing_prepare_saved_form complete_checkout_def flag_commit_cases rollback_def
                        split: option.split)
qed

definition diag_form_clean :: "diagnosis_row \<Rightarrow> bool" where
  "diag_form_clean g \<longleftrightarrow>
     (\<forall>s\<in>set [chief_complaints g, symptoms g, mind g, psychology g, diagnosis g, medicines g, tests g].
        CHR 0x0D \<notin> set s) \<and>
     (next_visit g = [] \<or> html_valid_date (next_visit g))"

text \<open>
  C32.  Round trip of the diagnosis form: opening the doctor's form for a
  stored diagnosis whose texts have no carriage return and whose next visit
  is a valid date or empty, and saving it unchanged, stores the same texts,
  with the two flags recomputed by \<open>save_diagnosis\<close>.
\<close>

theorem diagnosis_form_roundtrip:
  assumes "diag_form_clean g"
  shows "map_of (diagnoses (db_of (save_diagnosis k
             (snd (save_diag_form (show_diag_form k (view_of_diagnosis (Some g))))) d))) k =
           Some (g\<lparr>diagnosis_saved := 1, medicines_prescribed := prescribed_flag (medicines g)\<rparr>)"
  using assms
  by (cases g) (simp add: save_diagnosis_db table_simps diagnosis_of_req_def show_diag_form_def
                          save_diag_form_def view_of_diagnosis_def diag_form_clean_def
                          norm_newlines_id html_date_value_id)

section \<open>Witnesses\<close>

definition demo_paid :: billing_row where
  "demo_paid = placeholder_billing\<lparr>delivered_to := Some ''Ann'', courier_channel := Some ''DTDC'',
     courier_tracking := Some [], amount_paid := Some 130, payment_date := Some ''2025-01-02'',
     payment_id := Some ''TX1'', discount := Some 0\<rparr>"

lemma demo_paid_clean: "billing_form_clean demo_paid"
  by (simp add: billing_form_clean_def demo_paid_def placeholder_billing_def delivery_opts_def
                courier_opts_def no_newline_def html_valid_date_def digits_value_def digit_val_def
                digit_chars_def days_in_month_def is_leap_def)

theorem billing_form_roundtrip_witness:
  "billing_form_clean demo_paid \<and>
   map_of (billing (db_of (billing_prepare demo_float ''a1''
      (snd (save_billing_form (show_billing_form ''a1'' (view_of_billing (Some demo_paid)))))
      (demo_with_row demo_paid)))) ''a1'' = Some demo_paid \<and>
   map_of (billing (db_of (billing_prepare demo_float ''a1''
      (snd (save_billing_form (show_billing_form ''a1'' (view_of_billing (Some placeholder_billing)))))
      demo_db2))) ''a1'' =
   Some (placeholder_billing\<lparr>delivered_to := Some [], courier_channel := Some ''Rapido'',
           courier_tracking := Some [], amount_paid := Some 0, payment_date := Some [],
           payment_id := Some [], discount := Some 0\<rparr>)"
proof -
  have p: "map_of (billing demo_db2) ''a1'' = Some placeholder_billing" by (simp add: demo_db2_def)
  show ?thesis
    using billing_form_roundtrip [OF demo_with_row_facts(1) [of demo_paid], of demo_float]
          billing_form_roundtrip [OF p, of demo_float] demo_paid_clean
    by simp
qed

theorem form_save_then_checkout_witness:
  "resp_of (complete_checkout ''a1'' (db_of (billing_prepare demo_float ''a1''
      (snd (save_billing_form (show_billing_form ''a1'' (view_of_billing (Some placeholder_billing)))))
      demo_db2))) \<noteq> ServerError TypeError"
  using form_save_then_checkout [of demo_float "''a1''"
          "show_billing_form ''a1'' (view_of_billing (Some placeholder_billing))" demo_db2]
        demo_db2_facts(1)
  by simp

theorem diagnosis_form_roundtrip_witness:
  "diag_form_clean (diagnosis_of_req (demo_diag ''Amoxicillin'')) \<and>
   map_of (diagnoses (db_of (save_diagnosis ''a1''
      (snd (save_diag_form (show_diag_form ''a1''
         (view_of_diagnosis (Some (diagnosis_of_req (demo_diag ''Amoxicillin''))))))) demo_db2))) ''a1'' =
   Some (diagnosis_of_req (demo_diag ''Amoxicillin''))"
proof -
  have c: "diag_form_clean (diagnosis_of_req (demo_diag ''Amoxicillin''))"
    by (simp add: diag_form_clean_def diagnosis_of_req_def demo_diag_def html_valid_date_def
                  digits_value_def digit_val_def digit_chars_def days_in_month_def is_leap_def)
  have e: "(diagnosis_of_req (demo_diag ''Amoxicillin''))\<lparr>diagnosis_saved := 1,
             medicines_prescribed := prescribed_flag (medicines (diagnosis_of_req (demo_diag ''Amoxicillin'')))\<rparr>
           = diagnosis_of_req (demo_diag ''Amoxicillin'')"
    by (simp add: diagnosis_of_req_def)
  show ?thesis
    using diagnosis_form_roundtrip [OF c, of "''a1''" demo_db2] c by (simp only: e)
qed

end
