(* ===== verification/Browser.thy ===== *)
theory Browser
  imports Client Api
begin

text \<open>
  The browser side of a click: each dashboard button and form button calls a
  script that posts one request, then shows a fixed \<open>alert\<close> and reloads the
  page (lines 344-348, 366-403, 561-580, 709-713).  \<open>fetch\<close> resolves on any
  HTTP status, so the alert does not depend on the server's answer.
\<close>

datatype ui_event =
    ClickCheckIn string string
  | ClickShowBilling string
  | ClickSaveBilling billing_form
  | ClickHandOver string
  | ClickCourierDone string
  | ClickCheckout string
  | ClickShowDiagnosis string
  | ClickSaveDiagnosis diag_form
  | ClickPrepare string

text \<open>The \<open>onclick\<close> of each button of a table row (lines 293-304, 520, 697).\<close>

fun button_event :: "string \<Rightarrow> action \<Rightarrow> ui_event" where
  "button_event k CheckInBtn = ClickCheckIn k ''Scheduled''"
| "button_event k BillingBtn = ClickShowBilling k"
| "button_event k HandOverBtn = ClickHandOver k"
| "button_event k CourierDoneBtn = ClickCourierDone k"
| "button_event k CheckoutBtn = ClickCheckout k"
| "button_event k DiagnosisBtn = ClickShowDiagnosis k"
| "button_event k PrepareBtn = ClickPrepare k"

fun ui_request :: "ui_event \<Rightarrow> request" where
  "ui_request (ClickCheckIn k st) = CheckIn k st"
| "ui_request (ClickShowBilling k) = GetBilling k"
| "ui_request (ClickSaveBilling f) = BillingPrepare (fst (save_billing_form f)) (snd (save_billing_form f))"
| "ui_request (ClickHandOver k) = HandOver k"
| "ui_request (ClickCourierDone k) = CourierDone k"
| "ui_request (ClickCheckout k) = CompleteCheckout k"
| "ui_request (ClickShowDiagnosis k) = GetDiagnosis k"
| "ui_request (ClickSaveDiagnosis f) = SaveDiagnosis (fst (save_diag_form f)) (snd (save_diag_form f))"
| "ui_request (ClickPrepare k) = PrepareMedicine k"

text \<open>The alert each script shows after its \<open>fetch\<close>; the two readers show none.\<close>

fun ui_alert :: "ui_event \<Rightarrow> string option" where
  "ui_alert (ClickCheckIn k st) = Some (''Checked in as '' @ st)"
| "ui_alert (ClickShowBilling k) = None"
| "ui_alert (ClickSaveBilling f) = Some ''Billing saved''"
| "ui_alert (ClickHandOver k) = Some ''Medicine handed over''"
| "ui_alert (ClickCourierDone k) = Some ''Courier done''"
| "ui_alert (ClickCheckout k) = Some ''Checkout completed''"
| "ui_alert (ClickShowDiagnosis k) = None"
| "ui_alert (ClickSaveDiagnosis f) = Some ''Diagnosis and prescription saved''"
| "ui_alert (ClickPrepare k) = Some ''Medicines prepared''"

text \<open>A click: the request is served, then the alert is shown.\<close>

definition ui_click :: "env \<Rightarrow> session \<Rightarrow> ui_event \<Rightarrow> db \<Rightarrow> string option \<times> response \<times> db" where
  "ui_click e s ev d = (let out = dispatch e s (ui_request ev) d in (ui_alert ev, resp_of out, db_of out))"

end
