(* ===== verification/Scenario.thy ===== *)
theory Scenario
  imports Refinement Browser
begin

text \<open>
  Runs of requests through the handlers.  The general path from preparation
  to checkout of one appointment (with the billing save before or after the
  hand-over), and what a click on the Complete Checkout button does.  The
  steps of the scenario of spec section 8 (booking \<open>Manual In-Clinic\<close> the
  day after the clock's date, check-in, a diagnosis prescribing Amoxicillin,
  preparation, hand-over) give the reachable databases \<open>scen_db1\<close> ...
  \<open>scen_db5\<close> on which the general theorems are applied.
\<close>

abbreviation scen_req :: booking_req where
  "scen_req \<equiv> demo_req ''2025-01-02'' ''Manual In-Clinic''"

definition scen_db1 :: db where
  "scen_db1 =
     \<lparr>patients = [(''p1'', new_patient_row scen_req)],
      appointments = [(''a1'', new_appointment_row demo_clock ''p1'' scen_req)],
      diagnoses = [], billing = [(''a1'', placeholder_billing)]\<rparr>"

definition scen_db2 :: db where
  "scen_db2 = scen_db1\<lparr>appointments :=
     [(''a1'', checkin_update demo_clock ''Scheduled'' (new_appointment_row demo_clock ''p1'' scen_req))]\<rparr>"

definition scen_db3 :: db where
  "scen_db3 = scen_db2\<lparr>diagnoses := [(''a1'', diagnosis_of_req (demo_diag ''Amoxicillin''))]\<rparr>"

definition scen_db4 :: db where
  "scen_db4 = scen_db3\<lparr>billing := [(''a1'', set_prepared placeholder_billing)]\<rparr>"

definition scen_db5 :: db where
  "scen_db5 = scen_db4\<lparr>billing := [(''a1'', set_handed_over (set_prepared placeholder_billing))]\<rparr>"

text \<open>
  The requests that take one appointment from preparation to checkout, each
  from a session of the route's role, with the billing form saved by the
  browser in between.
\<close>

definition checkout_path :: "env \<Rightarrow> string \<Rightarrow> billing_form \<Rightarrow> (env \<times> session \<times> request) list" where
  "checkout_path e k f =
     [(e, role_session ''pharmacist'', PrepareMedicine k),
      (e, role_session ''receptionist'', BillingPrepare k (snd (save_billing_form f))),
      (e, role_session ''receptionist'', HandOver k),
      (e, role_session ''receptionist'', CompleteCheckout k)]"

text \<open>The same requests with the billing form saved after the hand-over.\<close>

definition checkout_path_late :: "env \<Rightarrow> string \<Rightarrow> billing_form \<Rightarrow> (env \<times> session \<times> request) list" where
  "checkout_path_late e k f =
     [(e, role_session ''pharmacist'', PrepareMedicine k),
      (e, role_session ''receptionist'', HandOver k),
      (e, role_session ''receptionist'', BillingPrepare k (snd (save_billing_form f))),
      (e, role_session ''receptionist'', CompleteCheckout k)]"

lemma run_Cons_resp [simp]:
  "fst (run ((e, s, q) # rs) d) = resp_of (dispatch e s q d) # fst (run rs (db_of (dispatch e s q d)))"
  by (simp add: Let_def split: prod.split)

lemma demo_env_sel [simp]:
  "now demo_env = demo_clock" "new_patient_id demo_env = ''p1''"
  "new_appointment_id demo_env = ''a1''" "py_float demo_env = demo_float"
  by (simp_all add: demo_env_def)

lemma scen_book:
  "dispatch demo_env (role_session ''receptionist'') (BookAppointment scen_req) empty_db =
     (Json 200 ''Appointment booked'', scen_db1,
      booking_notices scen_req @ [SaveCsv ''patients'', SaveCsv ''appointments'', SaveCsv ''billing''])"
proof -
  have up: "upsert_patient ''p1'' scen_req (patients empty_db) = Inr (''p1'', [(''p1'', new_patient_row scen_req)])"
    by (simp add: upsert_patient_cases find_patient_by_mobile_def empty_db_def)
  have dt: "strptime_ymd (bk_appointment_date scen_req) = Some \<lparr>year = 2025, month = 1, day = 2\<rparr>"
    using demo_facts(4) by (simp add: demo_req_def)
  have nsd: "\<not> same_day_direct demo_clock \<lparr>year = 2025, month = 1, day = 2\<rparr> (bk_booking_type scen_req)"
    by (simp add: same_day_direct_def demo_clock_def)
  have fr: "map_of (appointments empty_db) ''a1'' = None" by (simp add: empty_db_def)
  show ?thesis
    using book_appointment_success [OF up dt nsd fr]
    by (simp add: demo_env_def role_session_def has_role_def dispatch_def ensure_billing_def
                  tbl_insert_or_ignore_def scen_db1_def empty_db_def)
qed

section \<open>Preparation, billing, hand-over and checkout\<close>

lemma prepare_medicine_row:
  assumes "appt_mobile k d = Some m"
  shows "resp_of (prepare_medicine k d) = Json 200 ''Medicines prepared'' \<and>
         appt_mobile k (db_of (prepare_medicine k d)) = Some m \<and>
         (\<exists>b. map_of (billing (db_of (prepare_medicine k d))) k = Some b \<and> medicines_prepared b = Some 1)"
  using assms by (auto simp: prepare_medicine_cases table_simps set_prepared_def split: option.split)

lemma saved_form_keeps_prepared:
  assumes "map_of (billing d) k = Some b"
  shows "\<exists>b'. map_of (billing (db_of (billing_prepare pf k (snd (save_billing_form f)) d))) k = Some b' \<and>
              medicines_prepared b' = medicines_prepared b \<and> amount_paid b' = Some (bf_amount_paid f)"
  by (simp add: map_of_billing_prepare_saved_form [OF assms])

lemma hand_over_row:
  assumes "appt_mobile k d = Some m" and "map_of (billing d) k = Some b"
    and "medicines_prepared b = Some 1"
  shows "hand_over_medicine k d =
           (Json 200 ''Medicine handed over'', d\<lparr>billing := tbl_update k set_handed_over (billing d)\<rparr>,
            [WhatsApp m ''Medicines handed over'', SaveCsv ''billing''])"
  using assms by (simp add: hand_over_medicine_def flag_commit_cases)

lemma checkout_row:
  assumes "appt_mobile k d = Some m" and "map_of (billing d) k = Some b"
    and "medicines_handed_over b = Some 1" and "amount_paid b = Some p"
  shows "resp_of (complete_checkout k d) = Json 200 ''Checkout completed'' \<and>
         map_of (billing (db_of (complete_checkout k d))) k = Some (set_checkout b)"
  using assms by (simp add: complete_checkout_def flag_commit_cases table_simps)

lemma save_hand_commute:
  assumes "map_of (billing d) k \<noteq> None"
  shows "db_of (billing_prepare pf k (snd (save_billing_form f)) (d\<lparr>billing := tbl_update k set_handed_over (billing d)\<rparr>)) =
           (db_of (billing_prepare pf k (snd (save_billing_form f)) d))\<lparr>billing :=
              tbl_update k set_handed_over (billing (db_of (billing_prepare pf k (snd (save_billing_form f)) d)))\<rparr>"
proof -
  obtain G where G: "payment_update pf (snd (save_billing_form f)) = Some G"
    using payment_update_saved_form by blast
  have c: "set_handed_over (G b) = G (set_handed_over b)" for b
    using G payment_update_saved_form [of pf f] by (auto simp: set_handed_over_def)
  have e: "ensure_billing k d = d" "ensure_billing k (d\<lparr>billing := tbl_update k set_handed_over (billing d)\<rparr>) =
                                     d\<lparr>billing := tbl_update k set_handed_over (billing d)\<rparr>"
    using assms by (simp_all add: ensure_billing_present table_simps)
  show ?thesis
    using tbl_update_comm [of set_handed_over G, OF c] by (simp add: billing_prepare_def G e Let_def)
qed

text \<open>
  From a prepared row of an appointment with a patient: the billing save and
  the hand-over each answer 200 in either order and lead to the same
  database, on which the checkout answers 200.
\<close>

lemma save_and_hand_over:
  fixes pf :: "string \<Rightarrow> real option" and f :: billing_form
  assumes m: "appt_mobile k d = Some m" and b: "map_of (billing d) k = Some b"
    and p: "medicines_prepared b = Some 1"
  defines "d2 \<equiv> db_of (billing_prepare pf k (snd (save_billing_form f)) d)"
  defines "d3 \<equiv> d2\<lparr>billing := tbl_update k set_handed_over (billing d2)\<rparr>"
  shows "resp_of (billing_prepare pf k (snd (save_billing_form f)) d) = Json 200 ''Billing saved''"
    "hand_over_medicine k d2 = (Json 200 ''Medicine handed over'', d3,
       [WhatsApp m ''Medicines handed over'', SaveCsv ''billing''])"
    "hand_over_medicine k d = (Json 200 ''Medicine handed over'', d\<lparr>billing := tbl_update k set_handed_over (billing d)\<rparr>,
       [WhatsApp m ''Medicines handed over'', SaveCsv ''billing''])"
    "resp_of (billing_prepare pf k (snd (save_billing_form f)) (d\<lparr>billing := tbl_update k set_handed_over (billing d)\<rparr>))
       = Json 200 ''Billing saved''"
    "db_of (billing_prepare pf k (snd (save_billing_form f)) (d\<lparr>billing := tbl_update k set_handed_over (billing d)\<rparr>))
       = d3"
    "resp_of (complete_checkout k d3) = Json 200 ''Checkout completed'' \<and>
     (\<exists>b'. map_of (billing (db_of (complete_checkout k d3))) k = Some b' \<and>
           checkout_done b' = Some 1 \<and> amount_paid b' = Some (bf_amount_paid f))"
proof -
  obtain b2 where b2: "map_of (billing d2) k = Some b2" "medicines_prepared b2 = Some 1"
      "amount_paid b2 = Some (bf_amount_paid f)"
    using saved_form_keeps_prepared [OF b] p unfolding d2_def by auto
  have m2: "appt_mobile k d2 = Some m" using m by (simp add: d2_def)
  show "resp_of (billing_prepare pf k (snd (save_billing_form f)) d) = Json 200 ''Billing saved''"
    "resp_of (billing_prepare pf k (snd (save_billing_form f)) (d\<lparr>billing := tbl_update k set_handed_over (billing d)\<rparr>))
       = Json 200 ''Billing saved''"
    by (simp_all add: billing_prepare_saved_form)
  show "hand_over_medicine k d2 = (Json 200 ''Medicine handed over'', d3,
       [WhatsApp m ''Medicines handed over'', SaveCsv ''billing''])"
    using hand_over_row [OF m2 b2(1,2)] by (simp add: d3_def)
  show "hand_over_medicine k d = (Json 200 ''Medicine handed over'', d\<lparr>billing := tbl_update k set_handed_over (billing d)\<rparr>,
       [WhatsApp m ''Medicines handed over'', SaveCsv ''billing''])"
    by (rule hand_over_row [OF m b p])
  show "db_of (billing_prepare pf k (snd (save_billing_form f)) (d\<lparr>billing := tbl_update k set_handed_over (billing d)\<rparr>))
       = d3"
    using save_hand_commute [of d k pf f] b by (simp add: d3_def d2_def)
  have b3: "map_of (billing d3) k = Some (set_handed_over b2)" using b2 by (simp add: d3_def table_simps)
  show "resp_of (complete_checkout k d3) = Json 200 ''Checkout completed'' \<and>
     (\<exists>b'. map_of (billing (db_of (complete_checkout k d3))) k = Some b' \<and>
           checkout_done b' = Some 1 \<and> amount_paid b' = Some (bf_amount_paid f))"
    using checkout_row [OF _ b3] m2 b2(3)
    by (simp add: d3_def set_handed_over_def set_checkout_def)
qed

lemma role_session_allowed: "has_role r (role_session r)"
  by (simp add: has_role_def role_session_def)

section \<open>The concrete scenario\<close>

lemma scen_mobile:
  "appt_mobile ''a1'' scen_db2 = Some ''555''"
  "appt_mobile ''a1'' scen_db3 = Some ''555''"
  "appt_mobile ''a1'' scen_db4 = Some ''555''"
  by (simp_all add: appt_mobile_def scen_db1_def scen_db2_def scen_db3_def scen_db4_def checkin_update_def
                    new_appointment_row_def new_patient_row_def demo_req_def)

lemma scen_checkin:
  "dispatch demo_env (role_session ''receptionist'') (CheckIn ''a1'' ''Scheduled'') scen_db1 =
     (Json 200 ''Checked in'', scen_db2, [SaveCsv ''appointments''])"
  by (simp add: dispatch_def has_role_def role_session_def check_in_cases scen_db1_def scen_db2_def
                tbl_update_def)

lemma scen_diagnosis:
  "dispatch demo_env (role_session ''doctor'') (SaveDiagnosis ''a1'' (demo_diag ''Amoxicillin'')) scen_db2 =
     (Json 200 ''Diagnosis and prescription saved'', scen_db3,
      [WhatsApp ''555'' ''Medicines prescribed'', SaveCsv ''diagnoses'', SaveCsv ''billing''])"
proof -
  have p: "medicines_prescribed (diagnosis_of_req (demo_diag ''Amoxicillin'')) = 1"
    using demo_blank_medicines(2) by (simp add: diagnosis_of_req_def prescribed_flag_iff demo_diag_def)
  have e: "ensure_billing ''a1'' (scen_db2\<lparr>diagnoses := tbl_insert_or_replace ''a1''
             (diagnosis_of_req (demo_diag ''Amoxicillin'')) (diagnoses scen_db2)\<rparr>) = scen_db3"
    by (simp add: ensure_billing_def tbl_insert_or_ignore_def tbl_insert_or_replace_def
                  scen_db1_def scen_db2_def scen_db3_def)
  have m: "appt_mobile ''a1'' scen_db3 = Some ''555''" by (rule scen_mobile(2))
  show ?thesis
    using p m by (simp add: dispatch_def has_role_def role_session_def save_diagnosis_def Let_def e)
qed

lemma scen_prepare:
  "dispatch demo_env (role_session ''pharmacist'') (PrepareMedicine ''a1'') scen_db3 =
     (Json 200 ''Medicines prepared'', scen_db4, [WhatsApp ''555'' ''Medicines prepared'', SaveCsv ''billing''])"
  using scen_mobile(2)
  by (simp add: dispatch_def has_role_def role_session_def prepare_medicine_cases tbl_insert_or_ignore_def
                tbl_update_def scen_db4_def, simp add: scen_db1_def scen_db2_def scen_db3_def)

lemma scen_hand_over:
  "dispatch demo_env (role_session ''receptionist'') (HandOver ''a1'') scen_db4 =
     (Json 200 ''Medicine handed over'', scen_db5, [WhatsApp ''555'' ''Medicines handed over'', SaveCsv ''billing''])"
  using scen_mobile(2)
  by (simp add: dispatch_def has_role_def role_session_def hand_over_medicine_def flag_commit_cases
                tbl_update_def scen_db5_def scen_db4_def, simp add: set_prepared_def)

lemma scen_reachable: "reachable scen_db5"
proof -
  have r1: "reachable scen_db1"
    using reach_step [OF reach_init, of demo_env "role_session ''receptionist''" "BookAppointment scen_req"]
    by (simp add: scen_book)
  have r2: "reachable scen_db2"
    using reach_step [OF r1, of demo_env "role_session ''receptionist''" "CheckIn ''a1'' ''Scheduled''"]
    by (simp add: scen_checkin)
  have r3: "reachable scen_db3"
    using reach_step [OF r2, of demo_env "role_session ''doctor''" "SaveDiagnosis ''a1'' (demo_diag ''Amoxicillin'')"]
    by (simp add: scen_diagnosis)
  have r4: "reachable scen_db4"
    using reach_step [OF r3, of demo_env "role_session ''pharmacist''" "PrepareMedicine ''a1''"]
    by (simp add: scen_prepare)
  show "reachable scen_db5"
    using reach_step [OF r4, of demo_env "role_session ''receptionist''" "HandOver ''a1''"]
    by (simp add: scen_hand_over)
qed


text \<open>
  C26.  Every appointment whose patient row exists can be taken through to
  checkout: the pharmacist's Prepare Medicine, the receptionist saving the
  billing form (whatever it holds), Hand Over and Complete Checkout all
  answer 200 in this order, whatever state the billing row was in, and the
  row ends checked out with the amount paid entered in the form.  Saving the
  billing form after the hand-over instead also answers 200 at every step
  and ends in the same database.
\<close>

theorem checkout_path_live:
  assumes "appt_mobile k d \<noteq> None"
  shows "fst (run (checkout_path e k f) d) =
           [Json 200 ''Medicines prepared'', Json 200 ''Billing saved'',
            Json 200 ''Medicine handed over'', Json 200 ''Checkout completed''] \<and>
         (\<exists>b. map_of (billing (snd (run (checkout_path e k f) d))) k = Some b \<and>
              checkout_done b = Some 1 \<and> amount_paid b = Some (bf_amount_paid f)) \<and>
         fst (run (checkout_path_late e k f) d) =
           [Json 200 ''Medicines prepared'', Json 200 ''Medicine handed over'',
            Json 200 ''Billing saved'', Json 200 ''Checkout completed''] \<and>
         snd (run (checkout_path_late e k f) d) = snd (run (checkout_path e k f) d)"
proof -
  obtain m where m: "appt_mobile k d = Some m" using assms by blast
  define d1 where "d1 = db_of (prepare_medicine k d)"
  obtain b1 where p1: "resp_of (prepare_medicine k d) = Json 200 ''Medicines prepared''"
    and m1: "appt_mobile k d1 = Some m" and b1: "map_of (billing d1) k = Some b1" "medicines_prepared b1 = Some 1"
    using prepare_medicine_row [OF m] unfolding d1_def by blast
  define d2 where "d2 = db_of (billing_prepare (py_float e) k (snd (save_billing_form f)) d1)"
  define d3 where "d3 = d2\<lparr>billing := tbl_update k set_handed_over (billing d2)\<rparr>"
  note s = save_and_hand_over [OF m1 b1(1) b1(2)]
  note s1 = s(1) [where pf = "py_float e" and f = f]
    and s2 = s(2) [where pf = "py_float e" and f = f, folded d2_def, folded d3_def]
    and s4 = s(4) [where pf = "py_float e" and f = f]
    and s5 = s(5) [where pf = "py_float e" and f = f, folded d2_def, folded d3_def]
    and s6 = s(6) [where pf = "py_float e" and f = f, folded d2_def, folded d3_def]
  have "run (checkout_path e k f) d =
          ([Json 200 ''Medicines prepared'', Json 200 ''Billing saved'',
            Json 200 ''Medicine handed over'', Json 200 ''Checkout completed''], db_of (complete_checkout k d3))"
    using s6 by (simp add: checkout_path_def role_session_allowed p1 s1 s2 d1_def [symmetric] d2_def [symmetric])
  moreover have "run (checkout_path_late e k f) d =
          ([Json 200 ''Medicines prepared'', Json 200 ''Medicine handed over'',
            Json 200 ''Billing saved'', Json 200 ''Checkout completed''], db_of (complete_checkout k d3))"
    using s6 by (simp add: checkout_path_late_def role_session_allowed p1 s(3) s4 s5 d1_def [symmetric])
  ultimately show ?thesis using s6 by simp
qed

theorem checkout_path_live_witness:
  "fst (run (checkout_path demo_env ''a1'' (show_billing_form ''a1'' (view_of_billing (Some demo_paid)))) scen_db3) =
     [Json 200 ''Medicines prepared'', Json 200 ''Billing saved'',
      Json 200 ''Medicine handed over'', Json 200 ''Checkout completed'']"
  using checkout_path_live [of "''a1''" scen_db3 demo_env "show_billing_form ''a1'' (view_of_billing (Some demo_paid))"] scen_mobile(2) by simp


end
