(* ===== verification/BookingForm.thy ===== *)
theory BookingForm
  imports Client
begin

text \<open>
  The booking form of the receptionist's dashboard (\<open>src/app.py\<close> lines
  203-230) and what its controls submit in \<open>request.form\<close> (lines 112-120):
  text inputs, a number input for the age, two selects and a date input.
  The date input holds only valid HTML date strings, whose year may have
  more than four digits; \<open>strptime('%Y-%m-%d')\<close> accepts only four.
\<close>

section \<open>The form\<close>

definition reason_opts :: "string list" where
  "reason_opts = [''Consultation'', ''Collecting Medicine'', ''Other'']"

definition booking_type_opts :: "string list" where
  "booking_type_opts = [''Online Direct'', ''Online Manual'', ''Manual In-Clinic'']"

text \<open>A select the user has not changed shows and submits its first option.\<close>

definition select_choice :: "string list \<Rightarrow> string \<Rightarrow> string" where
  "select_choice opts v = (if v \<in> set opts then v else hd opts)"

text \<open>
  A number input keeps a valid floating-point number string: an optional
  minus, then digits, or digits and a fraction, or a fraction alone
  (\<open>.5\<close>), then an optional exponent; anything else reads as the empty
  string.
\<close>

definition is_digit :: "char \<Rightarrow> bool" where
  "is_digit c \<longleftrightarrow> c \<in> set digit_chars"

definition valid_float_string :: "string \<Rightarrow> bool" where
  "valid_float_string s =
     (let s1 = (if take 1 s = ''-'' then drop 1 s else s);
          ip = takeWhile is_digit s1; r1 = dropWhile is_digit s1;
          fp = (if take 1 r1 = ''.'' then Some (takeWhile is_digit (drop 1 r1)) else None);
          r2 = (case fp of None \<Rightarrow> r1 | Some f \<Rightarrow> drop (Suc (length f)) r1);
          ep = (if take 1 r2 \<in> {''e'', ''E''}
                then (let r3 = drop 1 r2; r4 = (if take 1 r3 \<in> {''+'', ''-''} then drop 1 r3 else r3)
                      in Some r4)
                else None)
      in (ip \<noteq> [] \<or> fp \<noteq> None) \<and> (case fp of None \<Rightarrow> True | Some f \<Rightarrow> f \<noteq> []) \<and>
         (case ep of None \<Rightarrow> r2 = [] | Some e \<Rightarrow> e \<noteq> [] \<and> (\<forall>c\<in>set e. is_digit c)))"

definition html_number_value :: "string \<Rightarrow> string" where
  "html_number_value s = (if valid_float_string s then s else [])"

record booking_form =
  bkf_patient_name :: string
  bkf_mobile_number :: string
  bkf_age :: string
  bkf_address :: string
  bkf_reason :: string
  bkf_appointment_date :: string
  bkf_booking_type :: string

text \<open>Lines 112-120: the fields \<open>receptionist_dashboard\<close> reads from the submitted form.\<close>

definition submit_booking_form :: "booking_form \<Rightarrow> booking_req" where
  "submit_booking_form f =
     \<lparr>bk_name = html_text_value (bkf_patient_name f),
      bk_mobile_number = html_text_value (bkf_mobile_number f),
      bk_age = html_number_value (bkf_age f),
      bk_address = html_text_value (bkf_address f),
      bk_reason = select_choice reason_opts (bkf_reason f),
      bk_appointment_date = html_date_value (bkf_appointment_date f),
      bk_booking_type = select_choice booking_type_opts (bkf_booking_type f)\<rparr>"

text \<open>A filled-in form used in the examples below.\<close>

definition demo_booking_form :: "string \<Rightarrow> booking_form" where
  "demo_booking_form dt =
     \<lparr>bkf_patient_name = ''Ann B'', bkf_mobile_number = ''555'', bkf_age = ''31'',
      bkf_address = ''Oak St'', bkf_reason = ''Consultation'', bkf_appointment_date = dt,
      bkf_booking_type = ''Online Direct''\<rparr>"

section \<open>Digit strings\<close>

lemma digits_value_snoc:
  "digits_value (xs @ [c]) = 10 * digits_value xs + digit_val c"
  by (simp add: digits_value_def)

lemma digit_val_lt: "c \<in> set digit_chars \<Longrightarrow> digit_val c < 10"
  by (auto simp: digit_chars_def digit_val_def)

lemma digit_char_digit_val: "c \<in> set digit_chars \<Longrightarrow> digit_char (digit_val c) = c"
  by (auto simp: digit_chars_def digit_val_def digit_char_def)

lemma pad_digits_digits_value:
  "\<forall>c\<in>set cs. c \<in> set digit_chars \<Longrightarrow> pad_digits (length cs) (digits_value cs) = cs"
proof (induction cs rule: rev_induct)
  case Nil
  then show ?case by simp
next
  case (snoc c cs)
  have lt: "digit_val c < 10" using snoc.prems by (simp add: digit_val_lt)
  have "(10 * digits_value cs + digit_val c) div 10 = digits_value cs" using lt by simp
  moreover have "(10 * digits_value cs + digit_val c) mod 10 = digit_val c" using lt by simp
  ultimately show ?case
    using snoc by (simp add: digits_value_snoc digit_char_digit_val)
qed

lemma digits_value_bound:
  "\<forall>c\<in>set cs. c \<in> set digit_chars \<Longrightarrow> digits_value cs < 10 ^ length cs"
proof (induction cs rule: rev_induct)
  case Nil
  then show ?case by (simp add: digits_value_def)
next
  case (snoc c cs)
  then have "digits_value cs < 10 ^ length cs" "digit_val c < 10" by (simp_all add: digit_val_lt)
  then show ?case by (simp add: digits_value_snoc)
qed

section \<open>Valid date strings and strptime\<close>

lemma html_valid_date_10:
  assumes "html_valid_date s" and "length s = 10"
  obtains dt where "valid_date dt" and "fmt_date dt = s"
proof -
  obtain c0 c1 c2 c3 c4 c5 c6 c7 c8 c9 where s: "s = [c0, c1, c2, c3, c4, c5, c6, c7, c8, c9]"
    using assms(2) by (auto simp: length_Suc_conv numeral_eq_Suc)
  let ?y = "[c0, c1, c2, c3]" and ?m = "[c5, c6]" and ?d = "[c8, c9]"
  have h: "c4 = CHR ''-''" "c7 = CHR ''-''"
    "\<forall>c\<in>set ?y. c \<in> set digit_chars" "\<forall>c\<in>set ?m. c \<in> set digit_chars" "\<forall>c\<in>set ?d. c \<in> set digit_chars"
    "0 < digits_value ?y" "1 \<le> digits_value ?m" "digits_value ?m \<le> 12"
    "1 \<le> digits_value ?d" "digits_value ?d \<le> days_in_month (digits_value ?y) (digits_value ?m)"
    using assms(1) unfolding s html_valid_date_def Let_def by simp_all
  let ?dt = "\<lparr>year = digits_value ?y, month = digits_value ?m, day = digits_value ?d\<rparr>"
  have "digits_value ?y < 10 ^ 4" using digits_value_bound [OF h(3)] by simp
  then have "valid_date ?dt" using h by (simp add: valid_date_def)
  moreover have "fmt_date ?dt = s"
    using pad_digits_digits_value [OF h(3)] pad_digits_digits_value [OF h(4)]
          pad_digits_digits_value [OF h(5)] h(1,2)
    by (simp add: fmt_date_def s numeral_eq_Suc del: pad_digits.simps)
  ultimately show ?thesis by (rule that)
qed

lemma date_matches_no_dash:
  assumes "5 \<le> length s" and "s ! 4 \<noteq> CHR ''-''"
  shows "date_matches s = []"
proof -
  obtain a b c d e r where s: "s = a # b # c # d # e # r"
    using assms(1) by (auto simp: Suc_le_length_iff numeral_eq_Suc)
  show ?thesis using assms(2) by (simp add: s date_matches_def re_Y_def re_dash_def)
qed

lemma dash_not_digit: "CHR ''-'' \<notin> set digit_chars"
  by (simp add: digit_chars_def)

lemma html_valid_date_long:
  assumes "html_valid_date s" and "length s \<noteq> 10"
  shows "strptime_ymd s = None"
proof -
  obtain n: "10 \<le> length s" and
    all: "\<forall>c\<in>set (take (length s - 6) s @ take 2 (drop (length s - 5) s) @ drop (length s - 2) s).
            c \<in> set digit_chars"
    using assms(1) unfolding html_valid_date_def Let_def by blast
  have "s ! 4 \<in> set (take (length s - 6) s)"
    using n assms(2) nth_mem [of 4 "take (length s - 6) s"] by simp
  then have "s ! 4 \<noteq> CHR ''-''" using all dash_not_digit by auto
  with n have "date_matches s = []" by (intro date_matches_no_dash) simp_all
  then show ?thesis by (simp add: strptime_ymd_def)
qed

lemma strptime_html_date:
  assumes "html_valid_date s"
  shows "case strptime_ymd s of
           None \<Rightarrow> length s \<noteq> 10
         | Some dt \<Rightarrow> length s = 10 \<and> valid_date dt \<and> fmt_date dt = s"
proof (cases "length s = 10")
  case True
  obtain dt where v: "valid_date dt" and s: "fmt_date dt = s"
    using assms True by (rule html_valid_date_10)
  have "strptime_ymd s = Some dt"
    using date_matches_fmt_date [OF v] v by (auto simp: strptime_ymd_def s [symmetric])
  then show ?thesis using True v s by simp
next
  case False
  then show ?thesis using html_valid_date_long [OF assms] by simp
qed

lemma dashboard_book_bad_date:
  assumes "strptime_ymd (bk_appointment_date r) = None"
  shows "\<exists>x. dashboard_book c pid aid r d = (ServerError x, d, [])"
  using assms by (auto simp: dashboard_book_def rollback_def split: sum.split prod.split)

text \<open>
  C17. The date input hands \<open>receptionist_dashboard\<close> any valid HTML date;
  \<open>strptime\<close> parses it exactly when its year has four digits, and the
  parsed date then lies within years 1 to 9999 and prints back as the input.
  A booking whose date input holds a valid date with a five-digit year
  (say 12025-01-02) is answered with a 500 error and changes nothing.
\<close>
theorem booking_date_bounds:
  assumes "html_valid_date s"
  shows "(strptime_ymd s \<noteq> None \<longleftrightarrow> length s = 10) \<and>
         (\<forall>dt. strptime_ymd s = Some dt \<longrightarrow> 1 \<le> year dt \<and> year dt \<le> 9999 \<and> fmt_date dt = s) \<and>
         (bkf_appointment_date f = s \<and> length s \<noteq> 10 \<longrightarrow>
            (\<exists>x. dashboard_book c pid aid (submit_booking_form f) d = (ServerError x, d, [])))"
proof -
  have p: "case strptime_ymd s of None \<Rightarrow> length s \<noteq> 10
             | Some dt \<Rightarrow> length s = 10 \<and> valid_date dt \<and> fmt_date dt = s"
    using assms by (rule strptime_html_date)
  have "bkf_appointment_date f = s \<Longrightarrow> bk_appointment_date (submit_booking_form f) = s"
    using assms by (simp add: submit_booking_form_def html_date_value_def)
  then show ?thesis using p dashboard_book_bad_date
    by (auto simp: valid_date_def split: option.splits)
qed

theorem booking_date_bounds_witness:
  "(strptime_ymd ''2025-01-02'' \<noteq> None) \<and>
   (\<exists>x. dashboard_book demo_clock ''p2'' ''a2'' (submit_booking_form (demo_booking_form ''12025-01-02''))
          demo_db = (ServerError x, demo_db, []))"
proof -
  have v: "html_valid_date ''2025-01-02''" "html_valid_date ''12025-01-02''"
    by (simp_all add: html_valid_date_def digits_value_def digit_chars_def digit_val_def
          days_in_month_def is_leap_def)
  show ?thesis
    using booking_date_bounds [OF v(1), of "demo_booking_form ''2025-01-02''" demo_clock "''p2''" "''a2''" demo_db]
          booking_date_bounds [OF v(2), of "demo_booking_form ''12025-01-02''" demo_clock "''p2''" "''a2''" demo_db]
    by (simp add: demo_booking_form_def)
qed

end
