(* ===== verification/Typing.thy ===== *)
theory Typing
  imports Refinement Pages
begin

text \<open>
  The values the handlers store in the billing table's typed columns.  The
  four progress flags are \<open>INTEGER\<close> columns that the handlers and the
  templates read by truthiness: \<open>medicines_prepared\<close> is written 0 by the
  placeholder row (lines 757-758, 821, 838) and 1 by \<open>prepare_medicine\<close>, the
  other three are left \<open>NULL\<close> by the placeholder and set to 1 by their
  handler.  The charges and the delivery type are set by the placeholder row
  and by every billing save, so they are never \<open>NULL\<close>.  The invariant is
  proved for every handler and every reachable database.
\<close>

definition flag_col :: "int option \<Rightarrow> bool" where
  "flag_col v \<longleftrightarrow> v = None \<or> v = Some 1"

definition billing_typed :: "billing_row \<Rightarrow> bool" where
  "billing_typed b \<longleftrightarrow>
     (medicines_prepared b = Some 0 \<or> medicines_prepared b = Some 1) \<and>
     flag_col (medicines_handed_over b) \<and> flag_col (couriered b) \<and> flag_col (checkout_done b) \<and>
     consultation_charge b \<noteq> None \<and> medicine_charge b \<noteq> None \<and> courier_charge b \<noteq> None \<and>
     delivery_type b \<noteq> None"

definition billing_inv :: "db \<Rightarrow> bool" where
  "billing_inv d \<longleftrightarrow> (\<forall>k b. map_of (billing d) k = Some b \<longrightarrow> billing_typed b)"

section \<open>Rows\<close>

lemma billing_typed_placeholder [simp]: "billing_typed placeholder_billing"
  by (simp add: billing_typed_def placeholder_billing_def flag_col_def)

lemma billing_typed_setters:
  assumes "billing_typed b"
  shows "billing_typed (set_prepared b)" "billing_typed (set_handed_over b)"
    "billing_typed (set_couriered b)" "billing_typed (set_checkout b)"
  using assms
  by (simp_all add: billing_typed_def flag_col_def set_prepared_def set_handed_over_def
                    set_couriered_def set_checkout_def)

lemma billing_typed_payment_update:
  assumes "payment_update pf q = Some f" and "billing_typed b"
  shows "billing_typed (f b)"
proof -
  have "consultation_charge (f b) \<noteq> None \<and> medicine_charge (f b) \<noteq> None \<and>
        courier_charge (f b) \<noteq> None \<and> delivery_type (f b) \<noteq> None"
    using assms(1) unfolding payment_update_def by (auto split: option.splits)
  then show ?thesis
    using payment_update_flags [OF assms(1), of b] assms(2) by (simp add: billing_typed_def)
qed

section \<open>Tables\<close>

lemma billing_inv_same:
  "billing d' = billing d \<Longrightarrow> billing_inv d' = billing_inv d"
  by (simp add: billing_inv_def)

lemma billing_inv_other_tables [simp]:
  "billing_inv (d\<lparr>patients := ps\<rparr>) = billing_inv d"
  "billing_inv (d\<lparr>appointments := as\<rparr>) = billing_inv d"
  "billing_inv (d\<lparr>diagnoses := ds\<rparr>) = billing_inv d"
  by (simp_all add: billing_inv_def)

lemma billing_inv_ensure_billing [intro]: "billing_inv d \<Longrightarrow> billing_inv (ensure_billing k d)"
  by (auto simp: billing_inv_def ensure_billing_def table_simps split: option.splits if_splits)

lemma billing_inv_tbl_update:
  assumes "billing_inv d" and "\<And>b. billing_typed b \<Longrightarrow> billing_typed (f b)"
  shows "billing_inv (d\<lparr>billing := tbl_update k f (billing d)\<rparr>)"
  using assms by (auto simp: billing_inv_def table_simps split: if_splits)

lemma billing_inv_flag_commit:
  assumes "billing_inv d" and "\<And>b. billing_typed b \<Longrightarrow> billing_typed (f b)"
  shows "billing_inv (db_of (flag_commit k f msg notice pre d))"
  using billing_inv_tbl_update [OF assms] assms(1) by (simp add: flag_commit_db)

lemmas billing_inv_flag_setters =
  billing_inv_flag_commit [where f = set_handed_over, OF _ billing_typed_setters(2)]
  billing_inv_flag_commit [where f = set_couriered, OF _ billing_typed_setters(3)]
  billing_inv_flag_commit [where f = set_checkout, OF _ billing_typed_setters(4)]

section \<open>Handlers\<close>

lemma billing_inv_book_appointment:
  assumes "billing_inv d"
  shows "billing_inv (db_of (book_appointment c pid aid r d))"
  using book_appointment_cases [of c pid aid r d]
proof (elim disjE exE conjE)
  fix resp
  assume "book_appointment c pid aid r d = rollback resp d"
  then show ?thesis using assms by (simp add: rollback_def)
next
  fix p pts ad
  assume "book_appointment c pid aid r d =
       (Json 200 ''Appointment booked'',
        ensure_billing aid (d\<lparr>patients := pts,
                              appointments := appointments d @ [(aid, new_appointment_row c p r)]\<rparr>),
        booking_notices r @ [SaveCsv ''patients'', SaveCsv ''appointments'', SaveCsv ''billing''])"
  then show ?thesis using assms by (simp add: billing_inv_ensure_billing)
qed

lemma billing_inv_prepare_medicine:
  assumes "billing_inv d"
  shows "billing_inv (db_of (prepare_medicine k d))"
  using prepare_medicine_db [of k d]
proof (elim disjE)
  assume "db_of (prepare_medicine k d) = d"
  then show ?thesis using assms by simp
next
  assume "db_of (prepare_medicine k d) =
     (ensure_billing k d)\<lparr>billing := tbl_update k set_prepared (billing (ensure_billing k d))\<rparr>"
  then show ?thesis
    using billing_inv_tbl_update [OF billing_inv_ensure_billing [OF assms] billing_typed_setters(1)]
    by simp
qed

lemma billing_inv_billing_prepare:
  assumes "billing_inv d"
  shows "billing_inv (db_of (billing_prepare pf k q d))"
proof (cases "payment_update pf q")
  case None
  then show ?thesis using assms by (simp add: billing_prepare_def rollback_def)
next
  case (Some f)
  then show ?thesis
    using billing_inv_tbl_update [OF billing_inv_ensure_billing [OF assms], of f k]
          billing_typed_payment_update [OF Some]
    by (simp add: billing_prepare_def Let_def)
qed

lemma billing_inv_flag_handlers:
  assumes "billing_inv d"
  shows "billing_inv (db_of (hand_over_medicine k d))" "billing_inv (db_of (courier_done k d))"
    "billing_inv (db_of (complete_checkout k d))"
proof -
  note inv = billing_inv_flag_setters [OF assms]
  show "billing_inv (db_of (hand_over_medicine k d))"
    using assms inv(1) [of k] by (simp add: hand_over_medicine_def rollback_def split: option.split)
  show "billing_inv (db_of (courier_done k d))"
    using assms inv(2) [of k] by (simp add: courier_done_def rollback_def split: option.split)
  show "billing_inv (db_of (complete_checkout k d))"
    using assms inv(3) [of k] by (simp add: complete_checkout_def rollback_def split: option.split)
qed

lemma billing_inv_handle:
  assumes "billing_inv d"
  shows "billing_inv (db_of (handle e q d))"
  using assms
  by (cases "(e, q, d)" rule: handle.cases)
     (simp_all add: billing_inv_book_appointment billing_inv_prepare_medicine billing_inv_billing_prepare
                    billing_inv_flag_handlers save_diagnosis_db get_diagnosis_def get_billing_def
                    billing_inv_same [OF billing_check_in] billing_inv_same [OF billing_dashboard_book]
                    billing_inv_ensure_billing)

lemma billing_inv_dispatch: "billing_inv d \<Longrightarrow> billing_inv (db_of (dispatch e s q d))"
  by (simp add: dispatch_def billing_inv_handle rollback_def)

lemma billing_inv_empty: "billing_inv empty_db"
  by (simp add: billing_inv_def empty_db_def)

lemma reachable_billing_inv: "reachable d \<Longrightarrow> billing_inv d"
  by (induction rule: reachable.induct) (simp_all add: billing_inv_empty billing_inv_dispatch)

end
