(* ===== verification/Spec2Isabelle.thy ===== *)
theory Spec2Isabelle
  imports Scenario BookingForm Typing
begin

text \<open>
  A verification model of the clinic application \<open>src/app.py\<close> (Flask and
  SQLite, one file).  Staff log in with one of three roles; the receptionist
  books appointments, checks patients in and handles billing, hand-over,
  courier and checkout; the doctor records diagnoses; the pharmacist prepares
  medicines.  Every request opens the database, reads and writes, commits and
  closes; notifications are printed and every mutation rewrites a CSV export.

  \<^bold>\<open>Theories and what they model.\<close>
  \<^item> \<open>Prelude\<close>: Python string stripping and truthiness used by the handlers.
  \<^item> \<open>Store\<close>: the schema of \<open>init_db\<close> (lines 15-40) as one record of four
    tables, each an association list in rowid order; INSERT, INSERT OR IGNORE,
    INSERT OR REPLACE and UPDATE; the placeholder billing row; the integrity
    constraints \<open>db_inv\<close> (primary keys, unique mobile, appointment to patient).
  \<^item> \<open>Dates\<close>: \<open>datetime.strptime(s, '%Y-%m-%d')\<close> as CPython's regular
    expression with its alternatives in priority order, and \<open>strftime\<close>.
  \<^item> \<open>Handler\<close>: responses, exceptions escaping a handler (Flask's 500), the
    effects (WhatsApp notice, CSV export, credit note) and rollback.
  \<^item> \<open>Booking\<close>, \<open>Clinical\<close>, \<open>Billing\<close>: one definition per route
    (\<open>book_appointment\<close>, the dashboard form, \<open>check_in\<close>, \<open>get_diagnosis\<close>,
    \<open>save_diagnosis\<close>, \<open>prepare_medicine\<close>, \<open>get_billing\<close>,
    \<open>billing_prepare\<close>, \<open>hand_over_medicine\<close>, \<open>courier_done\<close>,
    \<open>complete_checkout\<close>), each a function from the database to a response,
    the new database and the effects; an exception before the commit returns
    the old database, one after it the committed one.
  \<^item> \<open>Auth\<close>: \<open>login\<close>, \<open>logout\<close>, the built-in accounts; the hash is a parameter.
  \<^item> \<open>Api\<close>: the route table as a datatype of requests, the role guard
    (\<open>dispatch\<close>), runs of requests and the reachable databases.
  \<^item> \<open>Lifecycle\<close>: the abstract machine of spec 4.6 (prepared, handed over or
    couriered, checked out), and \<open>Refinement\<close>: every request moves every
    billing row by at most one step of it.  The machine lets the delivery
    type change at any step, as a billing save can, so the refinement does
    not pin \<open>courier_done\<close>'s delivery check; its functional theorem does.
  \<^item> \<open>Pages\<close>: the 38-column join of the dashboards and what the Jinja row
    templates compute from it (cells, badges, buttons) on the receptionist's,
    doctor's and pharmacist's pages, and the table bodies, one row per tuple.
  \<^item> \<open>Typing\<close>: the values stored in the billing table's typed columns (0/1
    flags, non-\<open>NULL\<close> charges), an invariant of every handler.
  \<^item> \<open>Search\<close>: the dashboards' search box (\<open>toLowerCase\<close>, \<open>includes\<close>) and
    the search run on the rendered tables of \<open>Pages\<close>, whose cells it reads
    back.
  \<^item> \<open>Client\<close>: the dashboard JavaScript of the billing and diagnosis forms
    and the value rules of the HTML controls they use.
  \<^item> \<open>BookingForm\<close>: the receptionist's booking form (lines 203-230) and
    what its inputs submit to \<open>receptionist_dashboard\<close> (lines 112-120):
    text, number and date inputs and two selects; the valid date strings of
    the date input against what \<open>strptime\<close> parses.
  \<^item> \<open>Browser\<close>: a click on a page button: the request its script posts and
    the fixed alert it then shows.
  \<^item> \<open>Scenario\<close>: the general path from preparation to checkout of one
    appointment, a click on the Complete Checkout button, and the steps of
    the scenario of spec 8 that give concrete reachable databases.

  \<^bold>\<open>What is proved.\<close>  Per route: its functional behaviour on each branch
  (guards, 400/404/500 answers, rollback or commit, notices); round trips
  (save then read a diagnosis or a billing row; the forms opened and saved
  unchanged); invariants of every reachable database
  (the schema constraints, the lifecycle ordering of the flags, derived
  diagnosis flags, the column typing of the billing rows); the refinement
  of the lifecycle by every run of requests and the monotonicity of the
  flags; role separation; progress (every appointment with a patient can
  be prepared, billed, handed over and checked out, each step answering
  200, with the billing save before or after the hand-over reaching the same
  database); bounds (the date input's valid dates against \<open>strptime\<close>'s
  four-digit years 1 to 9999); equivalence of \<open>includes\<close> with
  \<open>Sublist.sublist\<close> and of the search run on the rendered tables with a
  statement on the database.  The findings:
  \<open>save_diagnosis\<close> commits before its crash; checkout crashes on a NULL
  amount; the dashboard templates read the flag columns two places off (and
  print the tests as medicines, on all three pages); the scripts alert
  success whatever the server answers (a refused checkout alerts
  "Checkout completed"); foreign keys are not kept in any reachable state; a
  malformed number in a billing save is a 500, not a 400; a booking
  dated with a valid five-digit year fails with 500.

  \<^bold>\<open>Modelling choices.\<close>  Clock, uuids and \<open>float()\<close> are inputs (\<open>env\<close>);
  REAL columns are reals (no IEEE rounding); strings are lists of 8-bit
  characters, so \<open>toLowerCase\<close> is modelled on the Latin-1 range; a number
  input of the billing form holds the number it was set to, and the booking
  form's age input keeps a valid floating-point string and submits the
  empty string otherwise.  No loop of the program is unbounded, so no fuel
  is needed: every definition is total and executable; the one recursion
  that is not structural (\<open>js_index_from\<close>, the scan of \<open>includes\<close>)
  terminates by a measure.  Floats are printed into table cells by a parameter (Python's
  \<open>str\<close>); the patient's age is kept as the submitted text (SQLite's
  \<open>INTEGER\<close> affinity conversion is not modelled; the pages print it the
  same).

  \<^bold>\<open>Not modelled.\<close>  Markup and CSS of the pages and the login page's HTML
  (no behaviour); the contents of the CSV files (only which table is
  exported); the Flask and SQLite runtime (requests are served one at a
  time, as spec 5 says) and the application bootstrap (lines 1-14, 50-52,
  974-975: imports, secret key, upload folder, \<open>app.run\<close>), which are
  configuration; SHA-256.  The request bodies are the records the pages'
  scripts send: a JSON body that lacks a key (a \<open>KeyError\<close>, answered 500
  before any commit) or holds a value of another type than the field's is
  not represented.
\<close>

definition diag_inv :: "db \<Rightarrow> bool" where
  "diag_inv d \<longleftrightarrow>
     (\<forall>k g. map_of (diagnoses d) k = Some g \<longrightarrow>
        diagnosis_saved g = 1 \<and> medicines_prescribed g = prescribed_flag (medicines g))"

lemma diag_inv_empty: "diag_inv empty_db"
  by (simp add: diag_inv_def empty_db_def)

lemma diag_inv_save_diagnosis: "diag_inv d \<Longrightarrow> diag_inv (db_of (save_diagnosis k q d))"
  by (auto simp: diag_inv_def save_diagnosis_db table_simps diagnosis_of_req_def)

lemma diag_inv_dispatch:
  assumes inv: "diag_inv d"
  shows "diag_inv (db_of (dispatch e s q d))"
proof (cases "has_role (required_role q) s \<and> required_role q = ''doctor''")
  case True
  then show ?thesis
    using doctor_request_cases [of q] inv
    by (auto simp: diag_inv_save_diagnosis get_diagnosis_def)
next
  case False
  then have "diagnoses (db_of (dispatch e s q d)) = diagnoses d"
    using handle_keeps_diagnoses [of q e d] by (cases "has_role (required_role q) s") simp_all
  with inv show ?thesis by (simp add: diag_inv_def)
qed

lemma reachable_diag_inv: "reachable d \<Longrightarrow> diag_inv d"
  by (induction rule: reachable.induct) (simp_all add: diag_inv_empty diag_inv_dispatch)

text \<open>
  C33.  In every reachable database each billing row obeys the ordering of the
  lifecycle (spec 4.6): handed over or couriered only after prepared, checked
  out only after handed over or couriered.
\<close>

theorem reachable_billing_order:
  assumes "reachable d" and "map_of (billing d) k = Some b"
  shows "(py_truthy_int (medicines_handed_over b) \<longrightarrow> py_truthy_int (medicines_prepared b)) \<and>
         (py_truthy_int (couriered b) \<longrightarrow> py_truthy_int (medicines_prepared b)) \<and>
         (py_truthy_int (checkout_done b) \<longrightarrow>
            py_truthy_int (medicines_handed_over b) \<or> py_truthy_int (couriered b))"
proof -
  have "lc_inv (abs_row d k)" by (rule lc_reach_inv [OF reachable_lifecycle [OF assms(1)]])
  then show ?thesis by (simp add: abs_row_Some [OF assms(2)] lc_inv_def abs_billing_def)
qed

text \<open>
  C34.  The stored diagnosis flags are derived, never set independently: in
  every reachable database a diagnosis row has \<open>diagnosis_saved = 1\<close> and
  \<open>medicines_prescribed\<close> equal to the flag computed from its medicines text.
\<close>

theorem reachable_diagnosis_flags:
  assumes "reachable d" and "map_of (diagnoses d) k = Some g"
  shows "diagnosis_saved g = 1 \<and> medicines_prescribed g = prescribed_flag (medicines g)"
  using reachable_diag_inv [OF assms(1)] assms(2) by (simp add: diag_inv_def)

text \<open>
  C30.  The billing table's typed columns hold what the code reads them as:
  in every reachable database each billing row has \<open>medicines_prepared\<close>
  0 or 1 (never \<open>NULL\<close>), the other three progress flags \<open>NULL\<close> or 1, and
  non-\<open>NULL\<close> charges and delivery type; so the dashboards' billing cell,
  guarded by \<open>appt[23] is not none\<close>, is shown for every appointment that
  has a billing row.
\<close>

theorem reachable_billing_typed:
  assumes "reachable d" and "map_of (billing d) k = Some b"
  shows "medicines_prepared b \<in> {Some 0, Some 1} \<and> medicines_handed_over b \<in> {None, Some 1} \<and>
         couriered b \<in> {None, Some 1} \<and> checkout_done b \<in> {None, Some 1} \<and>
         consultation_charge b \<noteq> None \<and> medicine_charge b \<noteq> None \<and> courier_charge b \<noteq> None \<and>
         delivery_type b \<noteq> None \<and> billed_shown (dash_row d k a p)"
proof -
  have t: "billing_typed b"
    using reachable_billing_inv [OF assms(1)] assms(2) by (simp add: billing_inv_def)
  then show ?thesis
    using dash_row_billing_nth(1) [OF assms(2), of a p]
    by (auto simp: billing_typed_def flag_col_def billed_shown_def real_col_def)
qed

text \<open>
  C35.  The foreign keys of the diagnoses and billing tables are not kept in
  any reachable state: from every reachable database, for every id that has
  no appointment, a receptionist's billing save whose numbers parse stores a
  billing row for it, and a doctor's diagnosis save stores a diagnosis row
  and a billing row for it; both databases are reachable and still have no
  appointment with that id.
\<close>

theorem orphan_rows_reachable:
  assumes "reachable d" and "map_of (appointments d) k = None"
    and "payment_update (py_float e) q \<noteq> None"
  shows "reachable (db_of (dispatch e (role_session ''receptionist'') (BillingPrepare k q) d)) \<and>
         map_of (billing (db_of (dispatch e (role_session ''receptionist'') (BillingPrepare k q) d))) k \<noteq> None \<and>
         map_of (appointments (db_of (dispatch e (role_session ''receptionist'') (BillingPrepare k q) d))) k = None \<and>
         reachable (db_of (dispatch e (role_session ''doctor'') (SaveDiagnosis k g) d)) \<and>
         map_of (diagnoses (db_of (dispatch e (role_session ''doctor'') (SaveDiagnosis k g) d))) k =
           Some (diagnosis_of_req g) \<and>
         map_of (billing (db_of (dispatch e (role_session ''doctor'') (SaveDiagnosis k g) d))) k \<noteq> None \<and>
         map_of (appointments (db_of (dispatch e (role_session ''doctor'') (SaveDiagnosis k g) d))) k = None"
proof -
  obtain f where f: "payment_update (py_float e) q = Some f" using assms(3) by blast
  have r1: "reachable (db_of (dispatch e (role_session ''receptionist'') (BillingPrepare k q) d))"
    and r2: "reachable (db_of (dispatch e (role_session ''doctor'') (SaveDiagnosis k g) d))"
    by (rule reach_step [OF assms(1)])+
  have "map_of (billing (db_of (dispatch e (role_session ''receptionist'') (BillingPrepare k q) d))) k \<noteq> None \<and>
        map_of (appointments (db_of (dispatch e (role_session ''receptionist'') (BillingPrepare k q) d))) k = None"
    using assms(2) f
    by (simp add: role_session_allowed billing_prepare_def Let_def ensure_billing_def table_simps
             split: option.split)
  moreover have "map_of (diagnoses (db_of (dispatch e (role_session ''doctor'') (SaveDiagnosis k g) d))) k =
           Some (diagnosis_of_req g) \<and>
         map_of (billing (db_of (dispatch e (role_session ''doctor'') (SaveDiagnosis k g) d))) k \<noteq> None \<and>
         map_of (appointments (db_of (dispatch e (role_session ''doctor'') (SaveDiagnosis k g) d))) k = None"
    using assms(2)
    by (simp add: role_session_allowed save_diagnosis_db ensure_billing_def table_simps split: option.split)
  ultimately show ?thesis using r1 r2 by blast
qed

section \<open>Witnesses\<close>

theorem reachable_billing_order_witness:
  "reachable scen_db5 \<and>
   map_of (billing scen_db5) ''a1'' = Some (set_handed_over (set_prepared placeholder_billing)) \<and>
   py_truthy_int (medicines_prepared (set_handed_over (set_prepared placeholder_billing)))"
proof -
  have b: "map_of (billing scen_db5) ''a1'' = Some (set_handed_over (set_prepared placeholder_billing))"
    by (simp add: scen_db5_def)
  have h: "py_truthy_int (medicines_handed_over (set_handed_over (set_prepared placeholder_billing)))"
    by (simp add: set_handed_over_def)
  show ?thesis
    using reachable_billing_order [OF scen_reachable(1) b] scen_reachable(1) b h by simp
qed

theorem reachable_diagnosis_flags_witness:
  "reachable scen_db5 \<and>
   map_of (diagnoses scen_db5) ''a1'' = Some (diagnosis_of_req (demo_diag ''Amoxicillin'')) \<and>
   medicines_prescribed (diagnosis_of_req (demo_diag ''Amoxicillin'')) =
     prescribed_flag (medicines (diagnosis_of_req (demo_diag ''Amoxicillin'')))"
proof -
  have g: "map_of (diagnoses scen_db5) ''a1'' = Some (diagnosis_of_req (demo_diag ''Amoxicillin''))"
    by (simp add: scen_db5_def scen_db4_def scen_db3_def)
  show ?thesis
    using reachable_diagnosis_flags [OF scen_reachable(1) g] scen_reachable(1) g by simp
qed

theorem reachable_billing_typed_witness:
  "reachable scen_db5 \<and>
   map_of (billing scen_db5) ''a1'' = Some (set_handed_over (set_prepared placeholder_billing)) \<and>
   billed_shown (dash_row scen_db5 ''a1'' demo_appt demo_patient)"
proof -
  have b: "map_of (billing scen_db5) ''a1'' = Some (set_handed_over (set_prepared placeholder_billing))"
    by (simp add: scen_db5_def)
  show ?thesis
    using reachable_billing_typed [OF scen_reachable(1) b, of demo_appt demo_patient] scen_reachable(1) b
    by simp
qed

theorem orphan_rows_reachable_witness:
  "map_of (billing (db_of (dispatch demo_env (role_session ''receptionist'')
                             (BillingPrepare ''ghost'' demo_payment) empty_db))) ''ghost'' \<noteq> None \<and>
   map_of (appointments (db_of (dispatch demo_env (role_session ''doctor'')
                             (SaveDiagnosis ''ghost'' (demo_diag ''Amoxicillin'')) empty_db))) ''ghost'' = None"
proof -
  have "payment_update (py_float demo_env) demo_payment \<noteq> None"
    by (simp add: payment_update_def py_float_or_zero_def demo_payment_def demo_float_def)
  then show ?thesis
    using orphan_rows_reachable [OF reach_init, of "''ghost''" demo_env demo_payment "demo_diag ''Amoxicillin''"]
    by (simp add: empty_db_def)
qed

end
